(* ===== verification/Prelude.thy ===== *)
theory Prelude
  imports Complex_Main
begin

text \<open>
  Shared vocabulary of the development: the exceptions the Python code raises,
  the result type of a call that may raise, its sequencing operator, and the
  generic list lemmas the component theories share (digit strings, character
  substitution tables).  The collection \<open>py_simps\<close> gathers the evaluation
  rules of the Python runtime model; \<open>validator_simps\<close> the characterisations
  of the field validators.
\<close>

named_theorems py_simps "evaluation rules of the Python runtime model"
named_theorems validator_simps "characterisations of the field validators"

section \<open>Exceptions and results\<close>

text \<open>
  Every error the sources raise is an \<open>AccountManagementException\<close> carrying a
  reason string (\<open>uc3m_money/account_management_exception.py\<close>, not part of the
  sources here); Python's own exceptions that escape the code uncaught are kept
  apart so that a theorem can tell them from the domain errors.
\<close>

datatype exc =
    AccountManagementException string
  | KeyError string
  | AttributeError string
  | ValueError

type_synonym 'a py = "exc + 'a"

definition raise_ame :: "string \<Rightarrow> 'a py" where
  "raise_ame msg = Inl (AccountManagementException msg)"

fun py_bind :: "'a py \<Rightarrow> ('a \<Rightarrow> 'b py) \<Rightarrow> 'b py" where
  "py_bind (Inl e) f = Inl e"
| "py_bind (Inr x) f = f x"

lemma py_bind_eq_Inr [simp]:
  "py_bind m f = Inr y \<longleftrightarrow> (\<exists>x. m = Inr x \<and> f x = Inr y)"
  by (cases m) auto

lemma py_bind_eq_Inl:
  "py_bind m f = Inl e \<longleftrightarrow> m = Inl e \<or> (\<exists>x. m = Inr x \<and> f x = Inl e)"
  by (cases m) auto

lemma raise_ame_neq_Inr [simp]: "raise_ame msg \<noteq> Inr x"
  by (simp add: raise_ame_def)

lemma raise_ame_eq_Inl [simp]:
  "raise_ame msg = Inl e \<longleftrightarrow> e = AccountManagementException msg"
  by (auto simp: raise_ame_def)

lemma py_bind_raise [simp]: "py_bind (raise_ame msg) f = raise_ame msg"
  by (simp add: raise_ame_def)

lemma py_bind_assoc [simp]: "py_bind (py_bind x f) g = py_bind x (\<lambda>y. py_bind (f y) g)"
  by (cases x) simp_all

lemma py_bind_split:
  "P (py_bind m f) \<longleftrightarrow> (\<forall>e. m = Inl e \<longrightarrow> P (Inl e)) \<and> (\<forall>v. m = Inr v \<longrightarrow> P (f v))"
  by (cases m) simp_all

lemma py_bind_split_asm:
  "P (py_bind m f) \<longleftrightarrow> \<not> ((\<exists>e. m = Inl e \<and> \<not> P (Inl e)) \<or> (\<exists>v. m = Inr v \<and> \<not> P (f v)))"
  by (cases m) simp_all

lemmas py_bind_splits = py_bind_split py_bind_split_asm

text \<open>A call that returns normally is one whose result is not an exception.\<close>

lemma isl_raise_ame [simp]: "isl (raise_ame msg)"
  by (simp add: raise_ame_def)

lemma not_isl_iff: "\<not> isl x \<longleftrightarrow> (\<exists>y. x = Inr y)"
  by (cases x) auto

section \<open>Substitution tables on lists\<close>

text \<open>
  A table of single-element substitutions, applied at every position at once:
  the reference for a chain of sequential replacements.
\<close>

definition subst_lookup :: "('a \<times> 'a list) list \<Rightarrow> 'a \<Rightarrow> 'a list" where
  "subst_lookup t x = (case map_of t x of Some r \<Rightarrow> r | None \<Rightarrow> [x])"

definition replace_elem :: "'a list \<Rightarrow> 'a \<Rightarrow> 'a list \<Rightarrow> 'a list" where
  "replace_elem s c r = concat (map (\<lambda>x. if x = c then r else [x]) s)"

lemma subst_lookup_Cons:
  "subst_lookup ((c, r) # t) x = (if x = c then r else subst_lookup t x)"
  by (simp add: subst_lookup_def)

lemma subst_lookup_fresh:
  assumes "x \<notin> fst ` set t"
  shows "subst_lookup t x = [x]"
proof -
  from assms have "map_of t x = None" by (simp add: map_of_eq_None_iff)
  then show ?thesis by (simp add: subst_lookup_def)
qed

lemma concat_map_subst_fresh:
  "set r \<inter> fst ` set t = {} \<Longrightarrow> concat (map (subst_lookup t) r) = r"
  by (induction r) (auto simp: subst_lookup_fresh)

text \<open>
  Sequential replacement equals simultaneous substitution as soon as no
  replacement text contains a key of the table: a later step can then never
  rewrite what an earlier step produced.
\<close>

lemma foldl_replace_elem:
  assumes "\<forall>cr\<in>set t. set (snd cr) \<inter> fst ` set t = {}"
  shows "foldl (\<lambda>acc (c, r). replace_elem acc c r) s t = concat (map (subst_lookup t) s)"
  using assms
proof (induction t arbitrary: s)
  case Nil
  then show ?case by (simp add: subst_lookup_def)
next
  case (Cons cr t)
  obtain c r where cr: "cr = (c, r)" by (cases cr)
  from Cons.prems cr have fresh_t: "set r \<inter> fst ` set t = {}"
    by auto
  from Cons.prems have IHp: "\<forall>cr\<in>set t. set (snd cr) \<inter> fst ` set t = {}"
    by auto
  have "foldl (\<lambda>acc (c, r). replace_elem acc c r) s (cr # t)
      = concat (map (subst_lookup t) (replace_elem s c r))"
    using Cons.IH [OF IHp] cr by simp
  also have "\<dots> = concat (map (\<lambda>x. if x = c then concat (map (subst_lookup t) r)
                                     else subst_lookup t x) s)"
    by (induction s) (simp_all add: replace_elem_def)
  also have "\<dots> = concat (map (subst_lookup (cr # t)) s)"
    using fresh_t cr by (induction s) (simp_all add: concat_map_subst_fresh subst_lookup_Cons)
  finally show ?case .
qed

section \<open>Decimal digit strings\<close>

definition is_ascii_digit :: "char \<Rightarrow> bool" where
  "is_ascii_digit c \<longleftrightarrow> (48::nat) \<le> of_char c \<and> of_char c \<le> (57::nat)"

definition digit_val :: "char \<Rightarrow> nat" where
  "digit_val c = of_char c - 48"

text \<open>
  \<open>int_of_digits\<close> is Python's \<open>int(s)\<close> on a string of ASCII digits; the
  development applies it only to strings proved to be such.
\<close>

definition digit_step :: "nat \<Rightarrow> char \<Rightarrow> nat" where
  "digit_step n c = 10 * n + digit_val c"

definition int_of_digits :: "string \<Rightarrow> int" where
  "int_of_digits s = int (foldl digit_step 0 s)"

lemma foldl_digit_step_acc:
  "foldl digit_step a s = a * 10 ^ length s + foldl digit_step 0 s"
proof (induction s arbitrary: a rule: rev_induct)
  case Nil
  then show ?case by simp
next
  case (snoc x s)
  have "foldl digit_step a (s @ [x]) = 10 * foldl digit_step a s + digit_val x"
    by (simp add: digit_step_def)
  also have "\<dots> = 10 * (a * 10 ^ length s + foldl digit_step 0 s) + digit_val x"
    by (simp only: snoc.IH [of a])
  also have "\<dots> = a * 10 ^ length (s @ [x]) + (10 * foldl digit_step 0 s + digit_val x)"
    by (simp add: distrib_left)
  also have "\<dots> = a * 10 ^ length (s @ [x]) + foldl digit_step 0 (s @ [x])"
    by (simp add: digit_step_def)
  finally show ?case .
qed

lemma int_of_digits_Nil [simp]: "int_of_digits [] = 0"
  by (simp add: int_of_digits_def)

lemma int_of_digits_append:
  "int_of_digits (xs @ ys) = int_of_digits xs * 10 ^ length ys + int_of_digits ys"
  unfolding int_of_digits_def foldl_append
  by (subst foldl_digit_step_acc [of "foldl digit_step 0 xs" ys]) simp

lemma int_of_digits_Cons:
  "int_of_digits (x # ys) = int (digit_val x) * 10 ^ length ys + int_of_digits ys"
  using int_of_digits_append [of "[x]" ys] by (simp add: int_of_digits_def digit_step_def)

lemma int_of_digits_nonneg [simp]: "0 \<le> int_of_digits s"
  by (simp add: int_of_digits_def)

lemma digit_val_lt: "is_ascii_digit c \<Longrightarrow> digit_val c < 10"
  unfolding is_ascii_digit_def digit_val_def by linarith

lemma int_of_digits_bound:
  "list_all is_ascii_digit s \<Longrightarrow> int_of_digits s < 10 ^ length s"
proof (induction s)
  case Nil
  then show ?case by simp
next
  case (Cons x s)
  then have "int (digit_val x) \<le> 9" using digit_val_lt by fastforce
  then have "int (digit_val x) * 10 ^ length s \<le> 9 * 10 ^ length s"
    by (intro mult_right_mono) simp_all
  moreover from Cons have "int_of_digits s < 10 ^ length s" by simp
  ultimately show ?case
    unfolding int_of_digits_Cons length_Cons power_Suc by linarith
qed


lemma list_all_update:
  "list_all P xs \<Longrightarrow> P d \<Longrightarrow> list_all P (xs[k := d])"
  using set_update_subset_insert [of xs k d] by (auto simp: list_all_iff)

lemma int_of_digits_middle:
  "int_of_digits (a @ d # b) = int_of_digits (a @ x # b)
     + (int (digit_val d) - int (digit_val x)) * 10 ^ length b"
  by (simp add: int_of_digits_append int_of_digits_Cons algebra_simps)

lemma int_of_digits_update:
  assumes "j < length xs"
  shows "int_of_digits (xs[j := d]) = int_of_digits xs
           + (int (digit_val d) - int (digit_val (xs ! j))) * 10 ^ (length xs - Suc j)"
proof -
  define a where "a = take j xs"
  define b where "b = drop (Suc j) xs"
  have xs: "xs = a @ xs ! j # b"
    using assms by (simp add: a_def b_def id_take_nth_drop)
  have xs': "xs[j := d] = a @ d # b"
    using assms by (simp add: a_def b_def upd_conv_take_nth_drop)
  have lb: "length xs - Suc j = length b" by (simp add: b_def)
  show ?thesis
    unfolding xs' lb using int_of_digits_middle [of a d b "xs ! j"] xs by simp
qed

lemma digit_val_inj:
  assumes "is_ascii_digit c" "is_ascii_digit d" "digit_val c = digit_val d"
  shows "c = d"
proof -
  from assms have "(of_char c :: nat) = of_char d"
    unfolding is_ascii_digit_def digit_val_def by linarith
  then show ?thesis by simp
qed


lemma replicate_numeral [py_simps]: "replicate (numeral k) x = x # replicate (pred_numeral k) x"
  by (simp add: numeral_eq_Suc)

end
