(* ===== verification/PyRuntime.thy ===== *)
theory PyRuntime
  imports Prelude
begin

text \<open>
  The part of Python's runtime the sources call: \<open>str.replace\<close>, \<open>str.split\<close>,
  the character classes of the regular expressions in the validators, and the
  textual forms Python gives to floats.  These are library functions, modelled
  from the Python language reference; the repository's own code is modelled in
  the component theories.  A Python \<open>str\<close> is a \<open>string\<close> here, one \<open>char\<close>
  per code point, so the model covers the code points below 256.
\<close>

section \<open>\<open>str.replace\<close>\<close>

text \<open>
  \<open>s.replace(old, new)\<close> replaces the non-overlapping occurrences of \<open>old\<close>,
  scanning from the left; an empty \<open>old\<close> inserts \<open>new\<close> around every
  character.
\<close>

function py_replace :: "string \<Rightarrow> string \<Rightarrow> string \<Rightarrow> string" where
  "py_replace s old new =
     (if old = [] then new @ concat (map (\<lambda>c. c # new) s)
      else case s of
        [] \<Rightarrow> []
      | c # s' \<Rightarrow>
          if take (length old) s = old then new @ py_replace (drop (length old) s) old new
          else c # py_replace s' old new)"
  by pat_completeness auto
termination
  by (relation "measure (\<lambda>(s, old, new). length s)") auto

declare py_replace.simps [simp del]

lemma py_replace_Nil [simp]: "py_replace [] [c] r = []"
  by (simp add: py_replace.simps)

lemma py_replace_Cons:
  "py_replace (x # s) [c] r = (if x = c then r @ py_replace s [c] r else x # py_replace s [c] r)"
  by (simp add: py_replace.simps [of "x # s"])

text \<open>Replacing a single character is the substitution at every position.\<close>

lemma py_replace_single [py_simps]: "py_replace s [c] r = replace_elem s c r"
  by (induction s) (simp_all add: py_replace_Cons replace_elem_def)

section \<open>\<open>str.split\<close> on one separator character\<close>

fun py_split :: "char \<Rightarrow> string \<Rightarrow> string list" where
  "py_split sep [] = [[]]"
| "py_split sep (c # s) =
     (if c = sep then [] # py_split sep s
      else (case py_split sep s of w # ws \<Rightarrow> (c # w) # ws | [] \<Rightarrow> [[c]]))"

lemma py_split_nonempty [simp]: "py_split sep s \<noteq> []"
  by (induction s) (auto split: list.splits)

lemma py_split_no_sep: "sep \<notin> set s \<Longrightarrow> py_split sep s = [s]"
  by (induction s) auto

lemma py_split_append_sep:
  "sep \<notin> set u \<Longrightarrow> py_split sep (u @ sep # v) = u # py_split sep v"
  by (induction u) auto

section \<open>Character classes of the regular expressions\<close>

text \<open>
  \<open>[a-zA-Z]\<close> is an ASCII letter; \<open>\s\<close> on a \<open>str\<close> pattern is any character
  for which \<open>str.isspace()\<close> holds (below 256: tab, line feed, vertical tab,
  form feed, carriage return, the separators 28--31, space, NEL and NBSP);
  \<open>.\<close> is any character but a line feed.
\<close>

definition is_ascii_letter :: "char \<Rightarrow> bool" where
  "is_ascii_letter c \<longleftrightarrow>
     ((65::nat) \<le> of_char c \<and> of_char c \<le> (90::nat)) \<or>
     ((97::nat) \<le> of_char c \<and> of_char c \<le> (122::nat))"

definition py_isspace :: "char \<Rightarrow> bool" where
  "py_isspace c \<longleftrightarrow> (of_char c :: nat) \<in> {9, 10, 11, 12, 13, 28, 29, 30, 31, 32, 133, 160}"

definition py_dot :: "char \<Rightarrow> bool" where
  "py_dot c \<longleftrightarrow> c \<noteq> CHR 0x0A"

lemma letter_not_space: "is_ascii_letter c \<Longrightarrow> \<not> py_isspace c"
  by (auto simp: is_ascii_letter_def py_isspace_def)

lemma digit_not_letter: "is_ascii_digit c \<Longrightarrow> \<not> is_ascii_letter c"
  by (auto simp: is_ascii_letter_def is_ascii_digit_def)


section \<open>Decimal strings of naturals: \<open>str(n)\<close>\<close>

fun nat_digits :: "nat \<Rightarrow> string" where
  "nat_digits n =
     (if n < 10 then [char_of (48 + n)] else nat_digits (n div 10) @ [char_of (48 + n mod 10)])"

declare nat_digits.simps [simp del]

lemma char_of_eq_iff_of_char [py_simps]: "char_of (n::nat) = c \<longleftrightarrow> n mod 256 = of_char c"
  by (metis of_char_eq_iff of_char_of)

lemma eq_char_of_iff_of_char [py_simps]: "c = char_of (n::nat) \<longleftrightarrow> of_char c = n mod 256"
  by (metis of_char_eq_iff of_char_of)

lemma is_ascii_digit_char_of: "(k::nat) < 10 \<Longrightarrow> is_ascii_digit (char_of (48 + k))"
  by (simp add: is_ascii_digit_def)

lemma digit_val_char_of: "(k::nat) < 10 \<Longrightarrow> digit_val (char_of (48 + k)) = k"
  by (simp add: digit_val_def)

lemma nat_digits_ne [simp]: "nat_digits n \<noteq> []"
  by (subst nat_digits.simps) simp

lemma nat_digits_digits: "list_all is_ascii_digit (nat_digits n)"
proof (induction n rule: nat_digits.induct)
  case (1 n)
  then show ?case
    by (subst nat_digits.simps) (simp add: is_ascii_digit_char_of)
qed

text \<open>\<open>int(str(n)) == n\<close>: the decimal string of a natural reads back as it.\<close>

lemma int_of_digits_nat_digits [py_simps]: "int_of_digits (nat_digits n) = int n"
proof (induction n rule: nat_digits.induct)
  case (1 n)
  show ?case
  proof (cases "n < 10")
    case True
    then show ?thesis
      by (subst nat_digits.simps) (simp add: int_of_digits_def digit_step_def digit_val_char_of)
  next
    case False
    with "1.IH" have "int_of_digits (nat_digits (n div 10)) = int (n div 10)" by simp
    with False show ?thesis
      by (subst nat_digits.simps) (simp add: int_of_digits_append int_of_digits_def
          digit_step_def digit_val_char_of)
  qed
qed

lemma nat_digits_bounds:
  "n < 10 ^ length (nat_digits n) \<and> (0 < n \<longrightarrow> 10 ^ (length (nat_digits n) - 1) \<le> n)"
proof (induction n rule: nat_digits.induct)
  case (1 n)
  show ?case
  proof (cases "n < 10")
    case True
    then show ?thesis by (simp add: nat_digits.simps [of n])
  next
    case False
    define L where "L = length (nat_digits (n div 10))"
    from False "1.IH" have ih: "n div 10 < 10 ^ L" "0 < n div 10 \<longrightarrow> 10 ^ (L - 1) \<le> n div 10"
      by (simp_all add: L_def)
    have L1: "1 \<le> L" using nat_digits_ne [of "n div 10"] by (cases L) (simp_all add: L_def)
    have len: "length (nat_digits n) = Suc L"
      using False by (subst nat_digits.simps) (simp add: L_def)
    have "n < 10 ^ Suc L" using ih(1) by simp
    moreover have "10 ^ L \<le> n"
    proof -
      from False have "0 < n div 10" by simp
      with ih(2) have "10 ^ (L - 1) \<le> n div 10" by simp
      then have "10 * 10 ^ (L - 1) \<le> 10 * (n div 10)" by simp
      also have "\<dots> \<le> n" by simp
      finally show ?thesis using L1 by (simp add: power_eq_if split: if_splits)
    qed
    ultimately show ?thesis by (simp add: len)
  qed
qed

section \<open>Python floats\<close>

text \<open>
  A finite float is kept as its shortest round-tripping decimal, the digits
  \<open>repr()\<close> prints: a sign, a coefficient \<open>c\<close> and an exponent \<open>e\<close> standing for
  \<open>\<plusminus>c \<cdot> 10\<^sup>e\<close>; in the normal form \<open>pf_wf\<close> the coefficient has no trailing
  zero.  The code compares floats only with the exactly representable integers
  10 and 10000, and on those the comparison of the binary value and of its
  shortest decimal agree (the decimal lies in the rounding interval of the
  binary value, which contains no other integer candidate as short); equality of
  floats is equality of the values, so \<open>0.0 == -0.0\<close> and \<open>nan != nan\<close>.
\<close>

datatype pyfloat = PyFinite bool nat int | PyInf bool | PyNaN

definition dec_value :: "bool \<Rightarrow> nat \<Rightarrow> int \<Rightarrow> rat" where
  "dec_value neg c e = (if neg then - 1 else 1) * of_nat c * power_int 10 e"

fun pf_wf :: "pyfloat \<Rightarrow> bool" where
  "pf_wf (PyFinite neg c e) \<longleftrightarrow> (if c = 0 then e = 0 else c mod 10 \<noteq> 0)"
| "pf_wf _ \<longleftrightarrow> True"

fun py_float_lt_int :: "pyfloat \<Rightarrow> int \<Rightarrow> bool" where
  "py_float_lt_int (PyFinite neg c e) k \<longleftrightarrow> dec_value neg c e < of_int k"
| "py_float_lt_int (PyInf neg) k \<longleftrightarrow> neg"
| "py_float_lt_int PyNaN k \<longleftrightarrow> False"

fun py_float_gt_int :: "pyfloat \<Rightarrow> int \<Rightarrow> bool" where
  "py_float_gt_int (PyFinite neg c e) k \<longleftrightarrow> of_int k < dec_value neg c e"
| "py_float_gt_int (PyInf neg) k \<longleftrightarrow> \<not> neg"
| "py_float_gt_int PyNaN k \<longleftrightarrow> False"

fun py_float_eq :: "pyfloat \<Rightarrow> pyfloat \<Rightarrow> bool" where
  "py_float_eq (PyFinite n c e) (PyFinite n' c' e') \<longleftrightarrow> dec_value n c e = dec_value n' c' e'"
| "py_float_eq (PyInf n) (PyInf n') \<longleftrightarrow> n = n'"
| "py_float_eq _ _ \<longleftrightarrow> False"

lemma py_float_eq_refl: "x \<noteq> PyNaN \<Longrightarrow> py_float_eq x x"
  by (cases x) simp_all

lemma py_float_eq_sym: "py_float_eq x y \<longleftrightarrow> py_float_eq y x"
  by (cases x; cases y) auto

lemma py_float_eq_NaN [simp]: "\<not> py_float_eq PyNaN y" "\<not> py_float_eq x PyNaN"
  by (cases y; simp) (cases x; simp)

text \<open>
  \<open>float.__repr__\<close> (CPython's short repr): positional notation when the decimal
  point position \<open>decpt\<close> satisfies \<open>-4 < decpt \<le> 16\<close>, with \<open>.0\<close> added to an
  integral value; scientific notation otherwise, with a signed exponent of at
  least two digits.
\<close>

definition exp_suffix :: "int \<Rightarrow> string" where
  "exp_suffix x = ''e'' @ (if x < 0 then ''-'' else ''+'') @
     (if \<bar>x\<bar> < 10 then ''0'' else []) @ nat_digits (nat \<bar>x\<bar>)"

definition py_float_repr :: "pyfloat \<Rightarrow> string" where
  "py_float_repr x = (case x of
      PyNaN \<Rightarrow> ''nan''
    | PyInf neg \<Rightarrow> (if neg then ''-inf'' else ''inf'')
    | PyFinite neg c e \<Rightarrow>
       (let ds = nat_digits c; n = int (length ds); decpt = n + e
        in (if neg then ''-'' else []) @
           (if decpt \<le> -4 \<or> 16 < decpt
            then hd ds # (if 1 < length ds then CHR ''.'' # tl ds else []) @ exp_suffix (decpt - 1)
            else if decpt \<le> 0 then ''0.'' @ replicate (nat (- decpt)) (CHR ''0'') @ ds
            else if n \<le> decpt then ds @ replicate (nat (decpt - n)) (CHR ''0'') @ ''.0''
            else take (nat decpt) ds @ CHR ''.'' # drop (nat decpt) ds)))"


section \<open>Facts on the decimal form of floats\<close>

lemma pow10_less_iff: "power_int (10::rat) m < power_int 10 n \<longleftrightarrow> m < n"
  by (metis not_less power_int_increasing power_int_strict_increasing one_less_numeral_iff
      semiring_norm(76) less_imp_le one_le_numeral)

lemma pow10_le_iff: "power_int (10::rat) m \<le> power_int 10 n \<longleftrightarrow> m \<le> n"
  using pow10_less_iff [of n m] by linarith

lemma dec_value_pos_decpt:
  assumes "10 \<le> dec_value neg c e" "dec_value neg c e \<le> 10000"
  shows "\<not> neg" "0 < c" "2 \<le> int (length (nat_digits c)) + e" "int (length (nat_digits c)) + e \<le> 5"
proof -
  have nn: "0 \<le> (of_nat c :: rat) * power_int 10 e" by simp
  show "\<not> neg"
  proof
    assume neg
    then have "dec_value neg c e \<le> 0" using nn by (simp add: dec_value_def)
    with assms(1) show False by simp
  qed
  then have v: "dec_value neg c e = of_nat c * power_int 10 e" by (simp add: dec_value_def)
  show "0 < c"
  proof (rule ccontr)
    assume "\<not> 0 < c"
    with v assms(1) show False by simp
  qed
  define n where "n = length (nat_digits c)"
  have b1: "c < 10 ^ n" and b2: "10 ^ (n - 1) \<le> c"
    using nat_digits_bounds [of c] \<open>0 < c\<close> by (simp_all add: n_def)
  have n1: "1 \<le> n" by (simp add: n_def Suc_le_eq)
  have "(10::rat) < power_int 10 (int n + e)"
  proof -
    have "(of_nat c :: rat) < of_nat (10 ^ n)" using b1 by (simp only: of_nat_less_iff)
    then have "(of_nat c :: rat) * power_int 10 e < power_int 10 (int n) * power_int 10 e"
      by (intro mult_strict_right_mono) simp_all
    also have "\<dots> = power_int 10 (int n + e)" by (simp add: power_int_add)
    finally show ?thesis using assms(1) v by simp
  qed
  then have "power_int (10::rat) 1 < power_int 10 (int n + e)" by simp
  then show "2 \<le> int n + e" unfolding n_def pow10_less_iff by simp
  have "power_int (10::rat) (int (n - 1) + e) \<le> power_int 10 4"
  proof -
    have "power_int (10::rat) (int (n - 1) + e) = of_nat (10 ^ (n - 1)) * power_int 10 e"
      by (simp add: power_int_add)
    also have "\<dots> \<le> of_nat c * power_int 10 e"
      using b2 by (intro mult_right_mono) (simp_all only: of_nat_le_iff, simp)
    also have "\<dots> \<le> 10000" using assms(2) v by simp
    finally show ?thesis by simp
  qed
  then show "int n + e \<le> 5" unfolding pow10_le_iff using n1 by simp
qed

lemma dot_notin_nat_digits: "CHR ''.'' \<notin> set (nat_digits c)"
  using nat_digits_digits [of c] by (auto simp: list_all_iff is_ascii_digit_def)

lemma repr_positional_frac:
  assumes "0 < int (length (nat_digits c)) + e" "int (length (nat_digits c)) + e \<le> 16"
  shows "CHR ''.'' \<in> set (py_float_repr (PyFinite False c e))"
    and "length (py_split (CHR ''.'') (py_float_repr (PyFinite False c e)) ! 1)
           = (if 0 \<le> e then 1 else nat (- e))"
proof -
  define ds where "ds = nat_digits c"
  define d where "d = int (length ds) + e"
  have nd: "CHR ''.'' \<notin> set ds" by (simp add: ds_def dot_notin_nat_digits)
  have d: "0 < d" "d \<le> 16" using assms by (simp_all add: d_def ds_def)
  have "CHR ''.'' \<in> set (py_float_repr (PyFinite False c e)) \<and>
        length (py_split (CHR ''.'') (py_float_repr (PyFinite False c e)) ! 1)
           = (if 0 \<le> e then 1 else nat (- e))"
  proof (cases "0 \<le> e")
    case True
    then have "int (length ds) \<le> d" by (simp add: d_def)
    then have r: "py_float_repr (PyFinite False c e)
        = (ds @ replicate (nat (d - int (length ds))) (CHR ''0'')) @ CHR ''.'' # ''0''"
      using d by (simp add: py_float_repr_def Let_def ds_def [symmetric] d_def [symmetric])
    have "CHR ''.'' \<notin> set (ds @ replicate (nat (d - int (length ds))) (CHR ''0''))"
      using nd by auto
    then have "py_split (CHR ''.'') (py_float_repr (PyFinite False c e))
        = (ds @ replicate (nat (d - int (length ds))) (CHR ''0'')) # py_split (CHR ''.'') ''0''"
      unfolding r by (rule py_split_append_sep)
    then show ?thesis
      using True by (simp add: r)
  next
    case False
    then have "\<not> int (length ds) \<le> d" by (simp add: d_def)
    then have r: "py_float_repr (PyFinite False c e)
        = take (nat d) ds @ CHR ''.'' # drop (nat d) ds"
      using d by (simp add: py_float_repr_def Let_def ds_def [symmetric] d_def [symmetric])
    have "CHR ''.'' \<notin> set (take (nat d) ds)" "CHR ''.'' \<notin> set (drop (nat d) ds)"
      using nd by (auto dest: in_set_takeD in_set_dropD)
    moreover have "length (drop (nat d) ds) = nat (- e)"
    proof -
      have "length (drop (nat d) ds) = length ds - nat d" by simp
      also have "\<dots> = nat (- e)" using False d(1) unfolding d_def by arith
      finally show ?thesis .
    qed
    ultimately show ?thesis
      using False by (simp add: r py_split_append_sep py_split_no_sep)
  qed
  then show "CHR ''.'' \<in> set (py_float_repr (PyFinite False c e))"
    and "length (py_split (CHR ''.'') (py_float_repr (PyFinite False c e)) ! 1)
           = (if 0 \<le> e then 1 else nat (- e))" by simp_all
qed

end
