(* ===== verification/Iban.thy ===== *)
theory Iban
  imports PyRuntime
begin

text \<open>
  IBAN validation, \<open>TransferRequest.validate_iban\<close> in
  \<open>src/src/main/python/uc3m_money/transfer_request.py\<close> (the method
  \<open>AccountManager.validate_iban\<close> of the older account manager under
  \<open>src/G8X.2025.T00.GE4-main\<close> has the same body).  The code checks the format
  \<open>ES\<close> followed by 22 digits, zeroes the check digits, moves the first four
  characters to the end, replaces letters by two-digit codes with a chain of
  \<open>str.replace\<close> calls, and compares the declared check digits with
  \<open>98 - n mod 97\<close>.  The lemmas show that the chain of replacements is the
  position-wise substitution, that the code accepts exactly the IBANs of the
  ISO 13616 / ISO 7064 mod-97 rule whose check digits lie in 02..98, what it
  returns, and that it detects every single-digit substitution.
\<close>

section \<open>Definitions\<close>

text \<open>The replacement chain of lines 60--71, in the order of the calls.\<close>

definition iban_letter_codes :: "(char \<times> string) list" where
  "iban_letter_codes =
    [(CHR ''A'', ''10''),
     (CHR ''B'', ''11''),
     (CHR ''C'', ''12''),
     (CHR ''D'', ''13''),
     (CHR ''E'', ''14''),
     (CHR ''F'', ''15''),
     (CHR ''G'', ''16''),
     (CHR ''H'', ''17''),
     (CHR ''I'', ''18''),
     (CHR ''J'', ''19''),
     (CHR ''K'', ''20''),
     (CHR ''L'', ''21''),
     (CHR ''M'', ''22''),
     (CHR ''N'', ''23''),
     (CHR ''O'', ''24''),
     (CHR ''P'', ''25''),
     (CHR ''Q'', ''26''),
     (CHR ''R'', ''27''),
     (CHR ''S'', ''28''),
     (CHR ''T'', ''29''),
     (CHR ''U'', ''30''),
     (CHR ''V'', ''31''),
     (CHR ''W'', ''32''),
     (CHR ''X'', ''33''),
     (CHR ''Y'', ''34''),
     (CHR ''Z'', ''35'')]"

text \<open>\<open>check_regular(r"^ES[0-9]{22}", iban)\<close>: a full match of the pattern.\<close>

definition iban_format_ok :: "string \<Rightarrow> bool" where
  "iban_format_ok iban \<longleftrightarrow>
     length iban = 24 \<and> take 2 iban = ''ES'' \<and> list_all is_ascii_digit (drop 2 iban)"

definition replace_letters :: "string \<Rightarrow> string" where
  "replace_letters iban = foldl (\<lambda>acc (c, r). py_replace acc [c] r) iban iban_letter_codes"

definition validate_iban :: "string \<Rightarrow> string py" where
  "validate_iban iban =
     (if \<not> iban_format_ok iban then raise_ame ''Invalid IBAN format''
      else
        let original_code = take 2 (drop 2 iban);
            iban = take 2 iban @ ''00'' @ drop 4 iban;
            iban = drop 4 iban @ take 4 iban;
            iban = replace_letters iban;
            int_iban = int_of_digits iban;
            md = int_iban mod 97;
            control_digit = 98 - md
        in if int_of_digits original_code \<noteq> control_digit
           then raise_ame ''Invalid IBAN control digit''
           else Inr iban)"

text \<open>
  The standard rule, as the reference the code is compared with: move the
  country code and check digits to the end, map each letter to its code, and
  require the number to be 1 modulo 97.
\<close>

definition iban_numeric :: "string \<Rightarrow> string" where
  "iban_numeric s = concat (map (subst_lookup iban_letter_codes) (drop 4 s @ take 4 s))"

definition iban_checksum_ok :: "string \<Rightarrow> bool" where
  "iban_checksum_ok s \<longleftrightarrow> int_of_digits (iban_numeric s) mod 97 = 1"

definition check_digits :: "string \<Rightarrow> int" where
  "check_digits s = int_of_digits (take 2 (drop 2 s))"

section \<open>The replacement chain\<close>

lemma iban_letter_codes_keys: "fst ` set iban_letter_codes \<subseteq> Collect is_ascii_letter"
  by (simp add: iban_letter_codes_def is_ascii_letter_def)

lemma iban_letter_codes_fresh:
  "\<forall>cr\<in>set iban_letter_codes. set (snd cr) \<inter> fst ` set iban_letter_codes = {}"
  by (simp add: iban_letter_codes_def)

text \<open>
  The chain of \<open>str.replace\<close> calls of lines 60--71 is the single-pass
  substitution of each letter by its code: no code contains a letter, so no call
  rewrites the output of an earlier one, whatever the input string.
\<close>

lemma replace_letters_subst:
  "replace_letters x = concat (map (subst_lookup iban_letter_codes) x)"
  unfolding replace_letters_def py_replace_single
  by (rule foldl_replace_elem [OF iban_letter_codes_fresh])

lemma subst_digits_id:
  assumes "list_all is_ascii_digit b"
  shows "concat (map (subst_lookup iban_letter_codes) b) = b"
proof (rule concat_map_subst_fresh)
  show "set b \<inter> fst ` set iban_letter_codes = {}"
    using assms iban_letter_codes_keys digit_not_letter by (fastforce simp: list_all_iff)
qed

section \<open>Arithmetic of the check digits\<close>

text \<open>
  The code's test \<open>c = 98 - n\<^sub>0 mod 97\<close>, with \<open>n\<^sub>0\<close> the number with zeroed
  check digits, is the standard test \<open>(n\<^sub>0 + c) mod 97 = 1\<close> restricted to the
  check-digit range 02..98.
\<close>

lemma check_digit_iff:
  fixes n c :: int
  assumes c: "0 \<le> c" "c \<le> 99"
  shows "c = 98 - n mod 97 \<longleftrightarrow> (n + c) mod 97 = 1 \<and> 2 \<le> c \<and> c \<le> 98"
proof -
  define r where "r = n mod 97"
  define q where "q = (r + c) div 97"
  define m where "m = (r + c) mod 97"
  have r: "0 \<le> r" "r < 97" by (simp_all add: r_def)
  have m: "0 \<le> m" "m < 97" by (simp_all add: m_def)
  have e: "(n + c) mod 97 = m" by (simp add: r_def m_def mod_add_left_eq)
  have rc: "r + c = 97 * q + m" by (simp add: q_def m_def)
  have q0: "0 \<le> q" using r c by (simp add: q_def)
  have "q \<le> 195 div 97" unfolding q_def using r c by (intro zdiv_mono1) simp_all
  then have q2: "q \<le> 2" by simp
  from q0 q2 have "q = 0 \<or> q = 1 \<or> q = 2" by arith
  then show ?thesis
  proof (elim disjE)
    assume "q = 0" with rc m r c e show ?thesis unfolding r_def [symmetric] by linarith
  next
    assume "q = 1" with rc m r c e show ?thesis unfolding r_def [symmetric] by linarith
  next
    assume "q = 2" with rc m r c e show ?thesis unfolding r_def [symmetric] by linarith
  qed
qed

section \<open>Shape of a well-formed IBAN\<close>

lemma iban_format_split:
  assumes "iban_format_ok s"
  shows "s = ''ES'' @ take 2 (drop 2 s) @ drop 4 s"
    and "length (take 2 (drop 2 s)) = 2"
    and "list_all is_ascii_digit (take 2 (drop 2 s))"
    and "list_all is_ascii_digit (drop 4 s)"
    and "length (drop 4 s) = 20"
proof -
  from assms have len: "length s = 24" and es: "take 2 s = ''ES''"
    and dig: "list_all is_ascii_digit (drop 2 s)"
    by (simp_all add: iban_format_ok_def)
  have "s = take 2 s @ take 2 (drop 2 s) @ drop 2 (drop 2 s)"
    by (simp only: append_take_drop_id)
  then show "s = ''ES'' @ take 2 (drop 2 s) @ drop 4 s"
    using es by simp
  show "length (take 2 (drop 2 s)) = 2" using len by simp
  show "list_all is_ascii_digit (take 2 (drop 2 s))"
    using dig by (auto simp: list_all_iff dest: in_set_takeD)
  show "list_all is_ascii_digit (drop 4 s)"
    using dig set_drop_subset_set_drop [of 2 4 s] by (auto simp: list_all_iff)
  show "length (drop 4 s) = 20" using len by simp
qed

lemma subst_ES00: "concat (map (subst_lookup iban_letter_codes) ''ES00'') = ''142800''"
  by (simp add: iban_letter_codes_def subst_lookup_def)

lemma subst_ES: "concat (map (subst_lookup iban_letter_codes) ''ES'') = ''1428''"
  by (simp add: iban_letter_codes_def subst_lookup_def)

text \<open>The string the code builds from a well-formed IBAN, before \<open>int()\<close>.\<close>

lemma iban_rearranged:
  assumes "iban_format_ok s"
  defines "z \<equiv> take 2 s @ ''00'' @ drop 4 s"
  shows "replace_letters (drop 4 z @ take 4 z) = drop 4 s @ ''142800''"
proof -
  from assms(1) have es: "take 2 s = ''ES''" by (simp add: iban_format_ok_def)
  then have z: "z = ''ES00'' @ drop 4 s" by (simp add: z_def)
  have "replace_letters (drop 4 z @ take 4 z)
      = concat (map (subst_lookup iban_letter_codes) (drop 4 s))
        @ concat (map (subst_lookup iban_letter_codes) ''ES00'')"
    by (simp add: z replace_letters_subst)
  also have "\<dots> = drop 4 s @ ''142800''"
    using iban_format_split(4) [OF assms(1)] by (simp only: subst_digits_id subst_ES00)
  finally show ?thesis .
qed

lemma iban_format_cases:
  assumes "iban_format_ok s"
  obtains c2 b where "s = ''ES'' @ c2 @ b" "length c2 = 2" "length b = 20"
    "list_all is_ascii_digit c2" "list_all is_ascii_digit b"
proof
  note sp = iban_format_split [OF assms]
  show "s = ''ES'' @ take 2 (drop 2 s) @ drop 4 s" by (rule sp(1))
qed (use iban_format_split [OF assms] in simp_all)

lemma iban_numeric_split:
  assumes "iban_format_ok s"
  shows "iban_numeric s = drop 4 s @ ''1428'' @ take 2 (drop 2 s)"
  using assms
proof (rule iban_format_cases)
  fix c2 b
  assume s: "s = ''ES'' @ c2 @ b" and l: "length c2 = 2"
    and d: "list_all is_ascii_digit c2" "list_all is_ascii_digit b"
  have "iban_numeric s = concat (map (subst_lookup iban_letter_codes) b)
      @ concat (map (subst_lookup iban_letter_codes) ''ES'')
      @ concat (map (subst_lookup iban_letter_codes) c2)"
    using l by (simp add: iban_numeric_def s)
  also have "\<dots> = b @ ''1428'' @ c2"
    using d by (simp only: subst_digits_id subst_ES)
  finally show ?thesis using l by (simp add: s)
qed


lemma int_of_digits_numeric:
  assumes "iban_format_ok s"
  shows "int_of_digits (iban_numeric s) = int_of_digits (drop 4 s @ ''142800'') + check_digits s"
proof -
  have l: "length (take 2 (drop 2 s)) = 2" by (rule iban_format_split(2) [OF assms])
  have k1: "int_of_digits ''142800'' = 142800" and k2: "int_of_digits ''1428'' = 1428"
    by (simp_all add: int_of_digits_def digit_step_def digit_val_def)
  show ?thesis
    unfolding iban_numeric_split [OF assms] check_digits_def int_of_digits_append
    using l k1 k2 by simp
qed

lemma check_digits_range:
  assumes "iban_format_ok s"
  shows "0 \<le> check_digits s" "check_digits s \<le> 99"
proof -
  have "check_digits s < 10 ^ length (take 2 (drop 2 s))"
    unfolding check_digits_def by (rule int_of_digits_bound [OF iban_format_split(3) [OF assms]])
  then show "check_digits s \<le> 99" using iban_format_split(2) [OF assms] by simp
qed (simp add: check_digits_def)

lemma validate_iban_format_ok:
  assumes ok: "iban_format_ok s"
  shows "validate_iban s =
      (if check_digits s \<noteq> 98 - int_of_digits (drop 4 s @ ''142800'') mod 97
       then raise_ame ''Invalid IBAN control digit''
       else Inr (drop 4 s @ ''142800''))"
proof -
  have "validate_iban s =
      (let z = take 2 s @ ''00'' @ drop 4 s; w = replace_letters (drop 4 z @ take 4 z)
       in if int_of_digits (take 2 (drop 2 s)) \<noteq> 98 - int_of_digits w mod 97
          then raise_ame ''Invalid IBAN control digit'' else Inr w)"
    unfolding validate_iban_def using ok by (simp only: Let_def if_False not_True_eq_False)
  also have "\<dots> =
      (if check_digits s \<noteq> 98 - int_of_digits (drop 4 s @ ''142800'') mod 97
       then raise_ame ''Invalid IBAN control digit''
       else Inr (drop 4 s @ ''142800''))"
    unfolding Let_def iban_rearranged [OF ok] check_digits_def ..
  finally show ?thesis .
qed

lemma validate_iban_Inr:
  assumes "validate_iban s = Inr v"
  shows "iban_format_ok s \<and> v = drop 4 s @ ''142800''"
proof (cases "iban_format_ok s")
  case True
  then show ?thesis using assms by (simp add: validate_iban_format_ok split: if_splits)
next
  case False
  then show ?thesis using assms by (simp add: validate_iban_def)
qed

section \<open>Correctness of \<open>validate_iban\<close>\<close>

lemma validate_iban_eq:
  "validate_iban s =
     (if \<not> iban_format_ok s then raise_ame ''Invalid IBAN format''
      else if iban_checksum_ok s \<and> 2 \<le> check_digits s \<and> check_digits s \<le> 98
      then Inr (drop 4 s @ ''142800'')
      else raise_ame ''Invalid IBAN control digit'')"
proof (cases "iban_format_ok s")
  case False
  then show ?thesis by (simp add: validate_iban_def)
next
  case True
  define n0 where "n0 = int_of_digits (drop 4 s @ ''142800'')"
  have code: "validate_iban s =
      (if check_digits s \<noteq> 98 - n0 mod 97 then raise_ame ''Invalid IBAN control digit''
       else Inr (drop 4 s @ ''142800''))"
    unfolding n0_def by (rule validate_iban_format_ok [OF True])
  have "check_digits s = 98 - n0 mod 97 \<longleftrightarrow>
        (n0 + check_digits s) mod 97 = 1 \<and> 2 \<le> check_digits s \<and> check_digits s \<le> 98"
    by (rule check_digit_iff [OF check_digits_range [OF True]])
  moreover have "int_of_digits (iban_numeric s) = n0 + check_digits s"
    by (simp add: int_of_digits_numeric [OF True] n0_def)
  ultimately show ?thesis
    using True by (simp add: code iban_checksum_ok_def)
qed



text \<open>
  C1: The code raises the format error exactly on strings that are not \<open>ES\<close> and 22
  digits, accepts exactly the well-formed IBANs that satisfy the ISO 7064 mod-97
  rule with check digits in 02..98, and then returns the rearranged numeric
  string: the 20-digit BBAN followed by \<open>142800\<close> (E = 14, S = 28, zeroed check
  digits), not the IBAN it was given.
\<close>

theorem validate_iban_iso7064:
  "validate_iban s =
     (if \<not> iban_format_ok s then raise_ame ''Invalid IBAN format''
      else if iban_checksum_ok s \<and> 2 \<le> check_digits s \<and> check_digits s \<le> 98
      then Inr (drop 4 s @ ''142800'')
      else raise_ame ''Invalid IBAN control digit'')"
  by (rule validate_iban_eq)

section \<open>Detection of single-digit errors\<close>

lemma iban_format_shape:
  "iban_format_ok (''ES'' @ c2 @ b) \<longleftrightarrow>
     length c2 + length b = 22 \<and> list_all is_ascii_digit c2 \<and> list_all is_ascii_digit b"
  by (simp add: iban_format_ok_def)

lemma iban_numeric_shape:
  assumes "length c2 = 2" "list_all is_ascii_digit c2" "list_all is_ascii_digit b"
  shows "iban_numeric (''ES'' @ c2 @ b) = b @ ''1428'' @ c2"
proof -
  have "iban_numeric (''ES'' @ c2 @ b) = concat (map (subst_lookup iban_letter_codes) b)
      @ concat (map (subst_lookup iban_letter_codes) ''ES'')
      @ concat (map (subst_lookup iban_letter_codes) c2)"
    using assms(1) by (simp add: iban_numeric_def)
  then show ?thesis
    using assms(2,3) by (simp only: subst_digits_id subst_ES)
qed

text \<open>
  Changing one digit of a well-formed IBAN (check digits included) changes one
  digit of its rearranged number.
\<close>

lemma iban_update_shape:
  assumes "iban_format_ok s" "2 \<le> i" "i < 24" "is_ascii_digit d"
  defines "j \<equiv> if 4 \<le> i then i - 4 else i + 22"
  shows "iban_format_ok (s[i := d])"
    and "iban_numeric (s[i := d]) = (iban_numeric s)[j := d]"
    and "j < length (iban_numeric s)"
    and "iban_numeric s ! j = s ! i"
proof -
  obtain c2 b where s: "s = ''ES'' @ c2 @ b" and l: "length c2 = 2" "length b = 20"
    and dc: "list_all is_ascii_digit c2" and db: "list_all is_ascii_digit b"
    using iban_format_cases [OF assms(1)] by blast
  have num: "iban_numeric s = b @ ''1428'' @ c2"
    unfolding s by (rule iban_numeric_shape [OF l(1) dc db])
  show "iban_numeric s ! j = s ! i"
    using assms(2,3) l unfolding num j_def by (cases "4 \<le> i") (auto simp: s nth_append eval_nat_numeral)
  show "j < length (iban_numeric s)"
    using assms(2,3) l unfolding num j_def by (cases "4 \<le> i") auto
  have both: "iban_format_ok (s[i := d]) \<and> iban_numeric (s[i := d]) = (iban_numeric s)[j := d]"
  proof (cases "4 \<le> i")
    case True
    have gen: "\<And>p. length p = 2 \<Longrightarrow> (p @ c2 @ b)[i := d] = p @ c2 @ b[i - 4 := d]"
      using True l by (auto simp: list_update_append)
    have s': "s[i := d] = ''ES'' @ c2 @ b[i - 4 := d]"
      unfolding s by (rule gen) simp
    have db': "list_all is_ascii_digit (b[i - 4 := d])"
      by (rule list_all_update [OF db assms(4)])
    have "iban_format_ok (s[i := d])"
      unfolding s' iban_format_shape using l dc db' by simp
    moreover have "iban_numeric (s[i := d]) = (iban_numeric s)[j := d]"
      unfolding s' iban_numeric_shape [OF l(1) dc db'] num j_def
      using True assms(3) l by (auto simp: list_update_append)
    ultimately show ?thesis ..
  next
    case False
    have gen: "\<And>p. length p = 2 \<Longrightarrow> (p @ c2 @ b)[i := d] = p @ c2[i - 2 := d] @ b"
      using False assms(2) l by (auto simp: list_update_append)
    have s': "s[i := d] = ''ES'' @ c2[i - 2 := d] @ b"
      unfolding s by (rule gen) simp
    have dc': "list_all is_ascii_digit (c2[i - 2 := d])"
      by (rule list_all_update [OF dc assms(4)])
    have lc': "length (c2[i - 2 := d]) = 2" using l by simp
    have gen2: "\<And>p. length p = 4 \<Longrightarrow> (b @ p @ c2)[i + 22 := d] = b @ p @ c2[i - 2 := d]"
      using False assms(2) l by (auto simp: list_update_append)
    have "iban_format_ok (s[i := d])"
      unfolding s' iban_format_shape using l dc' db by simp
    moreover have "iban_numeric (s[i := d]) = (iban_numeric s)[j := d]"
      unfolding s' iban_numeric_shape [OF lc' dc' db] num j_def
      using False by (simp only: if_False) (rule gen2 [symmetric], simp)
    ultimately show ?thesis ..
  qed
  then show "iban_format_ok (s[i := d])" ..
  from both show "iban_numeric (s[i := d]) = (iban_numeric s)[j := d]" ..
qed

lemma coprime_97_pow10: "coprime (97::int) (10 ^ k)"
proof -
  have "coprime (97::int) 10" by code_simp
  then show ?thesis by simp
qed

lemma not_97_dvd_digit_diff:
  fixes x y :: nat
  assumes "x < 10" "y < 10" "x \<noteq> y"
  shows "\<not> (97::int) dvd ((int x - int y) * 10 ^ k)"
proof
  assume "(97::int) dvd ((int x - int y) * 10 ^ k)"
  then have "(97::int) dvd (int x - int y)"
    using coprime_97_pow10 [of k] by (simp add: coprime_dvd_mult_left_iff)
  then obtain m where m: "int x - int y = 97 * m" by (elim dvdE)
  show False
  proof (cases "m = 0")
    case True
    with m assms(3) show False by simp
  next
    case False
    then have "m \<ge> 1 \<or> m \<le> -1" by linarith
    with m assms(1,2) show False by linarith
  qed
qed


lemma iban_format_digit_at:
  assumes "iban_format_ok s" "2 \<le> i" "i < 24"
  shows "is_ascii_digit (s ! i)"
proof -
  from assms(1) have l: "length s = 24" and d: "list_all is_ascii_digit (drop 2 s)"
    by (simp_all add: iban_format_ok_def)
  have e: "Suc (Suc (i - 2)) = i" using assms(2) by arith
  have "drop 2 s ! (i - 2) = s ! i" using assms(2,3) l by (subst nth_drop) (simp_all add: e)
  moreover have "i - 2 < length (drop 2 s)" using assms(2,3) l by simp
  ultimately show ?thesis using d by (metis list_all_length)
qed

text \<open>
  C2: Every substitution of one digit by another, in the check digits or in the
  BBAN, turns an IBAN the code accepts into one it rejects with the control
  digit error: the mod-97 checksum detects all single-digit errors.
\<close>

theorem validate_iban_single_digit_error:
  assumes ok: "validate_iban s = Inr r"
    and i: "2 \<le> i" "i < 24"
    and d: "is_ascii_digit d" "d \<noteq> s ! i"
  shows "validate_iban (s[i := d]) = raise_ame ''Invalid IBAN control digit''"
proof -
  from ok have fmt: "iban_format_ok s" and cs: "iban_checksum_ok s"
    using validate_iban_eq [of s] by (auto split: if_splits)
  note u = iban_update_shape [OF fmt i d(1)]
  define j where "j = (if 4 \<le> i then i - 4 else i + 22)"
  define k where "k = length (iban_numeric s) - Suc j"
  have si: "is_ascii_digit (s ! i)" by (rule iban_format_digit_at [OF fmt i])
  have ne: "digit_val d \<noteq> digit_val (s ! i)"
    using digit_val_inj [OF d(1) si] d(2) by blast
  have step: "int_of_digits (iban_numeric (s[i := d])) = int_of_digits (iban_numeric s)
      + (int (digit_val d) - int (digit_val (s ! i))) * 10 ^ k"
    using int_of_digits_update [OF u(3), of d] u(2,4) by (simp add: j_def k_def)
  have "\<not> iban_checksum_ok (s[i := d])"
  proof
    assume "iban_checksum_ok (s[i := d])"
    with cs have "int_of_digits (iban_numeric (s[i := d])) mod 97
        = int_of_digits (iban_numeric s) mod 97"
      by (simp add: iban_checksum_ok_def)
    then have "(97::int) dvd ((int (digit_val d) - int (digit_val (s ! i))) * 10 ^ k)"
      by (simp add: step mod_eq_dvd_iff)
    with not_97_dvd_digit_diff [OF digit_val_lt [OF d(1)] digit_val_lt [OF si] ne]
    show False by blast
  qed
  then show ?thesis
    using validate_iban_eq [of "s[i := d]"] u(1) by simp
qed




section \<open>Concrete instances\<close>

lemma iban_example_shape:
  "iban_format_ok ''ES9121000418450200051332''"
  "iban_checksum_ok ''ES9121000418450200051332''"
  "check_digits ''ES9121000418450200051332'' = 91"
  by (simp_all add: iban_format_ok_def is_ascii_digit_def iban_checksum_ok_def iban_numeric_def
      iban_letter_codes_def subst_lookup_def check_digits_def int_of_digits_def digit_step_def
      digit_val_def)

lemma iban_example_valid:
  "validate_iban ''ES9121000418450200051332'' = Inr ''21000418450200051332142800''"
  by (simp add: validate_iban_format_ok iban_example_shape check_digits_def int_of_digits_def
      digit_step_def digit_val_def)

text \<open>The examples of the specification: a valid IBAN and one with wrong check digits.\<close>

theorem validate_iban_iso7064_witness:
  "validate_iban ''ES9121000418450200051332'' = Inr ''21000418450200051332142800'' \<and>
   validate_iban ''ES0021000418450200051332'' = raise_ame ''Invalid IBAN control digit''"
proof -
  have bad: "iban_format_ok ''ES0021000418450200051332''"
    "check_digits ''ES0021000418450200051332'' = 0"
    by (simp_all add: iban_format_ok_def is_ascii_digit_def check_digits_def int_of_digits_def
        digit_step_def digit_val_def)
  show ?thesis
    using validate_iban_iso7064 [of "''ES9121000418450200051332''"]
      validate_iban_iso7064 [of "''ES0021000418450200051332''"]
    by (simp add: iban_example_shape bad)
qed

theorem validate_iban_single_digit_error_witness:
  "validate_iban (''ES9121000418450200051332''[5 := CHR ''9''])
     = raise_ame ''Invalid IBAN control digit''"
proof (rule validate_iban_single_digit_error [OF iban_example_valid])
  show "is_ascii_digit (CHR ''9'')" by (simp add: is_ascii_digit_def)
  show "CHR ''9'' \<noteq> ''ES9121000418450200051332'' ! 5" by simp
qed simp_all

end
