(* ===== verification/Validators.thy ===== *)
theory Validators
  imports PyRuntime "HOL-Library.Product_Lexorder"
begin

text \<open>
  The field validators of \<open>TransferRequest\<close>
  (\<open>src/src/main/python/uc3m_money/transfer_request.py\<close>): \<open>validate_concept\<close>,
  \<open>validate_transfer_date\<close>, \<open>validate_amount\<close> and \<open>validate_transfer_type\<close>.
  Each regular expression is modelled by the language it fully matches
  (\<open>check_regular\<close> calls \<open>re.fullmatch\<close>), as an executable predicate; the
  clock reading \<open>datetime.now(timezone.utc).date()\<close> is a parameter \<open>today\<close>.
  The lemmas characterise each validator by the property the specification
  states, and record where the code departs from it.
\<close>

section \<open>Amount\<close>

text \<open>
  \<open>validate_amount\<close> (lines 130--142).  The argument is a float (the type the
  signature gives), so \<open>float(amount)\<close> returns it unchanged and its
  \<open>ValueError\<close> branch does not occur.
\<close>

definition validate_amount :: "pyfloat \<Rightarrow> unit py" where
  "validate_amount amount =
     (let amount_float = amount;
          n_str = py_float_repr amount_float
      in if CHR ''.'' \<in> set n_str \<and> 2 < length (py_split (CHR ''.'') n_str ! 1)
         then raise_ame ''Invalid transfer amount''
         else if py_float_lt_int amount_float 10 \<or> py_float_gt_int amount_float 10000
         then raise_ame ''Invalid transfer amount''
         else Inr ())"


section \<open>Concept\<close>

text \<open>
  \<open>validate_concept\<close> (lines 90--96) fully matches
  \<open>^(?=^.{10,30}$)([a-zA-Z]+(\s[a-zA-Z]+)+)$\<close>.  The look-ahead asks for 10
  to 30 characters other than a line feed, followed by the end of the string or
  by a final line feed (\<open>$\<close>); the body is a deterministic automaton for
  \<open>[a-zA-Z]+(\s[a-zA-Z]+)+\<close>: state 0 before the first letter, 1 inside the
  first word, 2 after a separator, 3 inside a later word (accepting).
\<close>

fun concept_run :: "nat \<Rightarrow> string \<Rightarrow> nat option" where
  "concept_run q [] = Some q"
| "concept_run q (c # s) =
     (if is_ascii_letter c then concept_run (if q = 0 then 1 else if q = 2 then 3 else q) s
      else if py_isspace c \<and> (q = 1 \<or> q = 3) then concept_run 2 s
      else None)"

definition sep_word :: "char \<times> string \<Rightarrow> bool" where
  "sep_word cv \<longleftrightarrow> py_isspace (fst cv) \<and> snd cv \<noteq> [] \<and> list_all is_ascii_letter (snd cv)"

definition join_words :: "(char \<times> string) list \<Rightarrow> string" where
  "join_words ws = concat (map (\<lambda>(c, v). c # v) ws)"

text \<open>
  The languages of the automaton's states, as the reference: a first word,
  then separator-word pairs; states 0 and 2 need a non-empty first word, states
  0 and 1 at least one pair.
\<close>

fun concept_lang :: "nat \<Rightarrow> string \<Rightarrow> bool" where
  "concept_lang q s \<longleftrightarrow> (\<exists>w ws. s = w @ join_words ws \<and> list_all is_ascii_letter w \<and>
      list_all sep_word ws \<and> ((q = 0 \<or> q = 2) \<longrightarrow> w \<noteq> []) \<and> ((q = 0 \<or> q = 1) \<longrightarrow> ws \<noteq> []))"

definition concept_lookahead :: "string \<Rightarrow> bool" where
  "concept_lookahead s \<longleftrightarrow>
     list_ex (\<lambda>k. k \<le> length s \<and> list_all py_dot (take k s) \<and>
                 (k = length s \<or> (Suc k = length s \<and> s ! k = CHR 0x0A))) [10..<31]"

definition concept_regex :: "string \<Rightarrow> bool" where
  "concept_regex s \<longleftrightarrow> concept_lookahead s \<and> concept_run 0 s = Some 3"

definition validate_concept :: "string \<Rightarrow> unit py" where
  "validate_concept concept =
     (if \<not> concept_regex concept then raise_ame ''Invalid concept format'' else Inr ())"

text \<open>What the specification asks of a concept: two or more words of letters.\<close>

definition concept_words :: "string \<Rightarrow> bool" where
  "concept_words s \<longleftrightarrow> (\<exists>w ws. s = w @ join_words ws \<and> w \<noteq> [] \<and> list_all is_ascii_letter w
      \<and> ws \<noteq> [] \<and> list_all sep_word ws)"

section \<open>Transfer type\<close>

text \<open>
  \<open>validate_transfer_type\<close> (lines 144--148): \<open>re.fullmatch\<close> of
  \<open>(ORDINARY|INMEDIATE|URGENT)\<close> is membership in the three literals, spelled as
  in this snapshot.
\<close>

definition transfer_types :: "string list" where
  "transfer_types = [''ORDINARY'', ''INMEDIATE'', ''URGENT'']"

definition validate_transfer_type :: "string \<Rightarrow> unit py" where
  "validate_transfer_type transfer_type =
     (if transfer_type \<notin> set transfer_types then raise_ame ''Invalid transfer type'' else Inr ())"

section \<open>Transfer date\<close>

text \<open>
  \<open>validate_transfer_date\<close> (lines 105--122).  A date is a triple
  (year, month, day), ordered lexicographically as \<open>datetime.date\<close> is.  The
  regular expression \<open>^(([0-2]\d|3[0-1])\/(0\d|1[0-2])\/\d\d\d\d)$\<close> fixes the
  shape \<open>DD/MM/YYYY\<close> (\<open>\d\<close> is an ASCII digit below code point 256);
  \<open>datetime.strptime(s, "%d/%m/%Y")\<close>, applied only to strings of that shape,
  reads the three fields and raises \<open>ValueError\<close> unless they form a date of the
  proleptic Gregorian calendar with a year from 1 on.
\<close>

type_synonym pydate = "nat \<times> nat \<times> nat"

definition digit_range :: "nat \<Rightarrow> nat \<Rightarrow> char \<Rightarrow> bool" where
  "digit_range lo hi c \<longleftrightarrow> is_ascii_digit c \<and> lo \<le> digit_val c \<and> digit_val c \<le> hi"

definition date_regex :: "string \<Rightarrow> bool" where
  "date_regex s \<longleftrightarrow> length s = 10 \<and>
     ((digit_range 0 2 (s ! 0) \<and> is_ascii_digit (s ! 1)) \<or>
      (s ! 0 = CHR ''3'' \<and> digit_range 0 1 (s ! 1))) \<and>
     s ! 2 = CHR ''/'' \<and>
     ((s ! 3 = CHR ''0'' \<and> is_ascii_digit (s ! 4)) \<or>
      (s ! 3 = CHR ''1'' \<and> digit_range 0 2 (s ! 4))) \<and>
     s ! 5 = CHR ''/'' \<and> list_all is_ascii_digit (drop 6 s)"

definition leap_year :: "nat \<Rightarrow> bool" where
  "leap_year y \<longleftrightarrow> 4 dvd y \<and> (\<not> 100 dvd y \<or> 400 dvd y)"

definition days_in_month :: "nat \<Rightarrow> nat \<Rightarrow> nat" where
  "days_in_month y m =
     (if m = 2 then (if leap_year y then 29 else 28)
      else if m = 4 \<or> m = 6 \<or> m = 9 \<or> m = 11 then 30 else 31)"

fun valid_date :: "pydate \<Rightarrow> bool" where
  "valid_date (y, m, d) \<longleftrightarrow> 1 \<le> y \<and> 1 \<le> m \<and> m \<le> 12 \<and> 1 \<le> d \<and> d \<le> days_in_month y m"

definition strptime_dmy :: "string \<Rightarrow> pydate option" where
  "strptime_dmy s =
     (let d = nat (int_of_digits (take 2 s));
          m = nat (int_of_digits (take 2 (drop 3 s)));
          y = nat (int_of_digits (drop 6 s))
      in if valid_date (y, m, d) then Some (y, m, d) else None)"

definition validate_transfer_date :: "pydate \<Rightarrow> string \<Rightarrow> string py" where
  "validate_transfer_date today transfer_date =
     (if \<not> date_regex transfer_date then raise_ame ''Invalid date format''
      else case strptime_dmy transfer_date of
        None \<Rightarrow> raise_ame ''Invalid date format''
      | Some my_date \<Rightarrow>
          if my_date < today then raise_ame ''Transfer date must be today or later.''
          else if fst my_date < 2025 \<or> 2050 < fst my_date then raise_ame ''Invalid date format''
          else Inr transfer_date)"

text \<open>The reference: printing a date as \<open>DD/MM/YYYY\<close> with zero padding.\<close>

fun digits_fixed :: "nat \<Rightarrow> nat \<Rightarrow> string" where
  "digits_fixed 0 v = []"
| "digits_fixed (Suc w) v = digits_fixed w (v div 10) @ [char_of (48 + v mod 10)]"

fun dmy_string :: "pydate \<Rightarrow> string" where
  "dmy_string (y, m, d) =
     digits_fixed 2 d @ CHR ''/'' # digits_fixed 2 m @ CHR ''/'' # digits_fixed 4 y"

subsection \<open>Properties\<close>

lemma validate_amount_iff:
  "validate_amount x = Inr () \<longleftrightarrow>
     x = PyNaN \<or>
     (\<exists>neg c e. x = PyFinite neg c e \<and> 10 \<le> dec_value neg c e \<and> dec_value neg c e \<le> 10000
        \<and> -2 \<le> e)"
proof (cases x)
  case PyNaN
  then show ?thesis by (simp add: validate_amount_def py_float_repr_def)
next
  case (PyInf neg)
  then show ?thesis by (simp add: validate_amount_def py_float_repr_def)
next
  case (PyFinite neg c e)
  show ?thesis
  proof (cases "10 \<le> dec_value neg c e \<and> dec_value neg c e \<le> 10000")
    case True
    note b = dec_value_pos_decpt [OF True [THEN conjunct1] True [THEN conjunct2]]
    have "0 < int (length (nat_digits c)) + e" "int (length (nat_digits c)) + e \<le> 16"
      using b(3,4) by simp_all
    note f = repr_positional_frac [OF this]
    have "(if 0 \<le> e then 1 else nat (- e)) \<le> (2::nat) \<longleftrightarrow> -2 \<le> e" by auto
    then show ?thesis
      using True b(1) f PyFinite by (auto simp: validate_amount_def Let_def not_less)
  next
    case False
    then show ?thesis
      using PyFinite by (auto simp: validate_amount_def Let_def not_less)
  qed
qed


text \<open>
  C3: The code accepts exactly the amounts between 10 and 10000 whose shortest
  decimal has at most two fractional digits (a coefficient-exponent pair with
  \<open>e \<ge> -2\<close>) --- and NaN: \<open>str(nan)\<close> has no point and both comparisons with
  NaN are false, so \<open>float('nan')\<close> passes both checks.
\<close>

theorem validate_amount_accepts:
  "validate_amount x = Inr () \<longleftrightarrow>
     x = PyNaN \<or>
     (\<exists>neg c e. x = PyFinite neg c e \<and> 10 \<le> dec_value neg c e \<and> dec_value neg c e \<le> 10000
        \<and> -2 \<le> e)"
  by (rule validate_amount_iff)

text \<open>The boundary cases of the specification, and the NaN case.\<close>

theorem validate_amount_accepts_witness:
  "validate_amount (PyFinite False 999 (-2)) \<noteq> Inr () \<and>
   validate_amount (PyFinite False 1 1) = Inr () \<and>
   validate_amount (PyFinite False 1 4) = Inr () \<and>
   validate_amount (PyFinite False 1000001 (-2)) \<noteq> Inr () \<and>
   validate_amount (PyFinite False 10005 (-3)) \<noteq> Inr () \<and>
   validate_amount PyNaN = Inr ()"
  using validate_amount_accepts [of "PyFinite False 999 (-2)"]
    validate_amount_accepts [of "PyFinite False 1 1"]
    validate_amount_accepts [of "PyFinite False 1 4"]
    validate_amount_accepts [of "PyFinite False 1000001 (-2)"]
    validate_amount_accepts [of "PyFinite False 10005 (-3)"]
    validate_amount_accepts [of PyNaN]
  by (simp add: dec_value_def ex_bool_eq)


subsection \<open>Properties of the concept check\<close>

lemma join_words_Cons: "join_words ((c, v) # ws) = c # v @ join_words ws"
  by (simp add: join_words_def)

lemma join_words_Nil [simp]: "join_words [] = []"
  by (simp add: join_words_def)

lemma join_words_hd:
  assumes "list_all sep_word ws" "join_words ws = c # t"
  shows "py_isspace c"
  using assms by (cases ws) (auto simp: join_words_Cons sep_word_def)

lemma join_words_eq_Nil [simp]: "join_words ws = [] \<longleftrightarrow> ws = []"
  by (cases ws) (auto simp: join_words_Cons)

lemma concept_lang_Nil: "concept_lang q [] \<longleftrightarrow> q \<noteq> 0 \<and> q \<noteq> 1 \<and> q \<noteq> 2"
  by auto

lemma concept_lang_letter:
  assumes "is_ascii_letter c"
  shows "concept_lang q (c # t) \<longleftrightarrow> concept_lang (if q = 0 then 1 else if q = 2 then 3 else q) t"
proof
  assume "concept_lang q (c # t)"
  then obtain w ws where s: "c # t = w @ join_words ws" and w: "list_all is_ascii_letter w"
    and ws: "list_all sep_word ws" "(q = 0 \<or> q = 2) \<longrightarrow> w \<noteq> []" "(q = 0 \<or> q = 1) \<longrightarrow> ws \<noteq> []"
    by auto
  show "concept_lang (if q = 0 then 1 else if q = 2 then 3 else q) t"
  proof (cases w)
    case Nil
    with s have "join_words ws = c # t" by simp
    with ws(1) have "py_isspace c" by (rule join_words_hd)
    with assms show ?thesis by (simp add: letter_not_space)
  next
    case (Cons x w')
    with s have "t = w' @ join_words ws" by simp
    with Cons w ws show ?thesis
      by (intro concept_lang.simps [THEN iffD2] exI [of _ w'] exI [of _ ws]) auto
  qed
next
  assume "concept_lang (if q = 0 then 1 else if q = 2 then 3 else q) t"
  then obtain w ws where "t = w @ join_words ws" "list_all is_ascii_letter w" "list_all sep_word ws"
    "(q = 0 \<or> q = 1) \<longrightarrow> ws \<noteq> []"
    by (auto split: if_splits)
  with assms show "concept_lang q (c # t)"
    by (intro concept_lang.simps [THEN iffD2] exI [of _ "c # w"] exI [of _ ws]) simp
qed

lemma concept_lang_space:
  assumes "py_isspace c"
  shows "concept_lang q (c # t) \<longleftrightarrow> (q = 1 \<or> q = 3 \<or> 3 < q) \<and> concept_lang 2 t"
proof
  assume "concept_lang q (c # t)"
  then obtain w ws where s: "c # t = w @ join_words ws" and w: "list_all is_ascii_letter w"
    and ws: "list_all sep_word ws" "(q = 0 \<or> q = 2) \<longrightarrow> w \<noteq> []"
    by auto
  have "w = []"
  proof (rule ccontr)
    assume "w \<noteq> []"
    with s w have "is_ascii_letter c" by (cases w) auto
    with assms show False by (simp add: letter_not_space)
  qed
  with s obtain c' v ws' where ws_eq: "ws = (c', v) # ws'" and t: "t = v @ join_words ws'"
    by (cases ws) (auto simp: join_words_Cons)
  with ws(1) have "v \<noteq> []" "list_all is_ascii_letter v" "list_all sep_word ws'"
    by (simp_all add: sep_word_def)
  with t have "concept_lang 2 t" by auto
  moreover have "q = 1 \<or> q = 3 \<or> 3 < q" using ws(2) \<open>w = []\<close> by auto
  ultimately show "(q = 1 \<or> q = 3 \<or> 3 < q) \<and> concept_lang 2 t" by simp
next
  assume h: "(q = 1 \<or> q = 3 \<or> 3 < q) \<and> concept_lang 2 t"
  then obtain v ws where t: "t = v @ join_words ws" "v \<noteq> []" "list_all is_ascii_letter v"
    "list_all sep_word ws"
    by auto
  have "c # t = [] @ join_words ((c, v) # ws)" by (simp add: t join_words_Cons)
  moreover have "list_all sep_word ((c, v) # ws)" using assms t by (simp add: sep_word_def)
  ultimately show "concept_lang q (c # t)" using h
    by (intro concept_lang.simps [THEN iffD2] exI [of _ "[]"] exI [of _ "(c, v) # ws"]) auto
qed

lemma concept_lang_other:
  assumes "\<not> is_ascii_letter c" "\<not> py_isspace c"
  shows "\<not> concept_lang q (c # t)"
proof
  assume "concept_lang q (c # t)"
  then obtain w ws where s: "c # t = w @ join_words ws" and w: "list_all is_ascii_letter w"
    and ws: "list_all sep_word ws"
    by auto
  show False
  proof (cases w)
    case Nil
    with s have "join_words ws = c # t" by simp
    with ws have "py_isspace c" by (rule join_words_hd)
    with assms show False by simp
  next
    case (Cons x w')
    with s w assms show False by auto
  qed
qed

text \<open>The automaton is the regular expression: each state accepts its language.\<close>

lemma concept_run_lang: "q \<le> 3 \<Longrightarrow> concept_run q s = Some 3 \<longleftrightarrow> concept_lang q s"
proof (induction s arbitrary: q)
  case Nil
  then show ?case by (auto simp del: concept_lang.simps simp: concept_lang_Nil)
next
  case (Cons c t)
  show ?case
  proof (cases "is_ascii_letter c")
    case True
    then show ?thesis using Cons
      by (simp del: concept_lang.simps add: concept_lang_letter)
  next
    case False
    show ?thesis
    proof (cases "py_isspace c")
      case True
      then show ?thesis using Cons False
        by (auto simp del: concept_lang.simps simp: concept_lang_space)
    next
      case False
      then show ?thesis using \<open>\<not> is_ascii_letter c\<close>
        by (simp del: concept_lang.simps add: concept_lang_other)
    qed
  qed
qed

lemma concept_words_lang: "concept_words s \<longleftrightarrow> concept_lang 0 s"
  by (auto simp: concept_words_def)

lemma join_words_append: "join_words (xs @ ys) = join_words xs @ join_words ys"
  by (simp add: join_words_def)

lemma concept_words_last:
  assumes "concept_words s"
  shows "s \<noteq> []" "is_ascii_letter (last s)"
proof -
  from assms obtain w ws where s: "s = w @ join_words ws" and ws: "ws \<noteq> []" "list_all sep_word ws"
    by (auto simp: concept_words_def)
  from ws(1) obtain ws0 c v where ws_eq: "ws = ws0 @ [(c, v)]"
    by (metis prod.exhaust rev_exhaust)
  with ws(2) have v: "v \<noteq> []" "list_all is_ascii_letter v" by (simp_all add: sep_word_def)
  have s': "s = (w @ join_words ws0 @ [c]) @ v"
    by (simp add: s ws_eq join_words_append join_words_Cons)
  show "s \<noteq> []" using s' by simp
  have "last s = last v" using s' v(1) by simp
  then show "is_ascii_letter (last s)" using v by (simp add: list_all_iff)
qed

lemma concept_lookahead_iff:
  assumes "s \<noteq> []" "last s \<noteq> CHR 0x0A"
  shows "concept_lookahead s \<longleftrightarrow> 10 \<le> length s \<and> length s \<le> 30 \<and> CHR 0x0A \<notin> set s"
proof
  assume "concept_lookahead s"
  then obtain k where kr: "k \<in> {10..<31}" and k: "k \<le> length s" "list_all py_dot (take k s)"
    and e: "k = length s \<or> (Suc k = length s \<and> s ! k = CHR 0x0A)"
    unfolding concept_lookahead_def list_ex_iff set_upt by blast
  have "k = length s"
  proof (rule ccontr)
    assume "k \<noteq> length s"
    with e have "Suc k = length s" "s ! k = CHR 0x0A" by auto
    then have "last s = CHR 0x0A" using assms(1) by (simp add: last_conv_nth flip: \<open>Suc k = length s\<close>)
    with assms(2) show False by simp
  qed
  with kr k show "10 \<le> length s \<and> length s \<le> 30 \<and> CHR 0x0A \<notin> set s"
    by (auto simp: list_all_iff py_dot_def)
next
  assume "10 \<le> length s \<and> length s \<le> 30 \<and> CHR 0x0A \<notin> set s"
  then show "concept_lookahead s"
    unfolding concept_lookahead_def list_ex_iff set_upt
    by (intro bexI [of _ "length s"]) (auto simp: list_all_iff py_dot_def)
qed

lemma validate_concept_iff:
  "validate_concept s = Inr () \<longleftrightarrow>
     10 \<le> length s \<and> length s \<le> 30 \<and> CHR 0x0A \<notin> set s \<and> concept_words s"
proof -
  have "concept_regex s \<longleftrightarrow> concept_lookahead s \<and> concept_words s"
    by (simp add: concept_regex_def concept_words_lang concept_run_lang del: concept_lang.simps)
  also have "\<dots> \<longleftrightarrow> 10 \<le> length s \<and> length s \<le> 30 \<and> CHR 0x0A \<notin> set s \<and> concept_words s"
  proof (cases "concept_words s")
    case True
    note l = concept_words_last [OF True]
    have "last s \<noteq> CHR 0x0A"
      using l(2) letter_not_space [of "last s"] by (auto simp: py_isspace_def)
    then show ?thesis using concept_lookahead_iff [OF l(1)] True by simp
  qed simp
  finally show ?thesis by (simp add: validate_concept_def)
qed



text \<open>
  C4: The code accepts exactly the strings of 10 to 30 characters without a line
  feed made of two or more words of ASCII letters, each separator being one
  whitespace character: not only a space, but also a tab, a carriage return, a
  vertical tab, a form feed, the separators 28--31, NEL or NBSP.
\<close>

theorem validate_concept_words:
  "validate_concept s = Inr () \<longleftrightarrow>
     10 \<le> length s \<and> length s \<le> 30 \<and> CHR 0x0A \<notin> set s \<and> concept_words s"
  by (rule validate_concept_iff)

lemmas concept_eval = validate_concept_def concept_regex_def concept_lookahead_def py_dot_def
  is_ascii_letter_def py_isspace_def

text \<open>
  A concept with a tab between its words is accepted (and is two words in the
  sense of \<open>concept_words\<close>); a double space and a single word are rejected.
\<close>

theorem validate_concept_words_witness:
  "validate_concept (''Pago'' @ CHR 0x09 # ''alquiler'') = Inr () \<and>
   concept_words (''Pago'' @ CHR 0x09 # ''alquiler'') \<and>
   validate_concept ''Pago  alquiler'' \<noteq> Inr () \<and>
   validate_concept ''Pagoalquiler'' \<noteq> Inr ()"
proof -
  have tab: "validate_concept (''Pago'' @ CHR 0x09 # ''alquiler'') = Inr ()"
    by (simp add: concept_eval)
  moreover have "concept_words (''Pago'' @ CHR 0x09 # ''alquiler'')"
    using validate_concept_words [of "''Pago'' @ CHR 0x09 # ''alquiler''"] tab by simp
  moreover have "validate_concept ''Pago  alquiler'' \<noteq> Inr ()"
    by (simp add: concept_eval)
  moreover have "validate_concept ''Pagoalquiler'' \<noteq> Inr ()"
    by (simp add: concept_eval)
  ultimately show ?thesis by blast
qed


subsection \<open>Properties of the date check\<close>

lemma digits_fixed_length [simp]: "length (digits_fixed w v) = w"
  by (induction w arbitrary: v) simp_all

lemma digits_fixed_digits: "list_all is_ascii_digit (digits_fixed w v)"
  by (induction w arbitrary: v) (simp_all add: is_ascii_digit_char_of)

lemma int_of_digits_digits_fixed: "int_of_digits (digits_fixed w v) = int (v mod 10 ^ w)"
proof (induction w arbitrary: v)
  case 0
  then show ?case by simp
next
  case (Suc w)
  have "v mod 10 ^ Suc w = 10 * (v div 10 mod 10 ^ w) + v mod 10"
    by (simp add: mod_mult2_eq)
  then show ?case
    using Suc.IH [of "v div 10"]
    by (simp add: int_of_digits_append int_of_digits_def digit_step_def digit_val_char_of)
qed

lemma char_of_digit_val: "is_ascii_digit c \<Longrightarrow> char_of (48 + digit_val c) = c"
  unfolding is_ascii_digit_def digit_val_def
  by (simp add: char_of_eq_iff_of_char)

lemma digits_fixed_int_of_digits:
  "list_all is_ascii_digit xs \<Longrightarrow> digits_fixed (length xs) (nat (int_of_digits xs)) = xs"
proof (induction xs rule: rev_induct)
  case Nil
  then show ?case by simp
next
  case (snoc x xs)
  have dx: "is_ascii_digit x" "list_all is_ascii_digit xs" using snoc.prems by simp_all
  have v: "nat (int_of_digits (xs @ [x])) = 10 * nat (int_of_digits xs) + digit_val x"
    by (simp add: int_of_digits_append int_of_digits_def digit_step_def)
  have "nat (int_of_digits (xs @ [x])) div 10 = nat (int_of_digits xs)"
    "nat (int_of_digits (xs @ [x])) mod 10 = digit_val x"
    using digit_val_lt [OF dx(1)] by (simp_all add: v)
  then show ?case
    using snoc.IH [OF dx(2)] char_of_digit_val [OF dx(1)] by simp
qed


lemma digits_fixed_2: "digits_fixed 2 v = [char_of (48 + v div 10 mod 10), char_of (48 + v mod 10)]"
  by (simp add: numeral_2_eq_2)

lemma days_in_month_le: "days_in_month y m \<le> 31"
  by (simp add: days_in_month_def)

lemma digit_range_char_of: "k < 10 \<Longrightarrow> digit_range lo hi (char_of (48 + k)) \<longleftrightarrow> lo \<le> k \<and> k \<le> hi"
  by (simp add: digit_range_def is_ascii_digit_char_of digit_val_char_of)

lemma date_regex_dmy_string:
  assumes "valid_date (y, m, d)"
  shows "date_regex (dmy_string (y, m, d))"
proof -
  from assms have d: "1 \<le> d" "d \<le> 31" and m: "1 \<le> m" "m \<le> 12"
    using days_in_month_le [of y m] by auto
  have d3: "d div 10 \<le> 3" using div_le_mono [OF d(2), of 10] by simp
  have "d div 10 = 3 \<longrightarrow> d mod 10 \<le> 1"
    using mult_div_mod_eq [of 10 d] d(2) by (intro impI) linarith
  then have dd: "d div 10 \<le> 3" "d div 10 = 3 \<longrightarrow> d mod 10 \<le> 1" "d div 10 mod 10 = d div 10"
    using d3 by simp_all
  have m1: "m div 10 \<le> 1" using div_le_mono [OF m(2), of 10] by simp
  have "m div 10 = 1 \<longrightarrow> m mod 10 \<le> 2"
    using mult_div_mod_eq [of 10 m] m(2) by (intro impI) linarith
  then have mm: "m div 10 \<le> 1" "m div 10 = 1 \<longrightarrow> m mod 10 \<le> 2" "m div 10 mod 10 = m div 10"
    using m1 by simp_all
  have "drop 6 (dmy_string (y, m, d)) = digits_fixed 4 y" by (simp add: digits_fixed_2)
  then have y: "list_all is_ascii_digit (drop 6 (dmy_string (y, m, d)))"
    by (simp only: digits_fixed_digits)
  show ?thesis
    unfolding date_regex_def
    using dd mm y
    by (auto simp: digits_fixed_2 digit_range_char_of is_ascii_digit_char_of char_of_eq_iff_of_char)
qed


lemma dmy_string_parts:
  "take 2 (dmy_string (y, m, d)) = digits_fixed 2 d"
  "take 2 (drop 3 (dmy_string (y, m, d))) = digits_fixed 2 m"
  "drop 6 (dmy_string (y, m, d)) = digits_fixed 4 y"
  by (simp_all add: digits_fixed_2)

lemma strptime_dmy_string:
  assumes "valid_date (y, m, d)" "y < 10000"
  shows "strptime_dmy (dmy_string (y, m, d)) = Some (y, m, d)"
proof -
  from assms(1) have "d < 10 ^ 2" "m < 10 ^ 2"
    using days_in_month_le [of y m] by auto
  with assms show ?thesis
    by (simp add: strptime_dmy_def dmy_string_parts int_of_digits_digits_fixed)
qed

lemma take_two: "1 < length xs \<Longrightarrow> take 2 xs = [xs ! 0, xs ! 1]"
  by (cases xs; cases "tl xs") (simp_all add: numeral_2_eq_2)

lemma date_regex_split:
  assumes "length s = 10"
  shows "s = take 2 s @ s ! 2 # take 2 (drop 3 s) @ s ! 5 # drop 6 s"
proof -
  have "s = take 2 s @ drop 2 s" by simp
  also have "drop 2 s = s ! 2 # drop 3 s"
    using assms Cons_nth_drop_Suc [of 2 s] by simp
  also have "drop 3 s = take 2 (drop 3 s) @ drop 2 (drop 3 s)"
    by (simp only: append_take_drop_id)
  also have "drop 2 (drop 3 s) = s ! 5 # drop 6 s"
    using assms Cons_nth_drop_Suc [of 5 s] by (simp add: eval_nat_numeral)
  finally show ?thesis .
qed

lemma date_regex_dmy:
  assumes "date_regex s"
  shows "s = dmy_string (nat (int_of_digits (drop 6 s)), nat (int_of_digits (take 2 (drop 3 s))),
                         nat (int_of_digits (take 2 s)))"
proof -
  from assms have len: "length s = 10" by (simp add: date_regex_def)
  have dig: "is_ascii_digit (CHR ''0'')" "is_ascii_digit (CHR ''1'')" "is_ascii_digit (CHR ''3'')"
    by (simp_all add: is_ascii_digit_def)
  from assms have "is_ascii_digit (s ! 0)" "is_ascii_digit (s ! 1)"
    "is_ascii_digit (s ! 3)" "is_ascii_digit (s ! 4)" "list_all is_ascii_digit (drop 6 s)"
    by (auto simp: date_regex_def digit_range_def dig)
  moreover have "take 2 s = [s ! 0, s ! 1]" "take 2 (drop 3 s) = [s ! 3, s ! 4]"
    using len take_two [of s] take_two [of "drop 3 s"] by simp_all
  ultimately have "list_all is_ascii_digit (take 2 s)" "list_all is_ascii_digit (take 2 (drop 3 s))"
    "list_all is_ascii_digit (drop 6 s)" by simp_all
  moreover have "length (take 2 s) = 2" "length (take 2 (drop 3 s)) = 2" "length (drop 6 s) = 4"
    using len by simp_all
  moreover have "s ! 2 = CHR ''/''" "s ! 5 = CHR ''/''" using assms by (simp_all add: date_regex_def)
  ultimately show ?thesis
    using date_regex_split [OF len] digits_fixed_int_of_digits by (metis dmy_string.simps)
qed


lemma validate_transfer_date_iff:
  "validate_transfer_date today s = Inr r \<longleftrightarrow>
     r = s \<and> (\<exists>dt. s = dmy_string dt \<and> valid_date dt \<and> today \<le> dt \<and>
                   2025 \<le> fst dt \<and> fst dt \<le> 2050)"
proof
  assume h: "validate_transfer_date today s = Inr r"
  then have rx: "date_regex s" by (auto simp: validate_transfer_date_def split: if_splits)
  with h obtain dt where p: "strptime_dmy s = Some dt" and r: "r = s"
    and t: "\<not> dt < today" and y: "2025 \<le> fst dt" "fst dt \<le> 2050"
    by (auto simp: validate_transfer_date_def split: if_splits option.splits)
  from p have dt: "dt = (nat (int_of_digits (drop 6 s)), nat (int_of_digits (take 2 (drop 3 s))),
                         nat (int_of_digits (take 2 s)))" and v: "valid_date dt"
    by (auto simp: strptime_dmy_def Let_def split: if_splits)
  have "s = dmy_string dt" unfolding dt by (rule date_regex_dmy [OF rx])
  with r v t y show "r = s \<and> (\<exists>dt. s = dmy_string dt \<and> valid_date dt \<and> today \<le> dt \<and>
                   2025 \<le> fst dt \<and> fst dt \<le> 2050)"
    by (intro conjI exI [of _ dt]) (simp_all add: not_less del: valid_date.simps dmy_string.simps)
next
  assume "r = s \<and> (\<exists>dt. s = dmy_string dt \<and> valid_date dt \<and> today \<le> dt \<and>
                   2025 \<le> fst dt \<and> fst dt \<le> 2050)"
  then obtain y m d where r: "r = s" and s: "s = dmy_string (y, m, d)" and v: "valid_date (y, m, d)"
    and t: "today \<le> (y, m, d)" and yr: "2025 \<le> y" "y \<le> 2050"
    by auto
  have "date_regex s" unfolding s by (rule date_regex_dmy_string [OF v])
  moreover have "strptime_dmy s = Some (y, m, d)"
    unfolding s using yr by (intro strptime_dmy_string [OF v]) simp
  ultimately show "validate_transfer_date today s = Inr r"
    using r t yr by (simp add: validate_transfer_date_def not_less [symmetric])
qed


text \<open>
  C5: The code accepts exactly the strings that print, as \<open>DD/MM/YYYY\<close>, a real
  calendar date no earlier than today with a year from 2025 to 2050, and then
  returns the string unchanged.
\<close>

theorem validate_transfer_date_spec:
  "validate_transfer_date today s = Inr r \<longleftrightarrow>
     r = s \<and> (\<exists>dt. s = dmy_string dt \<and> valid_date dt \<and> today \<le> dt \<and>
                   2025 \<le> fst dt \<and> fst dt \<le> 2050)"
  by (rule validate_transfer_date_iff)

lemma digits_fixed_numeral [py_simps]:
  "digits_fixed (numeral k) v = digits_fixed (pred_numeral k) (v div 10) @ [char_of (48 + v mod 10)]"
  by (simp only: numeral_eq_Suc [of k] digits_fixed.simps)

lemmas date_eval = validate_transfer_date_def date_regex_def digit_range_def is_ascii_digit_def
  digit_val_def strptime_dmy_def int_of_digits_def digit_step_def days_in_month_def leap_year_def

text \<open>
  The boundary cases of the specification for a clock reading 9 November 2026:
  today and a leap day are accepted; yesterday, a year 2024 date (with the
  past-date message), a year 2051 date and 29 February of a common year are
  rejected.
\<close>

theorem validate_transfer_date_spec_witness:
  "validate_transfer_date (2026, 11, 9) ''09/11/2026'' = Inr ''09/11/2026'' \<and>
   validate_transfer_date (2026, 11, 9) ''29/02/2028'' = Inr ''29/02/2028'' \<and>
   validate_transfer_date (2026, 11, 9) ''08/11/2026''
     = raise_ame ''Transfer date must be today or later.'' \<and>
   validate_transfer_date (2026, 11, 9) ''31/12/2024''
     = raise_ame ''Transfer date must be today or later.'' \<and>
   validate_transfer_date (2026, 11, 9) ''01/01/2051'' = raise_ame ''Invalid date format'' \<and>
   validate_transfer_date (2026, 11, 9) ''29/02/2027'' = raise_ame ''Invalid date format''"
proof -
  have c1: "''09/11/2026'' = dmy_string (2026, 11, 9) \<and> valid_date (2026, 11, 9) \<and>
      (2026, 11, 9) \<le> ((2026, 11, 9) :: pydate) \<and> 2025 \<le> fst (2026::nat, 11::nat, 9::nat) \<and>
      fst (2026::nat, 11::nat, 9::nat) \<le> 2050"
    by (simp add: py_simps days_in_month_def leap_year_def)
  have c2: "''29/02/2028'' = dmy_string (2028, 2, 29) \<and> valid_date (2028, 2, 29) \<and>
      (2026, 11, 9) \<le> ((2028, 2, 29) :: pydate) \<and> 2025 \<le> fst (2028::nat, 2::nat, 29::nat) \<and>
      fst (2028::nat, 2::nat, 29::nat) \<le> 2050"
    by (simp add: py_simps days_in_month_def leap_year_def)
  have ok: "validate_transfer_date (2026, 11, 9) ''09/11/2026'' = Inr ''09/11/2026''"
    "validate_transfer_date (2026, 11, 9) ''29/02/2028'' = Inr ''29/02/2028''"
    using validate_transfer_date_spec [of "(2026, 11, 9)" "''09/11/2026''" "''09/11/2026''"]
      validate_transfer_date_spec [of "(2026, 11, 9)" "''29/02/2028''" "''29/02/2028''"] c1 c2
    by blast+
  have "validate_transfer_date (2026, 11, 9) ''08/11/2026''
          = raise_ame ''Transfer date must be today or later.''"
       "validate_transfer_date (2026, 11, 9) ''31/12/2024''
          = raise_ame ''Transfer date must be today or later.''"
       "validate_transfer_date (2026, 11, 9) ''01/01/2051'' = raise_ame ''Invalid date format''"
       "validate_transfer_date (2026, 11, 9) ''29/02/2027'' = raise_ame ''Invalid date format''"
    by (simp_all add: date_eval)
  with ok show ?thesis by simp
qed

end
