(* ===== verification/PyJson.thy ===== *)
theory PyJson
  imports PyRuntime
begin

text \<open>
  The part of Python's \<open>json\<close> module the sources rely on: \<open>json.dumps\<close> of a
  flat object of strings and floats with the default settings
  (\<open>ensure_ascii=True\<close>, separators \<open>", "\<close> and \<open>": "\<close>).  It is the text
  hashed by \<open>TransferRequest.transfer_code\<close>.
\<close>

section \<open>Strings\<close>

text \<open>
  \<open>py_encode_basestring_ascii\<close>: backslash and double quote are escaped, the
  control characters with a short form use it, every other character outside
  \<open>' '..'~'\<close> becomes \<open>\u\<close> and four lower-case hexadecimal digits.
\<close>

definition hex_digit :: "nat \<Rightarrow> char" where
  "hex_digit k = (if k < 10 then char_of (48 + k) else char_of (87 + k))"

definition json_escape_char :: "char \<Rightarrow> string" where
  "json_escape_char c =
     (let n = (of_char c :: nat) in
      if n = 0x22 then [CHR 0x5C, CHR 0x22]
      else if n = 0x5C then [CHR 0x5C, CHR 0x5C]
      else if n = 0x08 then [CHR 0x5C, CHR ''b'']
      else if n = 0x0C then [CHR 0x5C, CHR ''f'']
      else if n = 0x0A then [CHR 0x5C, CHR ''n'']
      else if n = 0x0D then [CHR 0x5C, CHR ''r'']
      else if n = 0x09 then [CHR 0x5C, CHR ''t'']
      else if n < 0x20 \<or> 0x7E < n
      then [CHR 0x5C, CHR ''u'', CHR ''0'', CHR ''0'', hex_digit (n div 16), hex_digit (n mod 16)]
      else [c])"

definition json_str :: "string \<Rightarrow> string" where
  "json_str s = CHR 0x22 # concat (map json_escape_char s) @ [CHR 0x22]"

section \<open>Floats\<close>

text \<open>\<open>float.__repr__\<close>, with \<open>NaN\<close>, \<open>Infinity\<close>, \<open>-Infinity\<close> for the special values.\<close>

definition json_float :: "pyfloat \<Rightarrow> string" where
  "json_float x = (case x of
      PyNaN \<Rightarrow> ''NaN''
    | PyInf neg \<Rightarrow> (if neg then ''-Infinity'' else ''Infinity'')
    | PyFinite _ _ _ \<Rightarrow> py_float_repr x)"

section \<open>Objects\<close>

text \<open>An object given as its keys and already serialised values, in insertion order.\<close>

definition json_members :: "(string \<times> string) list \<Rightarrow> string" where
  "json_members kvs = concat (map (\<lambda>(k, v). json_str k @ '': '' @ v) (take 1 kvs)) @
     concat (map (\<lambda>(k, v). '', '' @ json_str k @ '': '' @ v) (drop 1 kvs))"

definition json_object :: "(string \<times> string) list \<Rightarrow> string" where
  "json_object kvs = ''{'' @ json_members kvs @ ''}''"

section \<open>Decoding an escape\<close>

text \<open>
  One step of \<open>json.loads\<close>'s string scanner (\<open>py_scanstring\<close>) on the
  escapes \<open>json_escape_char\<close> produces: it reads one character back.
\<close>

definition hex_val :: "char \<Rightarrow> nat" where
  "hex_val c = (let n = (of_char c :: nat) in if n < 58 then n - 48 else n - 87)"

definition json_unescape_char :: "string \<Rightarrow> (char \<times> string) option" where
  "json_unescape_char s =
     (case s of
        [] \<Rightarrow> None
      | c # r \<Rightarrow>
          if c \<noteq> CHR 0x5C then Some (c, r)
          else (case r of
                  [] \<Rightarrow> None
                | e # r' \<Rightarrow>
                    if e = CHR 0x22 then Some (CHR 0x22, r')
                    else if e = CHR 0x5C then Some (CHR 0x5C, r')
                    else if e = CHR ''b'' then Some (char_of (8::nat), r')
                    else if e = CHR ''f'' then Some (char_of (12::nat), r')
                    else if e = CHR ''n'' then Some (char_of (10::nat), r')
                    else if e = CHR ''r'' then Some (char_of (13::nat), r')
                    else if e = CHR ''t'' then Some (char_of (9::nat), r')
                    else if e = CHR ''u'' \<and> 4 \<le> length r'
                    then Some (char_of (hex_val (r' ! 2) * 16 + hex_val (r' ! 3)), drop 4 r')
                    else None))"

section \<open>The string encoding is uniquely decodable\<close>

lemma hex_val_hex_digit: "k < 16 \<Longrightarrow> hex_val (hex_digit k) = k"
  by (auto simp: hex_val_def hex_digit_def Let_def)

lemma json_unescape_char_escape:
  "json_unescape_char (json_escape_char c @ x) = Some (c, x)"
proof -
  define n where "n = (of_char c :: nat)"
  have n256: "n < 256" unfolding n_def by (rule nat_of_char_less_256)
  have c: "c = char_of n" unfolding n_def by simp
  show ?thesis
  proof (cases "n \<in> {0x22, 0x5C, 0x08, 0x0C, 0x0A, 0x0D, 0x09}")
    case True
    then show ?thesis
      by (auto simp: json_escape_char_def json_unescape_char_def c py_simps)
  next
    case False
    have hx: "hex_val (hex_digit (n div 16)) * 16 + hex_val (hex_digit (n mod 16)) = n"
      using n256 by (simp add: hex_val_hex_digit less_mult_imp_div_less)
    have esc: "json_escape_char c = (if n < 0x20 \<or> 0x7E < n
        then [CHR 0x5C, CHR ''u'', CHR ''0'', CHR ''0'', hex_digit (n div 16), hex_digit (n mod 16)]
        else [c])"
      using False by (simp add: json_escape_char_def Let_def n_def [symmetric])
    have "c \<noteq> CHR 0x5C"
      using False by (auto simp: n_def)
    then show ?thesis
      by (simp add: esc json_unescape_char_def hx c [symmetric])
  qed
qed

lemma json_escape_char_inj:
  "json_escape_char c @ x = json_escape_char d @ y \<longleftrightarrow> c = d \<and> x = y"
  by (metis json_unescape_char_escape option.inject prod.inject)

lemma json_escape_char_not_quote: "json_escape_char c @ x \<noteq> CHR 0x22 # y"
  by (auto simp: json_escape_char_def Let_def split: if_splits)

lemma json_chars_inj:
  "concat (map json_escape_char s) @ CHR 0x22 # x = concat (map json_escape_char t) @ CHR 0x22 # y \<longleftrightarrow>
   s = t \<and> x = y"
proof (induction s arbitrary: t)
  case Nil
  then show ?case
    by (cases t) (auto dest: sym simp: json_escape_char_not_quote [of _ "_ @ _", simplified])
next
  case (Cons c s)
  then show ?case
    by (cases t) (auto simp: json_escape_char_inj json_escape_char_not_quote [of _ "_ @ _", simplified])
qed

lemma json_str_inj [simp]: "json_str s @ x = json_str t @ y \<longleftrightarrow> s = t \<and> x = y"
  by (simp add: json_str_def json_chars_inj)

lemma comma_notin_nat_digits: "CHR '','' \<notin> set (nat_digits n)"
  using nat_digits_digits [of n] by (auto simp: list_all_iff is_ascii_digit_def)

lemma comma_notin_tl_nat_digits: "CHR '','' \<notin> set (tl (nat_digits n))"
  by (metis comma_notin_nat_digits list.set_sel(2) nat_digits_ne)

lemma comma_ne_hd_nat_digits: "CHR '','' \<noteq> hd (nat_digits n)"
  by (metis comma_notin_nat_digits list.set_sel(1) nat_digits_ne)

lemma comma_notin_json_float: "CHR '','' \<notin> set (json_float x)"
  by (cases x) (auto simp: json_float_def py_float_repr_def exp_suffix_def Let_def
      comma_notin_nat_digits comma_notin_tl_nat_digits comma_ne_hd_nat_digits dest: in_set_takeD in_set_dropD)

lemma split_at_comma:
  assumes "CHR '','' \<notin> set u" "CHR '','' \<notin> set v"
  shows "u @ CHR '','' # x = v @ CHR '','' # y \<longleftrightarrow> u = v \<and> x = y"
  using assms
proof (induction u arbitrary: v)
  case Nil
  then show ?case by (cases v) auto
next
  case (Cons a u)
  then show ?case by (cases v) auto
qed

end
