(* ===== verification/JsonStore.thy ===== *)
theory JsonStore
  imports Prelude
begin

text \<open>
  The JSON-file stores.  Every store of the sources is a file holding a JSON
  array of records, read with \<open>json.load\<close> and rewritten whole with
  \<open>json.dump\<close>.  A file is modelled by the value \<open>json.load\<close> would give:
  absent (remembering whether its directory exists, which decides whether a
  later write succeeds), not parseable, or an array of records.  Writing an
  array and reading it back gives the array: the records hold only strings
  and floats, which \<open>json\<close> round-trips exactly.
\<close>

datatype 'a json_file = Missing bool | Malformed | JsonList "'a list"

text \<open>
  Reading, as in \<open>TransferRequest.store_transfer_request\<close> (lines 152--158):
  a missing file is the empty list, a decode error is fatal.
\<close>

fun load_store :: "'a json_file \<Rightarrow> 'a list py" where
  "load_store (Missing _) = Inr []"
| "load_store Malformed = raise_ame ''JSON Decode Error - Wrong JSON Format''"
| "load_store (JsonList l) = Inr l"

text \<open>
  Writing (lines 163--169): opening for writing fails when the directory does
  not exist; otherwise the file holds the new list.
\<close>

fun save_store :: "'a json_file \<Rightarrow> 'a list \<Rightarrow> 'a json_file py" where
  "save_store (Missing False) l = raise_ame ''Wrong file  or file path''"
| "save_store _ l = Inr (JsonList l)"

text \<open>The records a store holds, whatever the state of its file.\<close>

fun stored :: "'a json_file \<Rightarrow> 'a list" where
  "stored (JsonList l) = l"
| "stored _ = []"

section \<open>Facts\<close>

lemma load_store_Inr_stored: "load_store f = Inr l \<Longrightarrow> l = stored f"
  by (cases f) auto

lemma save_store_Inr: "save_store f l = Inr f' \<Longrightarrow> f' = JsonList l"
  by (cases "(f, l)" rule: save_store.cases) auto

lemma save_store_ok: "f \<noteq> Missing False \<Longrightarrow> save_store f l = Inr (JsonList l)"
  by (cases "(f, l)" rule: save_store.cases) auto

lemma load_store_ok: "f \<noteq> Malformed \<Longrightarrow> load_store f = Inr (stored f)"
  by (cases f) auto

end
