(* ===== verification/TransferRequest.thy ===== *)
theory TransferRequest
  imports Iban Validators PyJson JsonStore
begin

text \<open>
  The class \<open>TransferRequest\<close> of \<open>transfer_request.py\<close>: the object, its
  textual form and transfer code, its stored record, the duplicate check and
  the store update, and the constructor that runs them in order.  The two
  readings of the clock (\<open>datetime.now\<close> at line 28 and at line 117) are the
  fields of a \<open>clock\<close> record; \<open>hashlib.md5(...).hexdigest()\<close> is a parameter
  \<open>md5\<close> of the operations that compute the transfer code.
\<close>

section \<open>The object and its stored record\<close>

text \<open>The instance attributes, in the order \<open>__init__\<close> sets them (lines 21--29).\<close>

record transfer_request =
  transfer_store_file :: string
  from_iban :: string
  to_iban :: string
  transfer_type :: string
  concept :: string
  transfer_date :: string
  transfer_amount :: pyfloat
  time_stamp :: pyfloat

text \<open>The dictionary \<open>to_json\<close> returns and the store holds (lines 187--198).\<close>

record transfer_record =
  rec_from_iban :: string
  rec_to_iban :: string
  rec_transfer_type :: string
  rec_transfer_amount :: pyfloat
  rec_transfer_concept :: string
  rec_transfer_date :: string
  rec_time_stamp :: pyfloat
  rec_transfer_code :: string

record clock =
  clock_timestamp :: pyfloat
  clock_today :: pydate

type_synonym hash_fn = "string \<Rightarrow> string"

section \<open>Textual form and transfer code\<close>

text \<open>
  \<open>__str__\<close> (lines 184--185): \<open>"Transfer:" + json.dumps(self.__dict__)\<close>, the
  attributes under their mangled names in insertion order.
\<close>

definition transfer_str :: "transfer_request \<Rightarrow> string" where
  "transfer_str t = ''Transfer:'' @ json_object
     [(''_TransferRequest__transfer_store_file'', json_str (transfer_store_file t)),
      (''_TransferRequest__from_iban'', json_str (from_iban t)),
      (''_TransferRequest__to_iban'', json_str (to_iban t)),
      (''_TransferRequest__transfer_type'', json_str (transfer_type t)),
      (''_TransferRequest__concept'', json_str (concept t)),
      (''_TransferRequest__transfer_date'', json_str (transfer_date t)),
      (''_TransferRequest__transfer_amount'', json_float (transfer_amount t)),
      (''_TransferRequest__time_stamp'', json_float (time_stamp t))]"

text \<open>The property \<open>transfer_code\<close> (lines 254--257).\<close>

definition transfer_code :: "hash_fn \<Rightarrow> transfer_request \<Rightarrow> string" where
  "transfer_code md5 t = md5 (transfer_str t)"

definition to_json :: "hash_fn \<Rightarrow> transfer_request \<Rightarrow> transfer_record" where
  "to_json md5 t =
     \<lparr>rec_from_iban = from_iban t, rec_to_iban = to_iban t,
      rec_transfer_type = transfer_type t, rec_transfer_amount = transfer_amount t,
      rec_transfer_concept = concept t, rec_transfer_date = transfer_date t,
      rec_time_stamp = time_stamp t, rec_transfer_code = transfer_code md5 t\<rparr>"

section \<open>Duplicate check and store update\<close>

text \<open>
  The condition of \<open>is_duplicate_transfer\<close> (lines 175--180): Python \<open>==\<close>
  on the six fields, so on the amount the float equality, under which NaN
  equals nothing.
\<close>

definition duplicate_of :: "transfer_request \<Rightarrow> transfer_record \<Rightarrow> bool" where
  "duplicate_of t t_i \<longleftrightarrow>
     rec_from_iban t_i = from_iban t \<and> rec_to_iban t_i = to_iban t \<and>
     rec_transfer_date t_i = transfer_date t \<and>
     py_float_eq (rec_transfer_amount t_i) (transfer_amount t) \<and>
     rec_transfer_concept t_i = concept t \<and> rec_transfer_type t_i = transfer_type t"

definition is_duplicate_transfer :: "transfer_request \<Rightarrow> transfer_record \<Rightarrow> unit py" where
  "is_duplicate_transfer t t_i =
     (if duplicate_of t t_i then raise_ame ''Duplicated transfer in transfer list'' else Inr ())"

text \<open>The loop \<open>for t_i in t_l: self.is_duplicate_transfer(t_i)\<close> (lines 159--160).\<close>

fun check_duplicates :: "transfer_request \<Rightarrow> transfer_record list \<Rightarrow> unit py" where
  "check_duplicates t [] = Inr ()"
| "check_duplicates t (t_i # t_l) = py_bind (is_duplicate_transfer t t_i) (\<lambda>_. check_duplicates t t_l)"

text \<open>
  \<open>store_transfer_request\<close> (lines 150--169): load, scan, append, rewrite.
  The file argument is the file at \<open>transfer_store_file\<close>; the result is the
  file after the call.
\<close>

definition store_transfer_request ::
  "hash_fn \<Rightarrow> transfer_request \<Rightarrow> transfer_record json_file \<Rightarrow> transfer_record json_file py" where
  "store_transfer_request md5 t f =
     py_bind (load_store f) (\<lambda>t_l.
     py_bind (check_duplicates t t_l) (\<lambda>_.
     save_store f (t_l @ [to_json md5 t])))"

section \<open>Construction\<close>

text \<open>The attributes set by lines 21--29, the time stamp read from the clock.\<close>

definition new_request ::
  "clock \<Rightarrow> string \<Rightarrow> string \<Rightarrow> string \<Rightarrow> string \<Rightarrow> string \<Rightarrow> pyfloat \<Rightarrow> string \<Rightarrow> transfer_request" where
  "new_request clk from_iban' transfer_type' to_iban' transfer_concept transfer_date'
      transfer_amount' transfer_store_file' =
     \<lparr>transfer_store_file = transfer_store_file', from_iban = from_iban', to_iban = to_iban',
      transfer_type = transfer_type', concept = transfer_concept, transfer_date = transfer_date',
      transfer_amount = transfer_amount', time_stamp = clock_timestamp clk\<rparr>"

text \<open>The six validations of lines 31--36, in their order.\<close>

definition validate_fields ::
  "pydate \<Rightarrow> string \<Rightarrow> string \<Rightarrow> string \<Rightarrow> string \<Rightarrow> string \<Rightarrow> pyfloat \<Rightarrow> unit py" where
  "validate_fields today from_iban' transfer_type' to_iban' transfer_concept transfer_date'
      transfer_amount' =
     py_bind (validate_iban from_iban') (\<lambda>_.
     py_bind (validate_iban to_iban') (\<lambda>_.
     py_bind (validate_concept transfer_concept) (\<lambda>_.
     py_bind (validate_transfer_type transfer_type') (\<lambda>_.
     py_bind (validate_transfer_date today transfer_date') (\<lambda>_.
     validate_amount transfer_amount')))))"

text \<open>
  \<open>__init__\<close> (lines 11--37): set the attributes, read the clock, run the six
  validators in order, store.  The result is the object and the store file
  after construction, or the first exception raised.
\<close>

definition TransferRequest_init ::
  "hash_fn \<Rightarrow> clock \<Rightarrow> string \<Rightarrow> string \<Rightarrow> string \<Rightarrow> string \<Rightarrow> string \<Rightarrow> pyfloat \<Rightarrow> string \<Rightarrow>
   transfer_record json_file \<Rightarrow> (transfer_request \<times> transfer_record json_file) py" where
  "TransferRequest_init md5 clk from_iban' transfer_type' to_iban' transfer_concept
      transfer_date' transfer_amount' transfer_store_file' f =
     (let self = new_request clk from_iban' transfer_type' to_iban' transfer_concept
                   transfer_date' transfer_amount' transfer_store_file' in
      py_bind (validate_fields (clock_today clk) from_iban' transfer_type' to_iban' transfer_concept
                 transfer_date' transfer_amount') (\<lambda>_.
      py_bind (store_transfer_request md5 self f) (\<lambda>f'. Inr (self, f'))))"

section \<open>Notions of the specification\<close>

text \<open>All six validators return normally (lines 31--36).\<close>

definition fields_valid ::
  "clock \<Rightarrow> string \<Rightarrow> string \<Rightarrow> string \<Rightarrow> string \<Rightarrow> string \<Rightarrow> pyfloat \<Rightarrow> bool" where
  "fields_valid clk fi ty ti c d a \<longleftrightarrow>
     \<not> isl (validate_iban fi) \<and> \<not> isl (validate_iban ti) \<and> validate_concept c = Inr () \<and>
     validate_transfer_type ty = Inr () \<and> \<not> isl (validate_transfer_date (clock_today clk) d) \<and>
     validate_amount a = Inr ()"

text \<open>
  The field tuple of the specification's uniqueness constraint, and two stored
  records that Python's \<open>==\<close> takes for the same transfer.
\<close>

definition transfer_key ::
  "transfer_record \<Rightarrow> string \<times> string \<times> string \<times> pyfloat \<times> string \<times> string" where
  "transfer_key r = (rec_from_iban r, rec_to_iban r, rec_transfer_date r, rec_transfer_amount r,
     rec_transfer_concept r, rec_transfer_type r)"

definition same_transfer :: "transfer_record \<Rightarrow> transfer_record \<Rightarrow> bool" where
  "same_transfer r1 r2 \<longleftrightarrow>
     rec_from_iban r1 = rec_from_iban r2 \<and> rec_to_iban r1 = rec_to_iban r2 \<and>
     rec_transfer_date r1 = rec_transfer_date r2 \<and>
     py_float_eq (rec_transfer_amount r1) (rec_transfer_amount r2) \<and>
     rec_transfer_concept r1 = rec_transfer_concept r2 \<and> rec_transfer_type r1 = rec_transfer_type r2"

text \<open>No stored record is the same transfer as an earlier one.\<close>

definition transfers_unique :: "transfer_record list \<Rightarrow> bool" where
  "transfers_unique l \<longleftrightarrow> sorted_wrt (\<lambda>r1 r2. \<not> same_transfer r1 r2) l"

text \<open>
  A stored record whose fields pass the checks the constructor ran: the
  IBANs, concept, type and amount validators, and the date's shape.
\<close>

definition record_well_typed :: "transfer_record \<Rightarrow> bool" where
  "record_well_typed r \<longleftrightarrow>
     \<not> isl (validate_iban (rec_from_iban r)) \<and> \<not> isl (validate_iban (rec_to_iban r)) \<and>
     validate_concept (rec_transfer_concept r) = Inr () \<and>
     validate_transfer_type (rec_transfer_type r) = Inr () \<and>
     date_regex (rec_transfer_date r) \<and> strptime_dmy (rec_transfer_date r) \<noteq> None \<and>
     validate_amount (rec_transfer_amount r) = Inr ()"

text \<open>
  The transfer store as a state machine: it starts absent or empty, and every
  construction that returns normally moves it to the file it leaves.
\<close>

inductive transfer_store_reach :: "transfer_record json_file \<Rightarrow> bool" where
  reach_missing: "transfer_store_reach (Missing b)"
| reach_empty: "transfer_store_reach (JsonList [])"
| reach_step: "transfer_store_reach f \<Longrightarrow>
    TransferRequest_init md5 clk fi ty ti c d a p f = Inr (s, f') \<Longrightarrow> transfer_store_reach f'"

section \<open>Example requests\<close>

text \<open>
  A request from the specification's example IBAN to itself, on a clock
  reading 9 November 2026, with a transfer date of that day.
\<close>

abbreviation ex_clock :: clock where
  "ex_clock \<equiv> \<lparr>clock_timestamp = PyFinite False 17627 5, clock_today = (2026, 11, 9)\<rparr>"

abbreviation ex_iban :: string where
  "ex_iban \<equiv> ''ES9121000418450200051332''"

abbreviation ex_request :: "clock \<Rightarrow> pyfloat \<Rightarrow> transfer_request" where
  "ex_request clk a \<equiv>
     new_request clk ex_iban ''URGENT'' ex_iban ''Pago alquiler'' ''09/11/2026'' a ''transfers.json''"

abbreviation ex_clock2 :: clock where
  "ex_clock2 \<equiv> \<lparr>clock_timestamp = PyFinite False 176271 4, clock_today = (2026, 11, 9)\<rparr>"

section \<open>Behaviour of the operations\<close>

lemma check_duplicates_eq:
  "check_duplicates t l =
     (if list_ex (duplicate_of t) l then raise_ame ''Duplicated transfer in transfer list'' else Inr ())"
  by (induction l) (simp_all add: is_duplicate_transfer_def)

lemma store_transfer_request_eq:
  "store_transfer_request md5 t f =
     (if f = Malformed then raise_ame ''JSON Decode Error - Wrong JSON Format''
      else if list_ex (duplicate_of t) (stored f)
      then raise_ame ''Duplicated transfer in transfer list''
      else if f = Missing False then raise_ame ''Wrong file  or file path''
      else Inr (JsonList (stored f @ [to_json md5 t])))"
  by (cases "(f, stored f @ [to_json md5 t])" rule: save_store.cases)
     (simp_all add: store_transfer_request_def check_duplicates_eq)

lemma TransferRequest_init_valid:
  "fields_valid clk fi ty ti c d a \<Longrightarrow>
   TransferRequest_init md5 clk fi ty ti c d a p f =
     py_bind (store_transfer_request md5 (new_request clk fi ty ti c d a p) f)
       (\<lambda>f'. Inr (new_request clk fi ty ti c d a p, f'))"
  unfolding TransferRequest_init_def validate_fields_def fields_valid_def Let_def
  by (auto simp: not_isl_iff)

lemma TransferRequest_init_Inr:
  "TransferRequest_init md5 clk fi ty ti c d a p f = Inr (s, f') \<longleftrightarrow>
     fields_valid clk fi ty ti c d a \<and> s = new_request clk fi ty ti c d a p \<and>
     f \<noteq> Malformed \<and> f \<noteq> Missing False \<and> \<not> list_ex (duplicate_of s) (stored f) \<and>
     f' = JsonList (stored f @ [to_json md5 s])"
  unfolding TransferRequest_init_def validate_fields_def fields_valid_def Let_def
  by (auto simp: store_transfer_request_eq not_isl_iff split: sum.splits)

lemma fields_valid_today:
  "clock_today clk' = clock_today clk \<Longrightarrow> fields_valid clk' = fields_valid clk"
  by (simp add: fields_valid_def fun_eq_iff)

lemma duplicate_of_to_json: "duplicate_of s r \<longleftrightarrow> same_transfer r (to_json md5 s)"
  by (simp add: duplicate_of_def same_transfer_def to_json_def)

lemma duplicate_of_same_fields:
  assumes "from_iban s' = from_iban s" "to_iban s' = to_iban s" "transfer_date s' = transfer_date s"
    "transfer_amount s' = transfer_amount s" "concept s' = concept s" "transfer_type s' = transfer_type s"
  shows "duplicate_of s' = duplicate_of s"
  using assms by (simp add: duplicate_of_def fun_eq_iff)

lemma validate_transfer_date_shape:
  "\<not> isl (validate_transfer_date today d) \<Longrightarrow> date_regex d \<and> strptime_dmy d \<noteq> None"
  by (auto simp: validate_transfer_date_def split: if_splits option.splits)

lemma to_json_well_typed:
  "fields_valid clk fi ty ti c d a \<Longrightarrow> record_well_typed (to_json md5 (new_request clk fi ty ti c d a p))"
  by (auto simp: fields_valid_def record_well_typed_def to_json_def new_request_def
      dest: validate_transfer_date_shape)

lemma validate_fields_ok:
  "validate_fields (clock_today clk) fi ty ti c d a = Inr u \<longleftrightarrow> fields_valid clk fi ty ti c d a"
  by (auto simp: validate_fields_def fields_valid_def not_isl_iff split: py_bind_splits)

lemma duplicate_of_fun: "duplicate_of s = (\<lambda>r. same_transfer r (to_json md5 s))"
  by (simp add: fun_eq_iff duplicate_of_to_json [of s _ md5])

lemma transfers_unique_append:
  "transfers_unique l \<Longrightarrow> \<not> list_ex (\<lambda>t. same_transfer t r) l \<Longrightarrow> transfers_unique (l @ [r])"
  by (auto simp: transfers_unique_def sorted_wrt_append list_ex_iff)

lemma nan_same_key:
  "transfer_key (to_json md5 (new_request clk fi ty ti c d PyNaN p)) =
   transfer_key (to_json md5' (new_request clk' fi ty ti c d PyNaN p'))"
  by (simp add: transfer_key_def to_json_def new_request_def)

lemma example_fields_valid:
  assumes "clock_today clk = (2026, 11, 9)" and "validate_amount a = Inr ()"
  shows "fields_valid clk ex_iban ''URGENT'' ex_iban ''Pago alquiler'' ''09/11/2026'' a"
  using assms by (simp add: fields_valid_def iban_example_valid concept_eval date_eval
      validate_transfer_type_def transfer_types_def)

lemma example_amounts: "validate_amount (PyFinite False 1 2) = Inr ()" "validate_amount PyNaN = Inr ()"
  by (simp_all add: validate_amount_def py_float_repr_def nat_digits.simps dec_value_def Let_def py_simps)

lemma example_init:
  assumes "clock_today clk = (2026, 11, 9)" and "validate_amount a = Inr ()"
    and "f \<noteq> Malformed" "f \<noteq> Missing False" "\<not> list_ex (duplicate_of (ex_request clk a)) (stored f)"
  shows "TransferRequest_init md5 clk ex_iban ''URGENT'' ex_iban ''Pago alquiler'' ''09/11/2026'' a
    ''transfers.json'' f = Inr (ex_request clk a, JsonList (stored f @ [to_json md5 (ex_request clk a)]))"
  using assms example_fields_valid [OF assms(1,2)] by (simp add: TransferRequest_init_Inr)

lemma example_amount_200: "validate_amount (PyFinite False 2 2) = Inr ()"
  by (simp add: validate_amount_def py_float_repr_def nat_digits.simps dec_value_def Let_def py_simps)

lemma example_not_dup:
  "\<not> list_ex (duplicate_of (ex_request ex_clock2 (PyFinite False 2 2)))
      [to_json (\<lambda>x. x) (ex_request ex_clock (PyFinite False 1 2))]"
  by (simp add: duplicate_of_def to_json_def new_request_def dec_value_def)

lemma example_reach:
  "transfer_store_reach (JsonList [to_json (\<lambda>x. x) (ex_request ex_clock (PyFinite False 1 2))])"
  "transfer_store_reach (JsonList [to_json (\<lambda>x. x) (ex_request ex_clock (PyFinite False 1 2)),
      to_json (\<lambda>x. x) (ex_request ex_clock2 (PyFinite False 2 2))])"
proof -
  show r1: "transfer_store_reach (JsonList [to_json (\<lambda>x. x) (ex_request ex_clock (PyFinite False 1 2))])"
    using reach_step [OF reach_missing example_init [of ex_clock "PyFinite False 1 2" "Missing True"]]
      example_amounts by simp
  show "transfer_store_reach (JsonList [to_json (\<lambda>x. x) (ex_request ex_clock (PyFinite False 1 2)),
      to_json (\<lambda>x. x) (ex_request ex_clock2 (PyFinite False 2 2))])"
    using reach_step [OF r1 example_init [of ex_clock2 "PyFinite False 2 2"]] example_amount_200
      example_not_dup by simp
qed

section \<open>Construction, storing and reading back\<close>

text \<open>
  C6: a construction that returns normally has appended exactly one record to
  the store, and reading the store back gives the six fields as given, the
  time stamp of the clock and the object's transfer code.
\<close>

theorem transfer_request_roundtrip:
  assumes "TransferRequest_init md5 clk fi ty ti c d a p f = Inr (s, f')"
  shows "\<exists>r. load_store f' = Inr (stored f @ [r]) \<and>
    transfer_key r = (fi, ti, d, a, c, ty) \<and> rec_time_stamp r = clock_timestamp clk \<and>
    rec_transfer_code r = transfer_code md5 s"
  using assms by (auto simp: TransferRequest_init_Inr transfer_key_def to_json_def new_request_def)

text \<open>
  C7: submitting the same six fields again, the same day, with any time stamp
  and any store path, is rejected as a duplicate, whenever the amount is not
  NaN.
\<close>

theorem resubmission_rejected:
  assumes "TransferRequest_init md5 clk fi ty ti c d a p f = Inr (s, f1)"
    and "a \<noteq> PyNaN" and "clock_today clk' = clock_today clk"
  shows "TransferRequest_init md5 clk' fi ty ti c d a p' f1 =
    raise_ame ''Duplicated transfer in transfer list''"
proof -
  have f1: "f1 = JsonList (stored f @ [to_json md5 s])" and s: "s = new_request clk fi ty ti c d a p"
    and ok: "fields_valid clk' fi ty ti c d a"
    using assms(1) unfolding TransferRequest_init_Inr fields_valid_today [OF assms(3)] by blast+
  have "duplicate_of (new_request clk' fi ty ti c d a p') (to_json md5 s)"
    using assms(2) by (simp add: duplicate_of_def to_json_def s new_request_def py_float_eq_refl)
  then show ?thesis
    by (simp add: TransferRequest_init_valid [OF ok] store_transfer_request_eq f1)
qed

text \<open>
  C8: the duplicate check keeps the store free of two records that Python's
  \<open>==\<close> takes for the same transfer, in every store reachable from an absent
  or empty file.
\<close>

theorem transfer_store_invariant:
  assumes "transfer_store_reach f"
  shows "transfers_unique (stored f)"
  using assms
proof induction
  case (reach_step f md5 clk fi ty ti c d a p s f')
  then have "f' = JsonList (stored f @ [to_json md5 s])" "\<not> list_ex (duplicate_of s) (stored f)"
    unfolding TransferRequest_init_Inr by blast+
  with reach_step.IH show ?case
    by (simp add: transfers_unique_append duplicate_of_fun [of s md5])
qed (simp_all add: transfers_unique_def)

text \<open>
  C9: with a NaN amount the duplicate check never fires: resubmitting the same
  fields succeeds and the store then holds two records with the same field
  tuple, against the uniqueness constraint of the specification.
\<close>

theorem nan_resubmission_stored:
  assumes "TransferRequest_init md5 clk fi ty ti c d PyNaN p f = Inr (s, f1)"
    and "clock_today clk' = clock_today clk"
  shows "\<exists>s' f2. TransferRequest_init md5 clk' fi ty ti c d PyNaN p' f1 = Inr (s', f2) \<and>
    stored f2 = stored f @ [to_json md5 s, to_json md5 s'] \<and>
    transfer_key (to_json md5 s) = transfer_key (to_json md5 s')"
proof -
  let ?s' = "new_request clk' fi ty ti c d PyNaN p'"
  have f1: "f1 = JsonList (stored f @ [to_json md5 s])" and s: "s = new_request clk fi ty ti c d PyNaN p"
    and nd: "\<not> list_ex (duplicate_of s) (stored f)" and ok: "fields_valid clk' fi ty ti c d PyNaN"
    using assms(1) unfolding TransferRequest_init_Inr fields_valid_today [OF assms(2)] by blast+
  have "duplicate_of ?s' = duplicate_of s"
    by (rule duplicate_of_same_fields) (simp_all add: s new_request_def)
  moreover have "\<not> duplicate_of ?s' (to_json md5 s)"
    by (simp add: duplicate_of_def to_json_def s new_request_def)
  ultimately have "\<not> list_ex (duplicate_of ?s') (stored f1)"
    using nd by (simp add: f1)
  then show ?thesis
    using ok by (simp add: TransferRequest_init_Inr f1 s nan_same_key)
qed

section \<open>Error paths\<close>

text \<open>
  C18: construction raises exactly in these cases, in this order: the first
  validator that fails, with its own exception, whatever the store; then,
  for valid fields, a malformed store (decode error) before a duplicate, and
  a duplicate before a missing directory.  No exception leaves a new store.
\<close>

theorem TransferRequest_init_errors:
  "TransferRequest_init md5 clk fi ty ti c d a p f = Inl e \<longleftrightarrow>
     validate_fields (clock_today clk) fi ty ti c d a = Inl e \<or>
     (fields_valid clk fi ty ti c d a \<and>
      (f = Malformed \<and> e = AccountManagementException ''JSON Decode Error - Wrong JSON Format'' \<or>
       f \<noteq> Malformed \<and> list_ex (duplicate_of (new_request clk fi ty ti c d a p)) (stored f) \<and>
         e = AccountManagementException ''Duplicated transfer in transfer list'' \<or>
       f = Missing False \<and> \<not> list_ex (duplicate_of (new_request clk fi ty ti c d a p)) (stored f) \<and>
         e = AccountManagementException ''Wrong file  or file path''))"
proof (cases "validate_fields (clock_today clk) fi ty ti c d a")
  case (Inl e')
  then have "\<not> fields_valid clk fi ty ti c d a"
    using validate_fields_ok [of clk fi ty ti c d a] by auto
  with Inl show ?thesis by (simp add: TransferRequest_init_def Let_def)
next
  case (Inr u)
  then have "fields_valid clk fi ty ti c d a"
    using validate_fields_ok by blast
  with Inr show ?thesis
    by (auto simp: TransferRequest_init_def Let_def store_transfer_request_eq raise_ame_def)
qed

section \<open>Reachable stores\<close>

text \<open>
  C17: every record of a reachable store passed the constructor's checks:
  both IBANs, the concept, the type and the amount validate, and the date has
  the \<open>DD/MM/YYYY\<close> shape of a real date.
\<close>

theorem stored_records_well_typed:
  assumes "transfer_store_reach f"
  shows "list_all record_well_typed (stored f)"
  using assms
proof induction
  case (reach_step f md5 clk fi ty ti c d a p s f')
  then have "f' = JsonList (stored f @ [to_json md5 s])" "fields_valid clk fi ty ti c d a"
    "s = new_request clk fi ty ti c d a p"
    unfolding TransferRequest_init_Inr by blast+
  with reach_step.IH show ?case by (simp add: to_json_well_typed)
qed simp_all

section \<open>The hashed text\<close>

lemma transfer_str_eq_iff:
  "transfer_str t1 = transfer_str t2 \<longleftrightarrow>
     transfer_store_file t1 = transfer_store_file t2 \<and> from_iban t1 = from_iban t2 \<and>
     to_iban t1 = to_iban t2 \<and> transfer_type t1 = transfer_type t2 \<and> concept t1 = concept t2 \<and>
     transfer_date t1 = transfer_date t2 \<and>
     json_float (transfer_amount t1) = json_float (transfer_amount t2) \<and>
     json_float (time_stamp t1) = json_float (time_stamp t2)"
  by (simp add: transfer_str_def json_object_def json_members_def split_at_comma comma_notin_json_float)

text \<open>
  C15: the text \<open>str\<close> that \<open>transfer_code\<close> hashes determines the request: two
  requests have the same \<open>str\<close> exactly when their store paths, IBANs, types,
  concepts and dates are equal and their amounts and time stamps print alike.
  In particular the same six fields with another time stamp or store path give
  another hash input.
\<close>

theorem transfer_str_inj:
  "transfer_str t1 = transfer_str t2 \<longleftrightarrow>
     transfer_store_file t1 = transfer_store_file t2 \<and> from_iban t1 = from_iban t2 \<and>
     to_iban t1 = to_iban t2 \<and> transfer_type t1 = transfer_type t2 \<and> concept t1 = concept t2 \<and>
     transfer_date t1 = transfer_date t2 \<and>
     json_float (transfer_amount t1) = json_float (transfer_amount t2) \<and>
     json_float (time_stamp t1) = json_float (time_stamp t2)"
  by (rule transfer_str_eq_iff)

section \<open>Witnesses\<close>

theorem transfer_request_roundtrip_witness:
  "TransferRequest_init (\<lambda>x. x) ex_clock ex_iban ''URGENT'' ex_iban ''Pago alquiler'' ''09/11/2026''
     (PyFinite False 1 2) ''transfers.json'' (Missing True) =
     Inr (ex_request ex_clock (PyFinite False 1 2),
          JsonList [to_json (\<lambda>x. x) (ex_request ex_clock (PyFinite False 1 2))]) \<and>
   (\<exists>r. load_store (JsonList [to_json (\<lambda>x. x) (ex_request ex_clock (PyFinite False 1 2))]) = Inr [r] \<and>
     transfer_key r = (ex_iban, ex_iban, ''09/11/2026'', PyFinite False 1 2, ''Pago alquiler'', ''URGENT'') \<and>
     rec_time_stamp r = PyFinite False 17627 5 \<and>
     rec_transfer_code r = transfer_code (\<lambda>x. x) (ex_request ex_clock (PyFinite False 1 2)))"
proof -
  have init: "TransferRequest_init (\<lambda>x. x) ex_clock ex_iban ''URGENT'' ex_iban ''Pago alquiler''
     ''09/11/2026'' (PyFinite False 1 2) ''transfers.json'' (Missing True) =
     Inr (ex_request ex_clock (PyFinite False 1 2),
          JsonList [to_json (\<lambda>x. x) (ex_request ex_clock (PyFinite False 1 2))])"
    using example_init [of ex_clock "PyFinite False 1 2" "Missing True"] example_amounts by simp
  show ?thesis
    using init transfer_request_roundtrip [OF init] by simp
qed

theorem resubmission_rejected_witness:
  "TransferRequest_init (\<lambda>x. x) ex_clock ex_iban ''URGENT'' ex_iban ''Pago alquiler'' ''09/11/2026''
     (PyFinite False 1 2) ''transfers.json'' (Missing True) =
     Inr (ex_request ex_clock (PyFinite False 1 2),
          JsonList [to_json (\<lambda>x. x) (ex_request ex_clock (PyFinite False 1 2))]) \<and>
   TransferRequest_init (\<lambda>x. x) ex_clock2 ex_iban ''URGENT'' ex_iban ''Pago alquiler'' ''09/11/2026''
     (PyFinite False 1 2) ''other.json''
     (JsonList [to_json (\<lambda>x. x) (ex_request ex_clock (PyFinite False 1 2))]) =
     raise_ame ''Duplicated transfer in transfer list''"
proof -
  have init: "TransferRequest_init (\<lambda>x. x) ex_clock ex_iban ''URGENT'' ex_iban ''Pago alquiler''
     ''09/11/2026'' (PyFinite False 1 2) ''transfers.json'' (Missing True) =
     Inr (ex_request ex_clock (PyFinite False 1 2),
          JsonList [to_json (\<lambda>x. x) (ex_request ex_clock (PyFinite False 1 2))])"
    using example_init [of ex_clock "PyFinite False 1 2" "Missing True"] example_amounts by simp
  show ?thesis
    using init resubmission_rejected [OF init, of ex_clock2 "''other.json''"] by simp
qed

theorem transfer_store_invariant_witness:
  "transfer_store_reach (JsonList [to_json (\<lambda>x. x) (ex_request ex_clock (PyFinite False 1 2)),
      to_json (\<lambda>x. x) (ex_request ex_clock2 (PyFinite False 2 2))]) \<and>
   transfers_unique [to_json (\<lambda>x. x) (ex_request ex_clock (PyFinite False 1 2)),
      to_json (\<lambda>x. x) (ex_request ex_clock2 (PyFinite False 2 2))]"
  using example_reach(2) transfer_store_invariant [OF example_reach(2)] by simp

theorem stored_records_well_typed_witness:
  "transfer_store_reach (JsonList [to_json (\<lambda>x. x) (ex_request ex_clock (PyFinite False 1 2)),
      to_json (\<lambda>x. x) (ex_request ex_clock2 (PyFinite False 2 2))]) \<and>
   list_all record_well_typed [to_json (\<lambda>x. x) (ex_request ex_clock (PyFinite False 1 2)),
      to_json (\<lambda>x. x) (ex_request ex_clock2 (PyFinite False 2 2))]"
  using example_reach(2) stored_records_well_typed [OF example_reach(2)] by simp

theorem nan_resubmission_stored_witness:
  "TransferRequest_init (\<lambda>x. x) ex_clock ex_iban ''URGENT'' ex_iban ''Pago alquiler'' ''09/11/2026''
     PyNaN ''transfers.json'' (Missing True) =
     Inr (ex_request ex_clock PyNaN, JsonList [to_json (\<lambda>x. x) (ex_request ex_clock PyNaN)]) \<and>
   (\<exists>s' f2. TransferRequest_init (\<lambda>x. x) ex_clock2 ex_iban ''URGENT'' ex_iban ''Pago alquiler''
     ''09/11/2026'' PyNaN ''transfers.json'' (JsonList [to_json (\<lambda>x. x) (ex_request ex_clock PyNaN)]) =
       Inr (s', f2) \<and>
     stored f2 = [to_json (\<lambda>x. x) (ex_request ex_clock PyNaN), to_json (\<lambda>x. x) s'] \<and>
     transfer_key (to_json (\<lambda>x. x) (ex_request ex_clock PyNaN)) = transfer_key (to_json (\<lambda>x. x) s'))"
proof -
  have init: "TransferRequest_init (\<lambda>x. x) ex_clock ex_iban ''URGENT'' ex_iban ''Pago alquiler''
     ''09/11/2026'' PyNaN ''transfers.json'' (Missing True) =
     Inr (ex_request ex_clock PyNaN, JsonList [to_json (\<lambda>x. x) (ex_request ex_clock PyNaN)])"
    using example_init [of ex_clock PyNaN "Missing True"] example_amounts by simp
  show ?thesis
    using init nan_resubmission_stored [OF init, of ex_clock2 "''transfers.json''"] by simp
qed

theorem TransferRequest_init_errors_witness:
  "TransferRequest_init (\<lambda>x. x) ex_clock ex_iban ''URGENT'' ex_iban ''Pago alquiler'' ''09/11/2026''
     (PyFinite False 1 2) ''transfers.json'' Malformed =
   Inl (AccountManagementException ''JSON Decode Error - Wrong JSON Format'')"
proof -
  have ok: "fields_valid ex_clock ex_iban ''URGENT'' ex_iban ''Pago alquiler'' ''09/11/2026''
      (PyFinite False 1 2)"
    by (rule example_fields_valid) (simp, rule example_amounts(1))
  then have "validate_fields (2026, 11, 9) ex_iban ''URGENT'' ex_iban ''Pago alquiler'' ''09/11/2026''
      (PyFinite False 1 2) = Inr ()"
    using validate_fields_ok [of ex_clock] by simp
  with ok show ?thesis
    using TransferRequest_init_errors [of "\<lambda>x. x" ex_clock ex_iban "''URGENT''" ex_iban
        "''Pago alquiler''" "''09/11/2026''" "PyFinite False 1 2" "''transfers.json''" Malformed
        "AccountManagementException ''JSON Decode Error - Wrong JSON Format''"]
    by (cases "TransferRequest_init (\<lambda>x. x) ex_clock ex_iban ''URGENT'' ex_iban ''Pago alquiler''
        ''09/11/2026'' (PyFinite False 1 2) ''transfers.json'' Malformed") simp_all
qed

end
