(* ===== verification/AccountManager.thy ===== *)
theory AccountManager
  imports TransferRequest
begin

text \<open>
  The class \<open>AccountManager\<close> of the current snapshot
  (\<open>src/src/main/python/uc3m_money/account_manager.py\<close>), with the parts of its
  collaborators it calls: the deposit input file, the deposit store, the
  transactions log and the balances store.  \<open>AccountDeposit\<close> and the
  configuration module are not in the sources: the deposit object is modelled
  from the specification (its target IBAN, its amount, a signature computed by
  a parameter \<open>sign\<close>), and the store paths are the files given as arguments.
  Python's \<open>float()\<close> on a string is a parameter \<open>flt\<close> (\<open>None\<close> for
  \<open>ValueError\<close>) and float addition a parameter \<open>fadd\<close>.

  The class defines no method \<open>validate_iban\<close> (the validators moved to
  \<open>TransferRequest\<close>), so the calls \<open>self.validate_iban\<close> of lines 49 and 97
  raise \<open>AttributeError\<close>.
\<close>

section \<open>Input files and stores\<close>

text \<open>
  A JSON input file holding one object: absent, not parseable, or the
  object's members with their string values (as \<open>json.load\<close> keeps the last
  of repeated keys, the list is taken without repetitions).
\<close>

datatype json_input = InputMissing | InputMalformed | InputObject "(string \<times> string) list"

type_synonym py_dict = "(string \<times> string) list"

definition attribute_error :: "string \<Rightarrow> 'a py" where
  "attribute_error name = Inl (AttributeError name)"

text \<open>\<open>d[k]\<close> on a dictionary: \<open>KeyError\<close> when the key is absent.\<close>

definition dict_get :: "py_dict \<Rightarrow> string \<Rightarrow> string py" where
  "dict_get d k = (case map_of d k of None \<Rightarrow> Inl (KeyError k) | Some v \<Rightarrow> Inr v)"

text \<open>Lines 34--47: read the input file and take its two keys.\<close>

fun load_input :: "json_input \<Rightarrow> py_dict py" where
  "load_input InputMissing = raise_ame ''Error: file input not found''"
| "load_input InputMalformed = raise_ame ''JSON Decode Error - Wrong JSON Format''"
| "load_input (InputObject d) = Inr d"

definition deposit_fields :: "py_dict \<Rightarrow> (string \<times> string) py" where
  "deposit_fields i_d =
     (case (map_of i_d ''IBAN'', map_of i_d ''AMOUNT'') of
        (Some deposit_iban, Some deposit_amount) \<Rightarrow> Inr (deposit_iban, deposit_amount)
      | _ \<Rightarrow> raise_ame ''Error - Invalid Key in JSON'')"

definition read_deposit_input :: "json_input \<Rightarrow> (string \<times> string) py" where
  "read_deposit_input input_file = py_bind (load_input input_file) deposit_fields"

text \<open>Lines 50--51: \<open>fullmatch\<close> of \<open>^EUR [0-9]{4}\.[0-9]{2}\<close>.\<close>

definition deposit_amount_ok :: "string \<Rightarrow> bool" where
  "deposit_amount_ok s \<longleftrightarrow>
     length s = 11 \<and> take 4 s = ''EUR '' \<and> list_all is_ascii_digit (take 4 (drop 4 s)) \<and>
     s ! 8 = CHR ''.'' \<and> list_all is_ascii_digit (drop 9 s)"

text \<open>The deposit object of \<open>account_deposit.py\<close> (not in the sources).\<close>

record deposit_record =
  dep_to_iban :: string
  dep_amount :: pyfloat
  dep_signature :: string

definition AccountDeposit :: "(string \<Rightarrow> pyfloat \<Rightarrow> string) \<Rightarrow> string \<Rightarrow> pyfloat \<Rightarrow> deposit_record" where
  "AccountDeposit sign to_iban' deposit_amount' =
     \<lparr>dep_to_iban = to_iban', dep_amount = deposit_amount', dep_signature = sign to_iban' deposit_amount'\<rparr>"

text \<open>Lines 55--80: parse the amount, reject zero, append the deposit to the store.\<close>

definition store_deposit ::
  "(string \<Rightarrow> pyfloat option) \<Rightarrow> (string \<Rightarrow> pyfloat \<Rightarrow> string) \<Rightarrow> string \<Rightarrow> string \<Rightarrow>
   deposit_record json_file \<Rightarrow> (string \<times> deposit_record json_file) py" where
  "store_deposit flt sign deposit_iban deposit_amount f =
     (case flt (drop 4 deposit_amount) of
        None \<Rightarrow> Inl ValueError
      | Some d_a_f \<Rightarrow>
          if py_float_eq d_a_f (PyFinite False 0 0)
          then raise_ame ''Error - Deposit must be greater than 0''
          else let deposit_obj = AccountDeposit sign deposit_iban d_a_f in
            py_bind (load_store f) (\<lambda>d_l.
            py_bind (save_store f (d_l @ [deposit_obj])) (\<lambda>f'.
            Inr (dep_signature deposit_obj, f'))))"

section \<open>The operations\<close>

text \<open>\<open>transfer_request\<close> (lines 20--30): construct, return the transfer code.\<close>

definition transfer_request ::
  "hash_fn \<Rightarrow> clock \<Rightarrow> string \<Rightarrow> string \<Rightarrow> string \<Rightarrow> string \<Rightarrow> string \<Rightarrow> string \<Rightarrow> pyfloat \<Rightarrow>
   transfer_record json_file \<Rightarrow> (string \<times> transfer_record json_file) py" where
  "transfer_request md5 clk store_path from_iban' to_iban' concept' transfer_type' date amount f =
     py_bind (TransferRequest_init md5 clk from_iban' transfer_type' to_iban' concept' date amount
       store_path f) (\<lambda>(t, f'). Inr (transfer_code md5 t, f'))"

text \<open>\<open>deposit_into_account\<close> (lines 32--80).\<close>

definition deposit_into_account ::
  "(string \<Rightarrow> pyfloat option) \<Rightarrow> (string \<Rightarrow> pyfloat \<Rightarrow> string) \<Rightarrow> json_input \<Rightarrow>
   deposit_record json_file \<Rightarrow> (string \<times> deposit_record json_file) py" where
  "deposit_into_account flt sign input_file f =
     py_bind (read_deposit_input input_file) (\<lambda>(deposit_iban, deposit_amount).
     py_bind (attribute_error ''validate_iban'') (\<lambda>deposit_iban :: string.
       if \<not> deposit_amount_ok deposit_amount then raise_ame ''Error - Invalid deposit amount''
       else store_deposit flt sign deposit_iban deposit_amount f))"

text \<open>\<open>read_transactions_file\<close> (lines 82--92): here a missing file is an error.\<close>

fun read_transactions_file :: "'a json_file \<Rightarrow> 'a list py" where
  "read_transactions_file (Missing _) = raise_ame ''Wrong file  or file path''"
| "read_transactions_file Malformed = raise_ame ''JSON Decode Error - Wrong JSON Format''"
| "read_transactions_file (JsonList l) = Inr l"

text \<open>
  The loop of lines 101--105: the running sum (the integer \<open>0\<close> first, which
  the first float addition turns into \<open>0.0 + x\<close>) and the found flag.
\<close>

fun balance_loop ::
  "(string \<Rightarrow> pyfloat option) \<Rightarrow> (pyfloat \<Rightarrow> pyfloat \<Rightarrow> pyfloat) \<Rightarrow> string \<Rightarrow> pyfloat \<times> bool \<Rightarrow>
   py_dict list \<Rightarrow> (pyfloat \<times> bool) py" where
  "balance_loop flt fadd iban acc [] = Inr acc"
| "balance_loop flt fadd iban (bal_s, iban_found) (transaction # t_l) =
     py_bind (dict_get transaction ''IBAN'') (\<lambda>t_iban.
       if t_iban = iban then
         py_bind (dict_get transaction ''amount'') (\<lambda>a.
           case flt a of
             None \<Rightarrow> Inl ValueError
           | Some x \<Rightarrow> balance_loop flt fadd iban (fadd bal_s x, True) t_l)
       else balance_loop flt fadd iban (bal_s, iban_found) t_l)"

record balance_record =
  bal_iban :: string
  bal_time :: pyfloat
  bal_balance :: pyfloat

text \<open>
  Lines 99--128, once the IBAN has been validated into \<open>iban\<close> and the log
  read into \<open>t_l\<close>: sum, fail if absent, append a snapshot.
\<close>

definition balance_of_iban ::
  "(string \<Rightarrow> pyfloat option) \<Rightarrow> (pyfloat \<Rightarrow> pyfloat \<Rightarrow> pyfloat) \<Rightarrow> clock \<Rightarrow> string \<Rightarrow>
   py_dict list \<Rightarrow> balance_record json_file \<Rightarrow> (bool \<times> balance_record json_file) py" where
  "balance_of_iban flt fadd clk iban t_l balances =
     py_bind (balance_loop flt fadd iban (PyFinite False 0 0, False) t_l) (\<lambda>(bal_s, iban_found).
       if \<not> iban_found then raise_ame ''IBAN not found''
       else let last_balance = \<lparr>bal_iban = iban, bal_time = clock_timestamp clk, bal_balance = bal_s\<rparr> in
         py_bind (load_store balances) (\<lambda>balance_list.
         py_bind (save_store balances (balance_list @ [last_balance])) (\<lambda>f'. Inr (True, f'))))"

text \<open>\<open>calculate_balance\<close> (lines 95--128).\<close>

definition calculate_balance ::
  "(string \<Rightarrow> pyfloat option) \<Rightarrow> (pyfloat \<Rightarrow> pyfloat \<Rightarrow> pyfloat) \<Rightarrow> clock \<Rightarrow> string \<Rightarrow>
   py_dict json_file \<Rightarrow> balance_record json_file \<Rightarrow> (bool \<times> balance_record json_file) py" where
  "calculate_balance flt fadd clk iban transactions balances =
     py_bind (attribute_error ''validate_iban'') (\<lambda>iban.
     py_bind (read_transactions_file transactions) (\<lambda>t_l.
       balance_of_iban flt fadd clk iban t_l balances))"

text \<open>The amounts of the log entries recorded for \<open>iban\<close>, in log order.\<close>

definition matching_amounts :: "string \<Rightarrow> py_dict list \<Rightarrow> string list" where
  "matching_amounts iban t_l = map (\<lambda>t. the (map_of t ''amount'')) (filter (\<lambda>t. map_of t ''IBAN'' = Some iban) t_l)"

section \<open>Behaviour of the operations\<close>

lemma transfer_request_Inr:
  "transfer_request md5 clk p fi ti c ty d a f = Inr (code, f') \<longleftrightarrow>
     (\<exists>s. TransferRequest_init md5 clk fi ty ti c d a p f = Inr (s, f') \<and> code = transfer_code md5 s)"
  by (cases "TransferRequest_init md5 clk fi ty ti c d a p f") (auto simp: transfer_request_def)

lemma transfer_request_unfold:
  "transfer_request md5 clk p fi ti c ty d a f =
     py_bind (validate_iban fi) (\<lambda>_. py_bind (validate_iban ti) (\<lambda>_.
     py_bind (validate_concept c) (\<lambda>_. py_bind (validate_transfer_type ty) (\<lambda>_.
     py_bind (validate_transfer_date (clock_today clk) d) (\<lambda>_. py_bind (validate_amount a) (\<lambda>_.
     py_bind (store_transfer_request md5 (new_request clk fi ty ti c d a p) f) (\<lambda>f'.
       Inr (transfer_code md5 (new_request clk fi ty ti c d a p), f'))))))))"
  by (simp add: transfer_request_def TransferRequest_init_def validate_fields_def Let_def)

lemma balance_loop_absent:
  "list_all (\<lambda>t. \<exists>i. map_of t ''IBAN'' = Some i \<and> i \<noteq> iban) t_l \<Longrightarrow>
   balance_loop flt fadd iban (b, found) t_l = Inr (b, found)"
proof (induction t_l)
  case (Cons t t_l)
  then obtain i where "map_of t ''IBAN'' = Some i" "i \<noteq> iban" by auto
  with Cons show ?case by (simp add: dict_get_def)
qed simp

section \<open>The missing \<open>validate_iban\<close>\<close>

text \<open>
  C13: \<open>deposit_into_account\<close> never returns normally: when the input file
  is read and has both keys, the call \<open>self.validate_iban\<close> raises
  \<open>AttributeError\<close>, so no deposit is ever stored.
\<close>

theorem deposit_into_account_fails:
  "deposit_into_account flt sign input_file f =
     py_bind (read_deposit_input input_file) (\<lambda>_. attribute_error ''validate_iban'')"
  by (cases "read_deposit_input input_file")
     (auto simp: deposit_into_account_def attribute_error_def)

text \<open>
  C14: \<open>calculate_balance\<close> raises \<open>AttributeError\<close> on every input, before
  reading the transactions log: no balance is ever computed or stored.
\<close>

theorem calculate_balance_fails:
  "calculate_balance flt fadd clk iban transactions balances = attribute_error ''validate_iban''"
  by (simp add: calculate_balance_def attribute_error_def)

section \<open>The balance loop\<close>

text \<open>
  C19: on a log whose entries all carry an IBAN, and whose entries for
  \<open>iban\<close> carry an amount \<open>float()\<close> accepts, the loop of lines 101--105
  adds the amounts of exactly the entries for \<open>iban\<close>, in log order, to the
  running sum, and sets the found flag exactly when there is one.
\<close>

theorem balance_loop_sum:
  assumes "list_all (\<lambda>t. map_of t ''IBAN'' \<noteq> None \<and>
      (map_of t ''IBAN'' = Some iban \<longrightarrow> (\<exists>a x. map_of t ''amount'' = Some a \<and> flt a = Some x))) t_l"
  shows "balance_loop flt fadd iban (b, found) t_l =
    Inr (foldl fadd b (map (\<lambda>a. the (flt a)) (matching_amounts iban t_l)),
         found \<or> matching_amounts iban t_l \<noteq> [])"
  using assms
proof (induction t_l arbitrary: b found)
  case (Cons t t_l)
  then obtain i where i: "map_of t ''IBAN'' = Some i" by auto
  show ?case
  proof (cases "i = iban")
    case True
    with Cons.prems i obtain a x where "map_of t ''amount'' = Some a" "flt a = Some x" by auto
    with True i Cons show ?thesis by (simp add: dict_get_def matching_amounts_def)
  next
    case False
    with i Cons show ?thesis by (simp add: dict_get_def matching_amounts_def)
  qed
qed (simp add: matching_amounts_def)

text \<open>
  The specification's balance example: entries of 100.0 and -30.0 for one
  IBAN and one for another give 70.0, with \<open>fadd\<close> taking the IEEE sums
  \<open>0.0 + 100.0 = 100.0\<close> and \<open>100.0 + (-30.0) = 70.0\<close>.
\<close>

theorem balance_loop_sum_witness:
  "balance_loop (\<lambda>s. if s = ''100.0'' then Some (PyFinite False 1 2)
                    else if s = ''-30.0'' then Some (PyFinite True 3 1) else None)
     (\<lambda>x y. if x = PyFinite False 0 0 \<and> y = PyFinite False 1 2 then PyFinite False 1 2
            else if x = PyFinite False 1 2 \<and> y = PyFinite True 3 1 then PyFinite False 7 1 else PyNaN)
     ''ES1'' (PyFinite False 0 0, False)
     [[(''IBAN'', ''ES1''), (''amount'', ''100.0'')], [(''IBAN'', ''ES2''), (''amount'', ''5.0'')],
      [(''IBAN'', ''ES1''), (''amount'', ''-30.0'')]] =
   Inr (PyFinite False 7 1, True)"
  using balance_loop_sum [of "''ES1''"
      "\<lambda>s. if s = ''100.0'' then Some (PyFinite False 1 2)
           else if s = ''-30.0'' then Some (PyFinite True 3 1) else None"
      "[[(''IBAN'', ''ES1''), (''amount'', ''100.0'')], [(''IBAN'', ''ES2''), (''amount'', ''5.0'')],
        [(''IBAN'', ''ES1''), (''amount'', ''-30.0'')]]"
      "\<lambda>x y. if x = PyFinite False 0 0 \<and> y = PyFinite False 1 2 then PyFinite False 1 2
            else if x = PyFinite False 1 2 \<and> y = PyFinite True 3 1 then PyFinite False 7 1 else PyNaN"
      "PyFinite False 0 0" False]
  by (simp add: matching_amounts_def)

end
