(* ===== verification/AccountManagerG8X.thy ===== *)
theory AccountManagerG8X
  imports AccountManager
begin

text \<open>
  The older \<open>AccountManager\<close> of \<open>src/G8X.2025.T00.GE4-main/.../account_manager.py\<close>,
  which validates the transfer fields itself before building a
  \<open>TransferRequest\<close>.  Its own \<open>validate_iban\<close>, \<open>validate_concept\<close>,
  \<open>validate_transfer_date\<close> and \<open>read_transactions_file\<close> are modelled as
  they are written and shown equal to the current snapshot's methods.  The
  \<open>TransferRequest\<close> class of this snapshot is not in the sources: its object
  is given by a parameter \<open>mk\<close> returning the record its \<open>to_json\<close>
  produces (whose \<open>transfer_code\<close> entry is the object's transfer code).
\<close>

section \<open>The validators of the older snapshot\<close>

text \<open>\<open>validate_iban\<close> (lines 21--69), \<open>check_regex\<close> being a full match.\<close>

definition g8x_validate_iban :: "string \<Rightarrow> string py" where
  "g8x_validate_iban iban =
     (if \<not> iban_format_ok iban then raise_ame ''Invalid IBAN format''
      else
        let original_code = take 2 (drop 2 iban);
            iban = take 2 iban @ ''00'' @ drop 4 iban;
            iban = drop 4 iban @ take 4 iban;
            iban = replace_letters iban;
            int_i = int_of_digits iban;
            md = int_i mod 97;
            control_digit = 98 - md
        in if int_of_digits original_code \<noteq> control_digit
           then raise_ame ''Invalid IBAN control digit''
           else Inr iban)"

text \<open>\<open>validate_concept\<close> (lines 78--84).\<close>

definition g8x_validate_concept :: "string \<Rightarrow> unit py" where
  "g8x_validate_concept concept' =
     (if \<not> concept_regex concept' then raise_ame ''Invalid concept format'' else Inr ())"

text \<open>\<open>validate_transfer_date\<close> (lines 86--103).\<close>

definition g8x_validate_transfer_date :: "pydate \<Rightarrow> string \<Rightarrow> string py" where
  "g8x_validate_transfer_date today transfer_date' =
     (if \<not> date_regex transfer_date' then raise_ame ''Invalid date format''
      else case strptime_dmy transfer_date' of
        None \<Rightarrow> raise_ame ''Invalid date format''
      | Some my_date \<Rightarrow>
          if my_date < today then raise_ame ''Transfer date must be today or later.''
          else if fst my_date < 2025 \<or> 2050 < fst my_date then raise_ame ''Invalid date format''
          else Inr transfer_date')"

text \<open>\<open>read_transactions_file\<close> (lines 225--235).\<close>

fun g8x_read_transactions_file :: "'a json_file \<Rightarrow> 'a list py" where
  "g8x_read_transactions_file (Missing _) = raise_ame ''Wrong file  or file path''"
| "g8x_read_transactions_file Malformed = raise_ame ''JSON Decode Error - Wrong JSON Format''"
| "g8x_read_transactions_file (JsonList l) = Inr l"

section \<open>Transfers\<close>

text \<open>The type check of line 117, with the spelling \<open>IMMEDIATE\<close>.\<close>

definition g8x_transfer_types :: "string list" where
  "g8x_transfer_types = [''ORDINARY'', ''IMMEDIATE'', ''URGENT'']"

type_synonym g8x_request_fn =
  "clock \<Rightarrow> string \<Rightarrow> string \<Rightarrow> string \<Rightarrow> string \<Rightarrow> string \<Rightarrow> pyfloat \<Rightarrow> transfer_record"

text \<open>
  \<open>transfer_request\<close> (lines 105--172): validate, build the request, scan the
  store for a record equal on the six fields to the request's properties,
  append and rewrite, return the transfer code.
\<close>

definition g8x_transfer_request ::
  "g8x_request_fn \<Rightarrow> clock \<Rightarrow> string \<Rightarrow> string \<Rightarrow> string \<Rightarrow> string \<Rightarrow> string \<Rightarrow> pyfloat \<Rightarrow>
   transfer_record json_file \<Rightarrow> (string \<times> transfer_record json_file) py" where
  "g8x_transfer_request mk clk from_iban' to_iban' concept' transfer_type' date amount f =
     py_bind (g8x_validate_iban from_iban') (\<lambda>_.
     py_bind (g8x_validate_iban to_iban') (\<lambda>_.
     py_bind (g8x_validate_concept concept') (\<lambda>_.
     if transfer_type' \<notin> set g8x_transfer_types then raise_ame ''Invalid transfer type'' else
     py_bind (g8x_validate_transfer_date (clock_today clk) date) (\<lambda>_.
     let amount_float = amount;
         amount_string = py_float_repr amount_float
     in if CHR ''.'' \<in> set amount_string \<and> 2 < length (py_split (CHR ''.'') amount_string ! 1)
        then raise_ame ''Invalid transfer amount''
     else if py_float_lt_int amount_float 10 \<or> py_float_gt_int amount_float 10000
        then raise_ame ''Invalid transfer amount'' else
     let my_request = mk clk from_iban' to_iban' concept' transfer_type' date amount in
     py_bind (load_store f) (\<lambda>transfer_list.
       if list_ex (\<lambda>transfer_instance. same_transfer transfer_instance my_request) transfer_list
       then raise_ame ''Duplicated transfer in transfer list''
       else py_bind (save_store f (transfer_list @ [my_request])) (\<lambda>f'.
         Inr (rec_transfer_code my_request, f')))))))"

section \<open>Deposits\<close>

text \<open>
  Line 193 builds the tuple \<open>(pattern, deposit_amount)\<close> instead of matching
  the pattern; a tuple of two elements is true.
\<close>

definition tuple_truthy :: "'a \<times> 'b \<Rightarrow> bool" where
  "tuple_truthy t = True"

text \<open>\<open>deposit_into_account\<close> (lines 174--222).\<close>

definition g8x_deposit_into_account ::
  "(string \<Rightarrow> pyfloat option) \<Rightarrow> (string \<Rightarrow> pyfloat \<Rightarrow> string) \<Rightarrow> json_input \<Rightarrow>
   deposit_record json_file \<Rightarrow> (string \<times> deposit_record json_file) py" where
  "g8x_deposit_into_account flt sign input_file f =
     py_bind (read_deposit_input input_file) (\<lambda>(deposit_iban, deposit_amount).
     py_bind (g8x_validate_iban deposit_iban) (\<lambda>deposit_iban.
       let is_valid_deposit_amount = tuple_truthy (''^EUR [0-9]{4}'' @ CHR 0x5C # ''.[0-9]{2}'', deposit_amount) in
       if \<not> is_valid_deposit_amount then raise_ame ''Error - Invalid deposit amount''
       else store_deposit flt sign deposit_iban deposit_amount f))"

section \<open>Balances\<close>

text \<open>
  \<open>calculate_balance\<close> (lines 238--271): after validating the IBAN and
  reading the log, lines 242--271 are those of the current snapshot (lines
  99--128), run on the result of \<open>validate_iban\<close>.
\<close>

definition g8x_calculate_balance ::
  "(string \<Rightarrow> pyfloat option) \<Rightarrow> (pyfloat \<Rightarrow> pyfloat \<Rightarrow> pyfloat) \<Rightarrow> clock \<Rightarrow> string \<Rightarrow>
   py_dict json_file \<Rightarrow> balance_record json_file \<Rightarrow> (bool \<times> balance_record json_file) py" where
  "g8x_calculate_balance flt fadd clk iban transactions balances =
     py_bind (g8x_validate_iban iban) (\<lambda>iban.
     py_bind (g8x_read_transactions_file transactions) (\<lambda>t_l.
       balance_of_iban flt fadd clk iban t_l balances))"

section \<open>One store, both snapshots\<close>

text \<open>
  The transfer store file as both snapshots' \<open>transfer_request\<close> paths
  leave it, in any interleaving of successful requests (the older one with
  any request object \<open>mk\<close>).
\<close>

inductive shared_store_reach :: "transfer_record json_file \<Rightarrow> bool" where
  shared_missing: "shared_store_reach (Missing b)"
| shared_empty: "shared_store_reach (JsonList [])"
| shared_current: "shared_store_reach f \<Longrightarrow>
    TransferRequest_init md5 clk fi ty ti c d a p f = Inr (s, f') \<Longrightarrow> shared_store_reach f'"
| shared_g8x: "shared_store_reach f \<Longrightarrow>
    g8x_transfer_request mk clk fi ti c ty d a f = Inr (code, f') \<Longrightarrow> shared_store_reach f'"

text \<open>The older snapshot's request object serialising as the current class does.\<close>

abbreviation ex_mk :: g8x_request_fn where
  "ex_mk \<equiv> (\<lambda>clk fi ti c ty d a. to_json (\<lambda>x. x) (new_request clk fi ty ti c d a ''transfers.json''))"

section \<open>Behaviour of the operations\<close>

text \<open>The validators of the two snapshots are the same functions.\<close>

lemma g8x_validators_eq:
  "g8x_validate_iban = validate_iban" "g8x_validate_concept = validate_concept"
  "g8x_validate_transfer_date = validate_transfer_date"
proof -
  show "g8x_validate_iban = validate_iban"
    by (simp add: fun_eq_iff g8x_validate_iban_def validate_iban_def)
  show "g8x_validate_concept = validate_concept"
    by (simp add: fun_eq_iff g8x_validate_concept_def validate_concept_def)
  show "g8x_validate_transfer_date = validate_transfer_date"
    by (simp add: fun_eq_iff g8x_validate_transfer_date_def validate_transfer_date_def)
qed

lemma g8x_read_transactions_file_eq: "g8x_read_transactions_file = read_transactions_file"
proof
  fix f :: "'a json_file"
  show "g8x_read_transactions_file f = read_transactions_file f" by (cases f) simp_all
qed

text \<open>The amount check inlined at lines 124--136 is \<open>validate_amount\<close>.\<close>

lemma g8x_amount_check:
  "(let amount_float = amount; amount_string = py_float_repr amount_float
    in if CHR ''.'' \<in> set amount_string \<and> 2 < length (py_split (CHR ''.'') amount_string ! 1)
       then raise_ame ''Invalid transfer amount''
       else if py_float_lt_int amount_float 10 \<or> py_float_gt_int amount_float 10000
       then raise_ame ''Invalid transfer amount'' else X) =
   py_bind (validate_amount amount) (\<lambda>_. X)"
  by (simp add: validate_amount_def Let_def)

lemma validate_iban_result_digits:
  assumes "validate_iban s = Inr v"
  shows "take 2 v \<noteq> ''ES''"
proof
  assume es: "take 2 v = ''ES''"
  have ok: "iban_format_ok s" and v: "v = drop 4 s @ ''142800''"
    using validate_iban_Inr [OF assms] by blast+
  have len: "length (drop 4 s) = 20" and d2: "list_all is_ascii_digit (drop 2 s)"
    using ok by (simp_all add: iban_format_ok_def)
  have "2 < length (drop 2 s)" using len by simp
  then have "is_ascii_digit (drop 2 s ! 2)"
    using d2 unfolding list_all_length by blast
  then have "is_ascii_digit (drop 4 s ! 0)"
    using len by simp
  moreover have "drop 4 s ! 0 = CHR ''E''"
    using es len arg_cong [OF es, of "\<lambda>xs. xs ! 0"] by (simp add: v nth_append)
  ultimately show False by (simp add: is_ascii_digit_def)
qed

lemma g8x_transfer_request_unfold:
  "g8x_transfer_request mk clk fi ti c ty d a f =
     py_bind (validate_iban fi) (\<lambda>_. py_bind (validate_iban ti) (\<lambda>_.
     py_bind (validate_concept c) (\<lambda>_.
     if ty \<notin> set g8x_transfer_types then raise_ame ''Invalid transfer type'' else
     py_bind (validate_transfer_date (clock_today clk) d) (\<lambda>_.
     py_bind (validate_amount a) (\<lambda>_.
     py_bind (load_store f) (\<lambda>transfer_list.
       if list_ex (\<lambda>t. same_transfer t (mk clk fi ti c ty d a)) transfer_list
       then raise_ame ''Duplicated transfer in transfer list''
       else py_bind (save_store f (transfer_list @ [mk clk fi ti c ty d a])) (\<lambda>f'.
         Inr (rec_transfer_code (mk clk fi ti c ty d a), f'))))))))"
  unfolding g8x_transfer_request_def g8x_validators_eq g8x_amount_check unfolding Let_def ..

lemma g8x_store_part:
  "py_bind (load_store f) (\<lambda>transfer_list.
       if list_ex (\<lambda>t. same_transfer t (to_json md5 s)) transfer_list
       then raise_ame ''Duplicated transfer in transfer list''
       else py_bind (save_store f (transfer_list @ [to_json md5 s])) (\<lambda>f'.
         Inr (rec_transfer_code (to_json md5 s), f'))) =
   py_bind (store_transfer_request md5 s f) (\<lambda>f'. Inr (transfer_code md5 s, f'))"
  by (cases "(f, stored f @ [to_json md5 s])" rule: save_store.cases)
     (simp_all add: store_transfer_request_eq duplicate_of_fun [of _ md5] to_json_def)

lemma g8x_transfer_request_Inr:
  assumes "g8x_transfer_request mk clk fi ti c ty d a f = Inr (code, f')"
  shows "f' = JsonList (stored f @ [mk clk fi ti c ty d a]) \<and>
    \<not> list_ex (\<lambda>t. same_transfer t (mk clk fi ti c ty d a)) (stored f)"
proof -
  have "f \<noteq> Malformed"
    using assms by (auto simp: g8x_transfer_request_unfold split: py_bind_splits if_splits)
  then show ?thesis
    using assms
    by (cases "(f, stored f @ [mk clk fi ti c ty d a])" rule: save_store.cases)
       (auto simp: g8x_transfer_request_unfold load_store_ok split: py_bind_splits if_splits)
qed

lemma example_g8x_step:
  "g8x_transfer_request ex_mk ex_clock2 ex_iban ex_iban ''Pago alquiler'' ''IMMEDIATE'' ''09/11/2026''
     (PyFinite False 1 2) (JsonList [to_json (\<lambda>x. x) (ex_request ex_clock (PyFinite False 1 2))]) =
   Inr (transfer_code (\<lambda>x. x) (new_request ex_clock2 ex_iban ''IMMEDIATE'' ex_iban ''Pago alquiler''
          ''09/11/2026'' (PyFinite False 1 2) ''transfers.json''),
        JsonList [to_json (\<lambda>x. x) (ex_request ex_clock (PyFinite False 1 2)),
                  ex_mk ex_clock2 ex_iban ex_iban ''Pago alquiler'' ''IMMEDIATE'' ''09/11/2026''
                    (PyFinite False 1 2)])"
proof -
  have v: "validate_concept ''Pago alquiler'' = Inr ()"
    "\<not> isl (validate_transfer_date (2026, 11, 9) ''09/11/2026'')"
    using example_fields_valid [of ex_clock "PyFinite False 1 2"] example_amounts
    by (simp_all add: fields_valid_def)
  obtain dd where dd: "validate_transfer_date (2026, 11, 9) ''09/11/2026'' = Inr dd"
    using v(2) by (auto simp: not_isl_iff)
  show ?thesis
    using example_amounts(1) v(1) dd
    by (simp add: g8x_transfer_request_unfold iban_example_valid
        g8x_transfer_types_def same_transfer_def to_json_def new_request_def)
qed

section \<open>The two transfer paths\<close>

text \<open>
  C10: moving the validators into \<open>TransferRequest\<close> preserved the transfer
  path.  When the older snapshot's request object serialises as the current
  class does, the older \<open>transfer_request\<close> and the current one return the
  same code, raise the same exception and leave the same store, on every
  input whose transfer type is neither spelling of IMMEDIATE.
\<close>

theorem g8x_transfer_request_equiv:
  assumes "transfer_type' \<notin> {''IMMEDIATE'', ''INMEDIATE''}"
  shows "g8x_transfer_request (\<lambda>clk fi ti c ty d a. to_json md5 (new_request clk fi ty ti c d a p))
      clk from_iban' to_iban' concept' transfer_type' date amount f =
    transfer_request md5 clk p from_iban' to_iban' concept' transfer_type' date amount f"
proof -
  have ty: "(if transfer_type' \<notin> set g8x_transfer_types then raise_ame ''Invalid transfer type'' else X) =
      py_bind (validate_transfer_type transfer_type') (\<lambda>_. X)" for X :: "(string \<times> transfer_record json_file) py"
    using assms by (auto simp: g8x_transfer_types_def transfer_types_def validate_transfer_type_def)
  show ?thesis
    unfolding g8x_transfer_request_unfold ty g8x_store_part transfer_request_unfold ..
qed

section \<open>Balances and deposits of the older snapshot\<close>

lemma g8x_balance_not_found:
  assumes "list_all (\<lambda>t. \<exists>i. map_of t ''IBAN'' = Some i \<and> take 2 i = ''ES'') t_l"
  shows "g8x_calculate_balance flt fadd clk iban (JsonList t_l) balances =
    py_bind (validate_iban iban) (\<lambda>_. raise_ame ''IBAN not found'')"
proof (cases "validate_iban iban")
  case (Inr v)
  have "list_all (\<lambda>t. \<exists>i. map_of t ''IBAN'' = Some i \<and> i \<noteq> v) t_l"
    using assms validate_iban_result_digits [OF Inr] by (auto simp: list_all_iff)
  then show ?thesis
    by (simp add: g8x_calculate_balance_def g8x_validators_eq g8x_read_transactions_file_eq balance_of_iban_def Inr
        balance_loop_absent)
qed (simp add: g8x_calculate_balance_def g8x_validators_eq)

text \<open>
  C11: \<open>calculate_balance\<close> looks the log up with the value
  \<open>validate_iban\<close> returns, the rearranged digit string, so a log whose
  entries all carry IBANs (\<open>ES\<close> first) never matches: every valid IBAN
  ends in \<open>IBAN not found\<close>.
\<close>

theorem g8x_calculate_balance_not_found:
  assumes "list_all (\<lambda>t. \<exists>i. map_of t ''IBAN'' = Some i \<and> take 2 i = ''ES'') t_l"
  shows "g8x_calculate_balance flt fadd clk iban (JsonList t_l) balances =
    py_bind (validate_iban iban) (\<lambda>_. raise_ame ''IBAN not found'')"
  using assms by (rule g8x_balance_not_found)

text \<open>
  C12: \<open>deposit_into_account\<close> never checks the amount's format: any amount
  string whose tail parses to a non-zero float, negative ones included, is
  stored, and the deposit is recorded under the rearranged digit string
  rather than the IBAN.
\<close>

theorem g8x_deposit_unchecked:
  assumes "read_deposit_input input_file = Inr (iban, amount)" and "validate_iban iban = Inr v"
    and "flt (drop 4 amount) = Some x" and "\<not> py_float_eq x (PyFinite False 0 0)"
    and "f \<noteq> Malformed" and "f \<noteq> Missing False"
  shows "g8x_deposit_into_account flt sign input_file f =
    Inr (sign v x, JsonList (stored f @ [AccountDeposit sign v x]))"
  using assms by (simp add: g8x_deposit_into_account_def g8x_validators_eq tuple_truthy_def store_deposit_def
      load_store_ok save_store_ok AccountDeposit_def)

text \<open>
  C21: a deposit whose amount parses to zero (the specification's example
  \<open>EUR 0000.00\<close>) is rejected with \<open>Deposit must be greater than 0\<close>, before
  the deposit store is read.
\<close>

theorem g8x_deposit_zero_rejected:
  assumes "read_deposit_input input_file = Inr (iban, amount)" and "validate_iban iban = Inr v"
    and "flt (drop 4 amount) = Some x" and "py_float_eq x (PyFinite False 0 0)"
  shows "g8x_deposit_into_account flt sign input_file f =
    raise_ame ''Error - Deposit must be greater than 0''"
  using assms by (simp add: g8x_deposit_into_account_def g8x_validators_eq tuple_truthy_def
      store_deposit_def)

section \<open>Interleaving the two snapshots\<close>

text \<open>
  C20: the uniqueness invariant holds in every store reached by any
  interleaving of the two snapshots' successful transfer requests: the older
  path checks each new record against the stored ones with the same six-field
  equality as the current one.
\<close>

theorem shared_store_unique:
  assumes "shared_store_reach f"
  shows "transfers_unique (stored f)"
  using assms
proof induction
  case (shared_current f md5 clk fi ty ti c d a p s f')
  then have "f' = JsonList (stored f @ [to_json md5 s])" "\<not> list_ex (duplicate_of s) (stored f)"
    unfolding TransferRequest_init_Inr by blast+
  with shared_current.IH show ?case
    by (simp add: transfers_unique_append duplicate_of_fun [of s md5])
next
  case (shared_g8x f mk clk fi ti c ty d a code f')
  with g8x_transfer_request_Inr [OF shared_g8x.hyps(2)] show ?case
    by (simp add: transfers_unique_append)
qed (simp_all add: transfers_unique_def)

section \<open>Witnesses\<close>

text \<open>
  The example request of \<open>TransferRequest\<close> through both snapshots; a log
  holding the example IBAN; a deposit of \<open>EUR -50\<close>.
\<close>

theorem g8x_transfer_request_equiv_witness:
  "g8x_transfer_request
      (\<lambda>clk fi ti c ty d a. to_json (\<lambda>x. x) (new_request clk fi ty ti c d a ''transfers.json''))
      ex_clock ex_iban ex_iban ''Pago alquiler'' ''URGENT'' ''09/11/2026'' (PyFinite False 1 2)
      (Missing True) =
   transfer_request (\<lambda>x. x) ex_clock ''transfers.json'' ex_iban ex_iban ''Pago alquiler'' ''URGENT''
      ''09/11/2026'' (PyFinite False 1 2) (Missing True) \<and>
   transfer_request (\<lambda>x. x) ex_clock ''transfers.json'' ex_iban ex_iban ''Pago alquiler'' ''URGENT''
      ''09/11/2026'' (PyFinite False 1 2) (Missing True) =
   Inr (transfer_code (\<lambda>x. x) (ex_request ex_clock (PyFinite False 1 2)),
        JsonList [to_json (\<lambda>x. x) (ex_request ex_clock (PyFinite False 1 2))])"
proof -
  have init: "TransferRequest_init (\<lambda>x. x) ex_clock ex_iban ''URGENT'' ex_iban ''Pago alquiler''
     ''09/11/2026'' (PyFinite False 1 2) ''transfers.json'' (Missing True) =
     Inr (ex_request ex_clock (PyFinite False 1 2),
          JsonList [to_json (\<lambda>x. x) (ex_request ex_clock (PyFinite False 1 2))])"
    using example_init [of ex_clock "PyFinite False 1 2" "Missing True"] example_amounts by simp
  have tr: "transfer_request (\<lambda>x. x) ex_clock ''transfers.json'' ex_iban ex_iban ''Pago alquiler''
      ''URGENT'' ''09/11/2026'' (PyFinite False 1 2) (Missing True) =
    Inr (transfer_code (\<lambda>x. x) (ex_request ex_clock (PyFinite False 1 2)),
        JsonList [to_json (\<lambda>x. x) (ex_request ex_clock (PyFinite False 1 2))])"
    unfolding transfer_request_def init by simp
  show ?thesis
    using g8x_transfer_request_equiv [of "''URGENT''" "\<lambda>x. x" "''transfers.json''" ex_clock ex_iban
        ex_iban "''Pago alquiler''" "''09/11/2026''" "PyFinite False 1 2" "Missing True"] tr
    by simp
qed

theorem g8x_calculate_balance_not_found_witness:
  "g8x_calculate_balance (\<lambda>_. None) (\<lambda>x y. x) ex_clock ex_iban
      (JsonList [[(''IBAN'', ex_iban), (''amount'', ''100.0'')]]) (Missing True) =
   raise_ame ''IBAN not found''"
  using g8x_calculate_balance_not_found [of "[[(''IBAN'', ex_iban), (''amount'', ''100.0'')]]" "\<lambda>_. None"
      "\<lambda>x y. x" ex_clock ex_iban "Missing True"]
  by (simp add: iban_example_valid)

theorem g8x_deposit_unchecked_witness:
  "g8x_deposit_into_account (\<lambda>s. if s = ''-50'' then Some (PyFinite True 5 1) else None)
      (\<lambda>_ _. ''sig'') (InputObject [(''IBAN'', ex_iban), (''AMOUNT'', ''EUR -50'')]) (Missing True) =
   Inr (''sig'', JsonList [AccountDeposit (\<lambda>_ _. ''sig'') ''21000418450200051332142800''
     (PyFinite True 5 1)])"
proof -
  have "read_deposit_input (InputObject [(''IBAN'', ex_iban), (''AMOUNT'', ''EUR -50'')]) =
      Inr (ex_iban, ''EUR -50'')"
    by (simp add: read_deposit_input_def deposit_fields_def)
  from g8x_deposit_unchecked [OF this iban_example_valid] show ?thesis
    by (simp add: dec_value_def)
qed

theorem shared_store_unique_witness:
  "shared_store_reach (JsonList [to_json (\<lambda>x. x) (ex_request ex_clock (PyFinite False 1 2)),
      ex_mk ex_clock2 ex_iban ex_iban ''Pago alquiler'' ''IMMEDIATE'' ''09/11/2026'' (PyFinite False 1 2)]) \<and>
   transfers_unique [to_json (\<lambda>x. x) (ex_request ex_clock (PyFinite False 1 2)),
      ex_mk ex_clock2 ex_iban ex_iban ''Pago alquiler'' ''IMMEDIATE'' ''09/11/2026'' (PyFinite False 1 2)]"
proof -
  have r1: "shared_store_reach (JsonList [to_json (\<lambda>x. x) (ex_request ex_clock (PyFinite False 1 2))])"
    using shared_current [OF shared_missing example_init [of ex_clock "PyFinite False 1 2" "Missing True"]]
      example_amounts by simp
  have r2: "shared_store_reach (JsonList [to_json (\<lambda>x. x) (ex_request ex_clock (PyFinite False 1 2)),
      ex_mk ex_clock2 ex_iban ex_iban ''Pago alquiler'' ''IMMEDIATE'' ''09/11/2026'' (PyFinite False 1 2)])"
    by (rule shared_g8x [OF r1 example_g8x_step])
  show ?thesis
    using r2 shared_store_unique [OF r2] by simp
qed

theorem g8x_deposit_zero_rejected_witness:
  "g8x_deposit_into_account (\<lambda>s. if s = ''0000.00'' then Some (PyFinite False 0 0) else None)
      (\<lambda>_ _. ''sig'') (InputObject [(''IBAN'', ex_iban), (''AMOUNT'', ''EUR 0000.00'')]) (Missing True) =
   raise_ame ''Error - Deposit must be greater than 0''"
proof -
  have "read_deposit_input (InputObject [(''IBAN'', ex_iban), (''AMOUNT'', ''EUR 0000.00'')]) =
      Inr (ex_iban, ''EUR 0000.00'')"
    by (simp add: read_deposit_input_def deposit_fields_def)
  from g8x_deposit_zero_rejected [OF this iban_example_valid] show ?thesis
    by (simp add: dec_value_def)
qed

end
