(* ===== verification/AccountSystem.thy ===== *)
theory AccountSystem
  imports AccountManagerG8X "HOL-Library.Sublist"
begin

text \<open>
  The module as one system: the four store files the two \<open>AccountManager\<close>
  snapshots share, a datatype of their public operations, a step function and
  its run over a sequence of operations.  An operation that raises leaves
  every file as it was: each method writes its store only as its last
  action, after every check has passed.
\<close>

section \<open>State, operations, steps\<close>

record am_state =
  transfers_file :: "transfer_record json_file"
  deposits_file :: "deposit_record json_file"
  transactions_file :: "py_dict json_file"
  balances_file :: "balance_record json_file"

text \<open>The collaborators every call uses: MD5, \<open>float()\<close>, float addition, the deposit signature, the older snapshot's request object, and \<open>TRANSFERS_STORE_FILE\<close>.\<close>

record am_env =
  env_md5 :: hash_fn
  env_flt :: "string \<Rightarrow> pyfloat option"
  env_fadd :: "pyfloat \<Rightarrow> pyfloat \<Rightarrow> pyfloat"
  env_sign :: "string \<Rightarrow> pyfloat \<Rightarrow> string"
  env_mk :: g8x_request_fn
  env_transfers_path :: string

text \<open>The public methods of both snapshots, with their arguments.\<close>

datatype am_op =
    TransferRequestOp string string string string string pyfloat
  | DepositIntoAccountOp json_input
  | CalculateBalanceOp string
  | G8XTransferRequestOp string string string string string pyfloat
  | G8XDepositIntoAccountOp json_input
  | G8XCalculateBalanceOp string

datatype am_result = TransferCode string | DepositSignature string | BalanceDone bool

fun am_step :: "am_env \<Rightarrow> clock \<Rightarrow> am_state \<Rightarrow> am_op \<Rightarrow> am_result py \<times> am_state" where
  "am_step env clk st (TransferRequestOp fi ti c ty d a) =
     (case transfer_request (env_md5 env) clk (env_transfers_path env) fi ti c ty d a (transfers_file st) of
        Inl e \<Rightarrow> (Inl e, st)
      | Inr (code, f') \<Rightarrow> (Inr (TransferCode code), st\<lparr>transfers_file := f'\<rparr>))"
| "am_step env clk st (DepositIntoAccountOp inp) =
     (case deposit_into_account (env_flt env) (env_sign env) inp (deposits_file st) of
        Inl e \<Rightarrow> (Inl e, st)
      | Inr (sig, f') \<Rightarrow> (Inr (DepositSignature sig), st\<lparr>deposits_file := f'\<rparr>))"
| "am_step env clk st (CalculateBalanceOp iban) =
     (case calculate_balance (env_flt env) (env_fadd env) clk iban (transactions_file st) (balances_file st) of
        Inl e \<Rightarrow> (Inl e, st)
      | Inr (b, f') \<Rightarrow> (Inr (BalanceDone b), st\<lparr>balances_file := f'\<rparr>))"
| "am_step env clk st (G8XTransferRequestOp fi ti c ty d a) =
     (case g8x_transfer_request (env_mk env) clk fi ti c ty d a (transfers_file st) of
        Inl e \<Rightarrow> (Inl e, st)
      | Inr (code, f') \<Rightarrow> (Inr (TransferCode code), st\<lparr>transfers_file := f'\<rparr>))"
| "am_step env clk st (G8XDepositIntoAccountOp inp) =
     (case g8x_deposit_into_account (env_flt env) (env_sign env) inp (deposits_file st) of
        Inl e \<Rightarrow> (Inl e, st)
      | Inr (sig, f') \<Rightarrow> (Inr (DepositSignature sig), st\<lparr>deposits_file := f'\<rparr>))"
| "am_step env clk st (G8XCalculateBalanceOp iban) =
     (case g8x_calculate_balance (env_flt env) (env_fadd env) clk iban (transactions_file st)
             (balances_file st) of
        Inl e \<Rightarrow> (Inl e, st)
      | Inr (b, f') \<Rightarrow> (Inr (BalanceDone b), st\<lparr>balances_file := f'\<rparr>))"

text \<open>A sequence of calls, each with its clock reading; the results in order.\<close>

fun am_run :: "am_env \<Rightarrow> am_state \<Rightarrow> (clock \<times> am_op) list \<Rightarrow> am_result py list \<times> am_state" where
  "am_run env st [] = ([], st)"
| "am_run env st ((clk, op) # ops) =
     (let (r, st') = am_step env clk st op; (rs, st'') = am_run env st' ops in (r # rs, st''))"

text \<open>Every store only grows: the records of the old file begin the new one.\<close>

definition stores_extend :: "am_state \<Rightarrow> am_state \<Rightarrow> bool" where
  "stores_extend st st' \<longleftrightarrow>
     prefix (stored (transfers_file st)) (stored (transfers_file st')) \<and>
     prefix (stored (deposits_file st)) (stored (deposits_file st')) \<and>
     prefix (stored (balances_file st)) (stored (balances_file st')) \<and>
     transactions_file st' = transactions_file st \<and>
     (transfers_file st = Malformed \<longrightarrow> transfers_file st' = Malformed)"

text \<open>
  The transactions log holds IBANs: every entry has an \<open>IBAN\<close> key whose
  value starts with the country code, as the specification's log does.
\<close>

definition log_ibans_es :: "py_dict json_file \<Rightarrow> bool" where
  "log_ibans_es f \<longleftrightarrow> list_all (\<lambda>t. \<exists>i. map_of t ''IBAN'' = Some i \<and> take 2 i = ''ES'') (stored f)"

text \<open>No stored deposit has an amount equal to \<open>0.0\<close> under Python \<open>==\<close>.\<close>

definition deposits_nonzero :: "am_state \<Rightarrow> bool" where
  "deposits_nonzero st \<longleftrightarrow>
     list_all (\<lambda>r. \<not> py_float_eq (dep_amount r) (PyFinite False 0 0)) (stored (deposits_file st))"

definition is_transfer_code :: "am_result py \<Rightarrow> bool" where
  "is_transfer_code r \<longleftrightarrow> (\<exists>code. r = Inr (TransferCode code))"

text \<open>
  An example system: all stores absent, the example request made through the
  current path, then through the older path with the spelling
  \<open>IMMEDIATE\<close>, then again through the current path.
\<close>

abbreviation ex_env :: am_env where
  "ex_env \<equiv> \<lparr>env_md5 = (\<lambda>x. x), env_flt = (\<lambda>_. None), env_fadd = (\<lambda>x y. x),
     env_sign = (\<lambda>_ _. ''sig''), env_mk = ex_mk, env_transfers_path = ''transfers.json''\<rparr>"

abbreviation ex_state :: am_state where
  "ex_state \<equiv> \<lparr>transfers_file = Missing True, deposits_file = Missing True,
     transactions_file = Missing True, balances_file = Missing True\<rparr>"

abbreviation ex_ops :: "(clock \<times> am_op) list" where
  "ex_ops \<equiv>
     [(ex_clock, TransferRequestOp ex_iban ex_iban ''Pago alquiler'' ''URGENT'' ''09/11/2026''
         (PyFinite False 1 2)),
      (ex_clock2, G8XTransferRequestOp ex_iban ex_iban ''Pago alquiler'' ''IMMEDIATE'' ''09/11/2026''
         (PyFinite False 1 2)),
      (ex_clock2, TransferRequestOp ex_iban ex_iban ''Pago alquiler'' ''URGENT'' ''09/11/2026''
         (PyFinite False 1 2))]"

section \<open>Each operation appends at most one record\<close>

lemma transfer_request_appends:
  assumes "transfer_request md5 clk p fi ti c ty d a f = Inr (code, f')"
  shows "f \<noteq> Malformed \<and> (\<exists>r. f' = JsonList (stored f @ [r]))"
  using assms unfolding transfer_request_Inr TransferRequest_init_Inr by blast

lemma g8x_transfer_request_appends:
  assumes "g8x_transfer_request mk clk fi ti c ty d a f = Inr (code, f')"
  shows "f \<noteq> Malformed \<and> (\<exists>r. f' = JsonList (stored f @ [r]))"
proof -
  have "f \<noteq> Malformed"
    using assms by (auto simp: g8x_transfer_request_unfold split: py_bind_splits if_splits)
  then show ?thesis using g8x_transfer_request_Inr [OF assms] by auto
qed

lemma store_deposit_appends:
  assumes "store_deposit flt sign iban amount f = Inr (sig, f')"
  shows "\<exists>r. f' = JsonList (stored f @ [r])"
  using assms
  by (cases "(f, stored f @ [AccountDeposit sign iban (the (flt (drop 4 amount)))])" rule: save_store.cases)
     (auto simp: store_deposit_def Let_def load_store_ok split: option.splits if_splits py_bind_splits)

lemma deposit_into_account_raises: "isl (deposit_into_account flt sign inp f)"
  by (cases "read_deposit_input inp") (auto simp: deposit_into_account_def attribute_error_def)

lemma calculate_balance_raises: "isl (calculate_balance flt fadd clk iban tr bal)"
  by (simp add: calculate_balance_def attribute_error_def)

lemma g8x_deposit_appends:
  assumes "g8x_deposit_into_account flt sign inp f = Inr (sig, f')"
  shows "\<exists>r. f' = JsonList (stored f @ [r])"
  using assms store_deposit_appends
  by (auto simp: g8x_deposit_into_account_def tuple_truthy_def split: py_bind_splits prod.splits)

lemma balance_of_iban_appends:
  assumes "balance_of_iban flt fadd clk iban t_l bal = Inr (b, f')"
  shows "\<exists>r. f' = JsonList (stored bal @ [r])"
  using assms
  by (auto simp: balance_of_iban_def Let_def dest: save_store_Inr load_store_Inr_stored
      split: py_bind_splits prod.splits if_splits)

lemma g8x_calculate_balance_appends:
  assumes "g8x_calculate_balance flt fadd clk iban tr bal = Inr (b, f')"
  shows "\<exists>r. f' = JsonList (stored bal @ [r])"
  using assms balance_of_iban_appends
  by (auto simp: g8x_calculate_balance_def split: py_bind_splits)

lemma store_deposit_Inr:
  assumes "store_deposit flt sign iban amount f = Inr (sig, f')"
  shows "\<exists>x. \<not> py_float_eq x (PyFinite False 0 0) \<and> f' = JsonList (stored f @ [AccountDeposit sign iban x])"
  using assms
  by (cases "(f, stored f @ [AccountDeposit sign iban (the (flt (drop 4 amount)))])" rule: save_store.cases)
     (auto simp: store_deposit_def Let_def load_store_ok split: option.splits if_splits py_bind_splits)

lemma g8x_deposit_Inr:
  assumes "g8x_deposit_into_account flt sign inp f = Inr (sig, f')"
  shows "\<exists>iban x. \<not> py_float_eq x (PyFinite False 0 0) \<and> f' = JsonList (stored f @ [AccountDeposit sign iban x])"
  using assms
  by (auto simp: g8x_deposit_into_account_def tuple_truthy_def dest!: store_deposit_Inr
      split: py_bind_splits prod.splits)

lemma g8x_calculate_balance_raises:
  assumes "log_ibans_es tr"
  shows "isl (g8x_calculate_balance flt fadd clk iban tr bal)"
proof (cases tr)
  case (JsonList t_l)
  then show ?thesis
    using assms g8x_balance_not_found [of t_l flt fadd clk iban bal]
    by (cases "validate_iban iban") (simp_all add: log_ibans_es_def)
qed (simp_all add: g8x_calculate_balance_def g8x_validators_eq g8x_read_transactions_file_eq
    split: sum.splits py_bind_splits)

section \<open>One step\<close>

lemma stores_extend_refl [simp]: "stores_extend st st"
  by (simp add: stores_extend_def)

lemma stores_extend_trans: "stores_extend s1 s2 \<Longrightarrow> stores_extend s2 s3 \<Longrightarrow> stores_extend s1 s3"
  by (auto simp: stores_extend_def intro: prefix_order.trans)

lemma am_step_extends: "stores_extend st (snd (am_step env clk st op))"
proof (cases op)
  case (TransferRequestOp fi ti c ty d a)
  then show ?thesis
    by (auto simp: stores_extend_def dest!: transfer_request_appends split: sum.splits)
next
  case (G8XTransferRequestOp fi ti c ty d a)
  then show ?thesis
    by (auto simp: stores_extend_def dest!: g8x_transfer_request_appends split: sum.splits)
next
  case (DepositIntoAccountOp inp)
  then show ?thesis
    using deposit_into_account_raises [of "env_flt env" "env_sign env" inp "deposits_file st"]
    by (auto split: sum.splits)
next
  case (G8XDepositIntoAccountOp inp)
  then show ?thesis
    by (auto simp: stores_extend_def dest!: g8x_deposit_appends split: sum.splits)
next
  case (CalculateBalanceOp iban)
  then show ?thesis
    using calculate_balance_raises [of "env_flt env" "env_fadd env" clk iban "transactions_file st"
        "balances_file st"]
    by (auto split: sum.splits)
next
  case (G8XCalculateBalanceOp iban)
  then show ?thesis
    by (auto simp: stores_extend_def dest!: g8x_calculate_balance_appends split: sum.splits)
qed

lemma am_step_unique:
  assumes "transfers_unique (stored (transfers_file st))"
  shows "transfers_unique (stored (transfers_file (snd (am_step env clk st op))))"
proof (cases op)
  case (TransferRequestOp fi ti c ty d a)
  then show ?thesis
    using assms
    by (auto simp: transfer_request_Inr TransferRequest_init_Inr transfers_unique_append
        duplicate_of_fun [of _ "env_md5 env"] split: sum.splits)
next
  case (G8XTransferRequestOp fi ti c ty d a)
  then show ?thesis
    using assms by (auto simp: transfers_unique_append dest!: g8x_transfer_request_Inr split: sum.splits)
qed (insert assms, auto split: sum.splits)

lemma am_step_counts:
  "length (stored (transfers_file (snd (am_step env clk st op)))) =
   length (stored (transfers_file st)) + (if is_transfer_code (fst (am_step env clk st op)) then 1 else 0)"
proof (cases op)
  case (TransferRequestOp fi ti c ty d a)
  then show ?thesis
    by (auto simp: is_transfer_code_def dest!: transfer_request_appends split: sum.splits)
next
  case (G8XTransferRequestOp fi ti c ty d a)
  then show ?thesis
    by (auto simp: is_transfer_code_def dest!: g8x_transfer_request_appends split: sum.splits)
qed (auto simp: is_transfer_code_def split: sum.splits)

lemma am_step_balances:
  assumes "log_ibans_es (transactions_file st)"
  shows "balances_file (snd (am_step env clk st op)) = balances_file st"
proof (cases op)
  case (CalculateBalanceOp iban)
  then show ?thesis
    using calculate_balance_raises [of "env_flt env" "env_fadd env" clk iban "transactions_file st"
        "balances_file st"]
    by (auto split: sum.splits)
next
  case (G8XCalculateBalanceOp iban)
  then show ?thesis
    using g8x_calculate_balance_raises [OF assms, of "env_flt env" "env_fadd env" clk iban
        "balances_file st"]
    by (auto split: sum.splits)
qed (auto split: sum.splits prod.splits)

lemma am_step_transactions: "transactions_file (snd (am_step env clk st op)) = transactions_file st"
  using am_step_extends [of st env clk op] by (simp add: stores_extend_def)

lemma am_step_deposits:
  assumes "deposits_nonzero st"
  shows "deposits_nonzero (snd (am_step env clk st op))"
proof (cases op)
  case (DepositIntoAccountOp inp)
  then show ?thesis
    using assms deposit_into_account_raises [of "env_flt env" "env_sign env" inp "deposits_file st"]
    by (auto split: sum.splits)
next
  case (G8XDepositIntoAccountOp inp)
  then show ?thesis
    using assms
    by (auto simp: deposits_nonzero_def AccountDeposit_def dest!: g8x_deposit_Inr split: sum.splits)
qed (insert assms, auto simp: deposits_nonzero_def split: sum.splits)

section \<open>Runs\<close>

lemma am_run_Cons:
  "am_run env st ((clk, op) # ops) =
     (fst (am_step env clk st op) # fst (am_run env (snd (am_step env clk st op)) ops),
      snd (am_run env (snd (am_step env clk st op)) ops))"
  by (simp add: case_prod_beta)

text \<open>A property every step keeps holds after every run.\<close>

lemma am_run_invariant:
  assumes step: "\<And>st clk op. P st \<Longrightarrow> P (snd (am_step env clk st op))" and "P st"
  shows "P (snd (am_run env st ops))"
  using assms(2)
proof (induction ops arbitrary: st)
  case (Cons x ops)
  obtain clk op where "x = (clk, op)" by fastforce
  then show ?case
    using Cons.IH [OF step [OF Cons.prems, of clk op]] by (simp add: am_run_Cons del: am_run.simps(2))
qed simp

text \<open>
  C22: whatever sequence of calls of either snapshot runs, every store only
  grows: the records already in the transfers, deposits and balances files
  stay, in order, at their head; the transactions log is never written; a
  malformed transfer store stays malformed.
\<close>

theorem am_run_append_only: "stores_extend st (snd (am_run env st ops))"
proof (induction ops arbitrary: st)
  case (Cons x ops)
  obtain clk op where "x = (clk, op)" by fastforce
  then show ?case
    using am_step_extends [of st env clk op] Cons.IH [of "snd (am_step env clk st op)"]
    by (simp add: am_run_Cons del: am_run.simps(2)) (blast intro: stores_extend_trans)
qed simp

text \<open>
  C23: the uniqueness invariant of the transfer store survives every
  sequence of calls of both snapshots, deposits and balances included.
\<close>

theorem am_run_transfers_unique:
  assumes "transfers_unique (stored (transfers_file st))"
  shows "transfers_unique (stored (transfers_file (snd (am_run env st ops))))"
  using am_step_unique assms by (rule am_run_invariant)

text \<open>
  C24: the transfer store gains exactly one record per transfer code the run
  returns: no call that raises, and no deposit or balance call, adds one.
\<close>

theorem am_run_counts:
  "length (stored (transfers_file (snd (am_run env st ops)))) =
   length (stored (transfers_file st)) + length (filter is_transfer_code (fst (am_run env st ops)))"
proof (induction ops arbitrary: st)
  case (Cons x ops)
  obtain clk op where "x = (clk, op)" by fastforce
  then show ?case
    using Cons.IH [of "snd (am_step env clk st op)"] am_step_counts [of env clk st op]
    by (simp add: am_run_Cons del: am_run.simps(2))
qed simp

text \<open>
  C27: when the transactions log holds IBANs, no sequence of calls of either
  snapshot ever writes the balances store: the current
  \<open>calculate_balance\<close> raises \<open>AttributeError\<close>, the older one looks the
  log up with the digit string \<open>validate_iban\<close> returns and raises
  \<open>IBAN not found\<close>, and no call writes the log.
\<close>

theorem am_run_no_balance_written:
  assumes "log_ibans_es (transactions_file st)"
  shows "balances_file (snd (am_run env st ops)) = balances_file st"
proof -
  have "log_ibans_es (transactions_file (snd (am_run env st ops))) \<and>
        balances_file (snd (am_run env st ops)) = balances_file st"
    by (rule am_run_invariant [where P = "\<lambda>s. log_ibans_es (transactions_file s) \<and>
          balances_file s = balances_file st"])
       (simp_all add: assms am_step_transactions am_step_balances)
  then show ?thesis ..
qed

text \<open>
  C28: the zero check of \<open>deposit_into_account\<close> is an invariant of the
  deposits store: if no stored deposit has amount \<open>0.0\<close>, none has after
  any sequence of calls of either snapshot.
\<close>

theorem am_run_deposits_nonzero:
  assumes "deposits_nonzero st"
  shows "deposits_nonzero (snd (am_run env st ops))"
  using am_step_deposits assms by (rule am_run_invariant)

section \<open>Witnesses\<close>

theorem am_run_transfers_unique_witness:
  "transfers_unique (stored (transfers_file ex_state)) \<and>
   transfers_unique (stored (transfers_file (snd (am_run ex_env ex_state ex_ops))))"
  using am_run_transfers_unique [of ex_state ex_env ex_ops] by (simp add: transfers_unique_def)

lemma ex_log_ibans: "log_ibans_es (JsonList [[(''IBAN'', ex_iban), (''amount'', ''100.0'')]])"
  by (simp add: log_ibans_es_def)

theorem am_run_no_balance_written_witness:
  "log_ibans_es (transactions_file (ex_state\<lparr>transactions_file :=
       JsonList [[(''IBAN'', ex_iban), (''amount'', ''100.0'')]]\<rparr>)) \<and>
   balances_file (snd (am_run ex_env (ex_state\<lparr>transactions_file :=
       JsonList [[(''IBAN'', ex_iban), (''amount'', ''100.0'')]]\<rparr>)
       [(ex_clock, G8XCalculateBalanceOp ex_iban), (ex_clock, CalculateBalanceOp ex_iban)])) =
     Missing True"
proof -
  have h: "log_ibans_es (transactions_file (ex_state\<lparr>transactions_file :=
       JsonList [[(''IBAN'', ex_iban), (''amount'', ''100.0'')]]\<rparr>))"
    using ex_log_ibans by simp
  show ?thesis
    using conjI [OF h am_run_no_balance_written [OF h, of ex_env
          "[(ex_clock, G8XCalculateBalanceOp ex_iban), (ex_clock, CalculateBalanceOp ex_iban)]"]]
    by (simp only: am_state.select_convs am_state.update_convs)
qed

abbreviation ex_dep_env :: am_env where
  "ex_dep_env \<equiv> ex_env\<lparr>env_flt := (\<lambda>s. if s = ''0000.00'' then Some (PyFinite False 0 0)
     else Some (PyFinite False 5 1))\<rparr>"

abbreviation ex_dep_state :: am_state where
  "ex_dep_state \<equiv> ex_state\<lparr>deposits_file :=
     JsonList [AccountDeposit (\<lambda>_ _. ''sig'') ex_iban (PyFinite False 1 2)]\<rparr>"

abbreviation ex_dep_ops :: "(clock \<times> am_op) list" where
  "ex_dep_ops \<equiv>
     [(ex_clock, G8XDepositIntoAccountOp (InputObject [(''IBAN'', ex_iban), (''AMOUNT'', ''EUR 0000.00'')])),
      (ex_clock, G8XDepositIntoAccountOp (InputObject [(''IBAN'', ex_iban), (''AMOUNT'', ''EUR 0050.00'')]))]"

lemma ex_dep_run:
  "stored (deposits_file (snd (am_run ex_dep_env ex_dep_state ex_dep_ops))) =
     [AccountDeposit (\<lambda>_ _. ''sig'') ex_iban (PyFinite False 1 2),
      AccountDeposit (\<lambda>_ _. ''sig'') ''21000418450200051332142800'' (PyFinite False 5 1)]"
  by (simp add: g8x_deposit_into_account_def g8x_validators_eq iban_example_valid read_deposit_input_def
      deposit_fields_def tuple_truthy_def store_deposit_def dec_value_def raise_ame_def Let_def)

theorem am_run_deposits_nonzero_witness:
  "deposits_nonzero ex_dep_state \<and> deposits_nonzero (snd (am_run ex_dep_env ex_dep_state ex_dep_ops)) \<and>
   stored (deposits_file (snd (am_run ex_dep_env ex_dep_state ex_dep_ops))) =
     [AccountDeposit (\<lambda>_ _. ''sig'') ex_iban (PyFinite False 1 2),
      AccountDeposit (\<lambda>_ _. ''sig'') ''21000418450200051332142800'' (PyFinite False 5 1)]"
proof -
  have h: "deposits_nonzero ex_dep_state"
    by (simp add: deposits_nonzero_def AccountDeposit_def dec_value_def)
  show ?thesis
    using conjI [OF h am_run_deposits_nonzero [OF h, of ex_dep_env ex_dep_ops]] ex_dep_run by simp
qed

end
