(* ===== verification/RequestSetters.thy ===== *)
theory RequestSetters
  imports TransferRequest
begin

text \<open>
  The properties of \<open>TransferRequest\<close> (\<open>transfer_request.py\<close>,
  lines 199--252) and its method stub \<open>transfer_request\<close>.  Each getter
  reads one private attribute; each setter writes one and does nothing else:
  no validator runs and the store is not touched.  The transfer code is a
  property computed from \<open>__str__\<close> on every read, so after a setter it no
  longer matches the code the store holds for the object.  The theory models
  the setters as record updates and the getters as selectors, names a setter
  call by a datatype, and shows what a call does to the code and to the
  checks the constructor ran.
\<close>

section \<open>The setters\<close>

text \<open>\<open>@from_iban.setter\<close> (lines 204--206).\<close>

definition set_from_iban :: "transfer_request \<Rightarrow> string \<Rightarrow> transfer_request" where
  "set_from_iban self value = self\<lparr>from_iban := value\<rparr>"

text \<open>\<open>@to_iban.setter\<close> (lines 213--215).\<close>

definition set_to_iban :: "transfer_request \<Rightarrow> string \<Rightarrow> transfer_request" where
  "set_to_iban self value = self\<lparr>to_iban := value\<rparr>"

text \<open>\<open>@transfer_type.setter\<close> (lines 221--223).\<close>

definition set_transfer_type :: "transfer_request \<Rightarrow> string \<Rightarrow> transfer_request" where
  "set_transfer_type self value = self\<lparr>transfer_type := value\<rparr>"

text \<open>\<open>@transfer_amount.setter\<close> (lines 229--231).\<close>

definition set_transfer_amount :: "transfer_request \<Rightarrow> pyfloat \<Rightarrow> transfer_request" where
  "set_transfer_amount self value = self\<lparr>transfer_amount := value\<rparr>"

text \<open>\<open>@transfer_concept.setter\<close> (lines 237--239): it writes \<open>__concept\<close>.\<close>

definition set_transfer_concept :: "transfer_request \<Rightarrow> string \<Rightarrow> transfer_request" where
  "set_transfer_concept self value = self\<lparr>concept := value\<rparr>"

text \<open>\<open>@transfer_date.setter\<close> (lines 245--247).\<close>

definition set_transfer_date :: "transfer_request \<Rightarrow> string \<Rightarrow> transfer_request" where
  "set_transfer_date self value = self\<lparr>transfer_date := value\<rparr>"

section \<open>The getters\<close>

text \<open>\<open>@property from_iban\<close> (lines 199--202).\<close>

definition get_from_iban :: "transfer_request \<Rightarrow> string" where
  "get_from_iban self = from_iban self"

text \<open>\<open>@property to_iban\<close> (lines 208--211).\<close>

definition get_to_iban :: "transfer_request \<Rightarrow> string" where
  "get_to_iban self = to_iban self"

text \<open>\<open>@property transfer_type\<close> (lines 217--220).\<close>

definition get_transfer_type :: "transfer_request \<Rightarrow> string" where
  "get_transfer_type self = transfer_type self"

text \<open>\<open>@property transfer_amount\<close> (lines 225--228).\<close>

definition get_transfer_amount :: "transfer_request \<Rightarrow> pyfloat" where
  "get_transfer_amount self = transfer_amount self"

text \<open>\<open>@property transfer_concept\<close> (lines 233--236): it reads \<open>__concept\<close>.\<close>

definition get_transfer_concept :: "transfer_request \<Rightarrow> string" where
  "get_transfer_concept self = concept self"

text \<open>\<open>@property transfer_date\<close> (lines 241--244).\<close>

definition get_transfer_date :: "transfer_request \<Rightarrow> string" where
  "get_transfer_date self = transfer_date self"

text \<open>\<open>@property time_stamp\<close> (lines 249--252), read-only.\<close>

definition get_time_stamp :: "transfer_request \<Rightarrow> pyfloat" where
  "get_time_stamp self = time_stamp self"

section \<open>The method \<open>transfer_request\<close>\<close>

text \<open>
  \<open>def transfer_request(self)->str\<close> (lines 124--127): the body is a
  docstring, so the call returns \<open>None\<close> and does nothing else.
\<close>

definition TransferRequest_transfer_request :: "transfer_request \<Rightarrow> string option" where
  "TransferRequest_transfer_request self = None"

section \<open>Setter calls\<close>

text \<open>
  A setter call \<open>obj.<name> = value\<close>; \<open>time_stamp\<close> (lines 249--252) has no
  setter, and the store path is not a property.
\<close>

datatype tr_setter =
    SetFromIban string
  | SetToIban string
  | SetTransferType string
  | SetTransferAmount pyfloat
  | SetTransferConcept string
  | SetTransferDate string

fun apply_setter :: "tr_setter \<Rightarrow> transfer_request \<Rightarrow> transfer_request" where
  "apply_setter (SetFromIban v) s = set_from_iban s v"
| "apply_setter (SetToIban v) s = set_to_iban s v"
| "apply_setter (SetTransferType v) s = set_transfer_type s v"
| "apply_setter (SetTransferAmount v) s = set_transfer_amount s v"
| "apply_setter (SetTransferConcept v) s = set_transfer_concept s v"
| "apply_setter (SetTransferDate v) s = set_transfer_date s v"

section \<open>Notions\<close>

text \<open>
  The call leaves the text \<open>__str__\<close> gives unchanged: the new value is the
  old one, for the amount the same printed float.
\<close>

fun setter_keeps_str :: "tr_setter \<Rightarrow> transfer_request \<Rightarrow> bool" where
  "setter_keeps_str (SetFromIban v) s \<longleftrightarrow> v = from_iban s"
| "setter_keeps_str (SetToIban v) s \<longleftrightarrow> v = to_iban s"
| "setter_keeps_str (SetTransferType v) s \<longleftrightarrow> v = transfer_type s"
| "setter_keeps_str (SetTransferAmount v) s \<longleftrightarrow> json_float v = json_float (transfer_amount s)"
| "setter_keeps_str (SetTransferConcept v) s \<longleftrightarrow> v = concept s"
| "setter_keeps_str (SetTransferDate v) s \<longleftrightarrow> v = transfer_date s"

text \<open>The new value passes the check the constructor runs on its field.\<close>

fun setter_value_checked :: "tr_setter \<Rightarrow> bool" where
  "setter_value_checked (SetFromIban v) \<longleftrightarrow> \<not> isl (validate_iban v)"
| "setter_value_checked (SetToIban v) \<longleftrightarrow> \<not> isl (validate_iban v)"
| "setter_value_checked (SetTransferType v) \<longleftrightarrow> validate_transfer_type v = Inr ()"
| "setter_value_checked (SetTransferAmount v) \<longleftrightarrow> validate_amount v = Inr ()"
| "setter_value_checked (SetTransferConcept v) \<longleftrightarrow> validate_concept v = Inr ()"
| "setter_value_checked (SetTransferDate v) \<longleftrightarrow> date_regex v \<and> strptime_dmy v \<noteq> None"

section \<open>Facts\<close>

lemmas setter_defs = set_from_iban_def set_to_iban_def set_transfer_type_def
  set_transfer_amount_def set_transfer_concept_def set_transfer_date_def

lemma transfer_str_apply_setter:
  "transfer_str (apply_setter op s) = transfer_str s \<longleftrightarrow> setter_keeps_str op s"
  by (cases op) (simp_all add: transfer_str_eq_iff setter_defs)

lemma stored_last_code:
  "TransferRequest_init md5 clk fi ty ti c d a p f = Inr (s, f') \<Longrightarrow>
   last (stored f') = to_json md5 s"
  by (simp add: TransferRequest_init_Inr)

lemma record_well_typed_apply_setter:
  assumes "record_well_typed (to_json md5 s)"
  shows "record_well_typed (to_json md5' (apply_setter op s)) \<longleftrightarrow> setter_value_checked op"
  using assms
  by (cases op) (auto simp: record_well_typed_def to_json_def setter_defs)

section \<open>A setter after the request is stored\<close>

text \<open>
  C25: after a construction that returns normally, the record the store holds
  last is the object's; with an injective hash, the transfer code the object
  reports after a setter call is the stored one exactly when the call left
  its text unchanged.  Any real change of a field makes the object's
  \<open>transfer_code\<close> differ from the code stored for it.
\<close>

theorem setter_stale_code:
  assumes "inj md5"
    and "TransferRequest_init md5 clk fi ty ti c d a p f = Inr (s, f')"
  shows "transfer_code md5 (apply_setter op s) = rec_transfer_code (last (stored f')) \<longleftrightarrow>
    setter_keeps_str op s"
proof -
  have "rec_transfer_code (last (stored f')) = md5 (transfer_str s)"
    using stored_last_code [OF assms(2)] by (simp add: to_json_def transfer_code_def)
  then show ?thesis
    using assms(1) by (simp add: transfer_code_def inj_eq transfer_str_apply_setter)
qed

text \<open>
  C26: the setters run none of the validators.  After a construction that
  returns normally, the record \<open>to_json\<close> gives after one setter call passes
  the constructor's checks exactly when the new value passes the check of its
  own field: a setter can put a malformed IBAN, an unknown type, an
  out-of-range amount, a bad concept or a bad date into the object without an
  exception.
\<close>

theorem setter_skips_validation:
  assumes "TransferRequest_init md5 clk fi ty ti c d a p f = Inr (s, f')"
  shows "record_well_typed (to_json md5 (apply_setter op s)) \<longleftrightarrow> setter_value_checked op"
proof -
  have "record_well_typed (to_json md5 s)"
    using assms by (auto simp: TransferRequest_init_Inr intro: to_json_well_typed)
  then show ?thesis
    by (rule record_well_typed_apply_setter)
qed

section \<open>Witnesses\<close>

lemma example_stored:
  "TransferRequest_init (\<lambda>x. x) ex_clock ex_iban ''URGENT'' ex_iban ''Pago alquiler'' ''09/11/2026''
     (PyFinite False 1 2) ''transfers.json'' (Missing True) =
   Inr (ex_request ex_clock (PyFinite False 1 2),
        JsonList [to_json (\<lambda>x. x) (ex_request ex_clock (PyFinite False 1 2))])"
  using example_init [of ex_clock "PyFinite False 1 2" "Missing True" "\<lambda>x. x"] example_amounts
  by simp

theorem setter_stale_code_witness:
  "inj (\<lambda>x::string. x) \<and>
   TransferRequest_init (\<lambda>x. x) ex_clock ex_iban ''URGENT'' ex_iban ''Pago alquiler'' ''09/11/2026''
     (PyFinite False 1 2) ''transfers.json'' (Missing True) =
   Inr (ex_request ex_clock (PyFinite False 1 2),
        JsonList [to_json (\<lambda>x. x) (ex_request ex_clock (PyFinite False 1 2))]) \<and>
   transfer_code (\<lambda>x. x) (apply_setter (SetTransferAmount (PyFinite False 2 2))
       (ex_request ex_clock (PyFinite False 1 2))) \<noteq>
     rec_transfer_code (last [to_json (\<lambda>x. x) (ex_request ex_clock (PyFinite False 1 2))])"
proof -
  have "\<not> setter_keeps_str (SetTransferAmount (PyFinite False 2 2)) (ex_request ex_clock (PyFinite False 1 2))"
    by (simp add: new_request_def json_float_def py_float_repr_def nat_digits.simps exp_suffix_def Let_def)
  then show ?thesis
    using setter_stale_code [OF _ example_stored, of "SetTransferAmount (PyFinite False 2 2)"] example_stored
    by simp
qed

theorem setter_skips_validation_witness:
  "TransferRequest_init (\<lambda>x. x) ex_clock ex_iban ''URGENT'' ex_iban ''Pago alquiler'' ''09/11/2026''
     (PyFinite False 1 2) ''transfers.json'' (Missing True) =
   Inr (ex_request ex_clock (PyFinite False 1 2),
        JsonList [to_json (\<lambda>x. x) (ex_request ex_clock (PyFinite False 1 2))]) \<and>
   \<not> record_well_typed (to_json (\<lambda>x. x) (apply_setter (SetTransferType ''REGULAR'')
       (ex_request ex_clock (PyFinite False 1 2))))"
  using setter_skips_validation [OF example_stored, of "SetTransferType ''REGULAR''"] example_stored
  by (simp add: validate_transfer_type_def transfer_types_def)

end
