(* ===== verification/Spec2Isabelle.thy ===== *)
theory Spec2Isabelle
  imports AccountSystem RequestSetters
begin

text \<open>
  \<^bold>\<open>A verification library for the uc3m_money transfer validator.\<close>

  \<^bold>\<open>The program.\<close> The repository holds two snapshots of a small Python
  banking module:
  \<^item> \<open>src/src/main/python/uc3m_money/transfer_request.py\<close>: the class
    \<open>TransferRequest\<close>, whose constructor validates two IBANs, a concept, a
    transfer type, a date and an amount, then appends itself to a JSON store
    unless an equal request is already stored; its \<open>transfer_code\<close> is the MD5
    of its textual form \<open>"Transfer:" + json.dumps(self.__dict__)\<close>;
  \<^item> \<open>src/src/main/python/uc3m_money/account_manager.py\<close>: the current
    \<open>AccountManager\<close>: \<open>transfer_request\<close> delegates to \<open>TransferRequest\<close>;
    \<open>deposit_into_account\<close> and \<open>calculate_balance\<close> read an input file or
    the transactions log and append to the deposits or balances store;
  \<^item> \<open>src/G8X.2025.T00.GE4-main/.../account_manager.py\<close>: the older
    \<open>AccountManager\<close>, which holds the validators itself and scans the
    transfer store inline.

  \<^bold>\<open>Theories\<close>, in import order:
  \<^item> \<open>Prelude\<close>: the exceptions (\<open>exc\<close>), the result type
    \<open>'a py = exc + 'a\<close> with \<open>py_bind\<close> and its split rules, substitution
    tables on lists, decimal digit strings and \<open>int()\<close>;
  \<^item> \<open>PyRuntime\<close>: the library functions the code calls: \<open>str.replace\<close>
    (a \<open>function\<close> with a measure), \<open>str.split\<close>, the regular-expression
    classes \<open>\s\<close> and \<open>.\<close>, and Python floats as decimals
    (\<open>pyfloat\<close>: sign, coefficient, exponent; infinities; NaN) with their
    comparisons and CPython's shortest \<open>repr\<close>;
  \<^item> \<open>Iban\<close>: \<open>TransferRequest.validate_iban\<close> (lines 39--88) and its
    refinement of the ISO 7064 mod-97 rule (C1), single-digit error detection
    (C2), with the replace chain shown to be a one-pass substitution of
    each letter by its code;
  \<^item> \<open>Validators\<close>: \<open>validate_amount\<close> (C3), \<open>validate_concept\<close> (a DFA
    for the regular expression, C4), \<open>validate_transfer_type\<close>,
    \<open>validate_transfer_date\<close> (regex, \<open>strptime\<close>, Gregorian calendar, C5);
  \<^item> \<open>PyJson\<close>: \<open>json.dumps\<close> of strings (ASCII escaping), floats and flat
    objects, the text hashed for the transfer code, and the one-step decoder
    showing the string encoding uniquely decodable;
  \<^item> \<open>JsonStore\<close>: a store file as the value \<open>json.load\<close> gives (absent with
    or without its directory, malformed, an array), read and rewrite;
  \<^item> \<open>TransferRequest\<close>: the object as a record, \<open>__str__\<close>,
    \<open>transfer_code\<close>, \<open>to_json\<close>, \<open>is_duplicate_transfer\<close>,
    \<open>store_transfer_request\<close>, the validations of \<open>__init__\<close>
    (\<open>validate_fields\<close>) and \<open>__init__\<close> itself; the store as a state machine
    (\<open>transfer_store_reach\<close>, an inductive predicate).  Lemmas: round trip
    through the store (C6), rejection of resubmission (C7), the uniqueness
    invariant under Python \<open>==\<close> (C8) and its failure for NaN amounts (C9),
    the hashed text determines the request (C15), well-typed stored records
    (C17), the error paths in their order (C18);
  \<^item> \<open>RequestSetters\<close>: the properties of \<open>TransferRequest\<close>
    (lines 199--252): six setters as record updates, seven getters, a
    datatype of setter calls (\<open>tr_setter\<close>, \<open>apply_setter\<close>), and the method
    stub \<open>transfer_request\<close> (lines 124--127), which returns \<open>None\<close>; a
    setter that changes a field makes the object's transfer code differ from
    the stored one (C25), and no setter validates its value (C26);
  \<^item> \<open>AccountManager\<close>: the current \<open>AccountManager\<close>; its deposit and
    balance paths raise \<open>AttributeError\<close> (C13, C14); the balance loop sums the
    entries of the IBAN in log order (C19);
  \<^item> \<open>AccountManagerG8X\<close>: the older \<open>AccountManager\<close>, with its own
    validators shown equal to the current ones; its transfer path equals the
    current one except for the IMMEDIATE/INMEDIATE spelling (C10), its
    balance never finds an IBAN (C11), its deposit skips the amount format
    check (C12) but rejects zero (C21); a store written by both snapshots in
    any interleaving (\<open>shared_store_reach\<close>) keeps the uniqueness
    invariant (C20);
  \<^item> \<open>AccountSystem\<close>: the composition of the six public methods of both
    snapshots over one state of four store files (\<open>am_state\<close>): a
    \<open>datatype\<close> of calls (\<open>am_op\<close>), one step (\<open>am_step\<close>) and a run over
    a sequence of clocked calls (\<open>am_run\<close>).  Over any sequence of calls the
    stores only grow at their end and the transactions log is never written
    (C22), the transfer store keeps the uniqueness invariant (C23), and it
    gains exactly one record per transfer code returned (C24); when the log
    holds IBANs the balances store is never written (C27); no stored deposit
    ever has amount zero (C28), the deposit method's zero check lifted to
    the store.  The invariants are proved once for a step
    and lifted to runs by \<open>am_run_invariant\<close>;
  \<^item> this theory: the specification's transfer contract and the refinement
    theorem that the current \<open>transfer_request\<close> implements it (C16).

  \<^bold>\<open>Effects.\<close> Every method returns \<open>Inl\<close> of the exception it raises or
  \<open>Inr\<close> of its result paired with the store file it leaves; a store is
  rewritten only on the \<open>Inr\<close> branch, as in the code.  The two clock
  readings are a \<open>clock\<close> record (time stamp, UTC date); MD5, \<open>float()\<close>
  on strings, float addition and the deposit signature are parameters.  No
  loop needs fuel: every loop of the code is a \<open>for\<close> over a finite list
  its body does not change, modelled as structural recursion on the list.

  \<^bold>\<open>What the theorems show of the code.\<close> \<open>validate_iban\<close> returns the
  rearranged digit string, not the IBAN (C1), which makes the older
  \<open>calculate_balance\<close> miss every IBAN (C11) and its deposits record that
  string (C12); NaN passes \<open>validate_amount\<close> (C3) and defeats the duplicate
  check (C9); \<open>\s\<close> lets tabs and other whitespace separate concept words
  (C4); the current \<open>AccountManager\<close> calls a \<open>validate_iban\<close> it does not
  have (C13, C14); the transfer code hashes the store path and time stamp
  with the fields (C15), and a setter call leaves the stored code stale and
  the field unchecked (C25, C26); no sequence of calls of either snapshot
  can record a balance (C27).

  \<^bold>\<open>Not modelled.\<close> \<open>account_deposit.py\<close>,
  \<open>account_management_config.py\<close> and \<open>account_management_exception.py\<close>
  are not in the sources: the deposit object is modelled from the
  specification, store paths are the files passed in, the exception is
  \<open>exc\<close>.  The G8X snapshot's own \<open>TransferRequest\<close> is a parameter.  JSON
  values outside the shapes the code writes (non-list stores, records missing
  a key, non-string members) and arguments of other Python types than the
  annotated ones are not modelled; neither are file-system races between
  concurrent callers, which the specification leaves out of scope.  The
  import lines and class headers have no behaviour; the older snapshot's
  \<open>check_regex\<close> (lines 71--76) is \<open>re.fullmatch\<close>, modelled inside each
  validator by the language its pattern matches.
\<close>

section \<open>The transfer contract of the specification\<close>

text \<open>
  The conditions of the specification's validator table, as the library
  states them: an IBAN satisfying ISO 7064 with check digits 02..98, a concept
  of words, a real date from today to 2050, an amount within bounds with at
  most two decimals (NaN included, as the code accepts it).
\<close>

definition iban_valid :: "string \<Rightarrow> bool" where
  "iban_valid s \<longleftrightarrow> iban_format_ok s \<and> iban_checksum_ok s \<and> 2 \<le> check_digits s \<and> check_digits s \<le> 98"

definition concept_valid :: "string \<Rightarrow> bool" where
  "concept_valid c \<longleftrightarrow> 10 \<le> length c \<and> length c \<le> 30 \<and> CHR 0x0A \<notin> set c \<and> concept_words c"

definition date_valid :: "pydate \<Rightarrow> string \<Rightarrow> bool" where
  "date_valid today d \<longleftrightarrow>
     (\<exists>dt. d = dmy_string dt \<and> valid_date dt \<and> today \<le> dt \<and> 2025 \<le> fst dt \<and> fst dt \<le> 2050)"

definition amount_valid :: "pyfloat \<Rightarrow> bool" where
  "amount_valid a \<longleftrightarrow> a = PyNaN \<or>
     (\<exists>neg c e. a = PyFinite neg c e \<and> 10 \<le> dec_value neg c e \<and> dec_value neg c e \<le> 10000 \<and> -2 \<le> e)"

lemma iban_valid_code: "\<not> isl (validate_iban s) \<longleftrightarrow> iban_valid s"
  by (simp add: validate_iban_eq iban_valid_def raise_ame_def)

lemma date_valid_code: "\<not> isl (validate_transfer_date today d) \<longleftrightarrow> date_valid today d"
  by (auto simp: not_isl_iff validate_transfer_date_iff date_valid_def)

lemma fields_valid_spec:
  "fields_valid clk fi ty ti c d a \<longleftrightarrow>
     iban_valid fi \<and> iban_valid ti \<and> concept_valid c \<and> ty \<in> set transfer_types \<and>
     date_valid (clock_today clk) d \<and> amount_valid a"
  unfolding fields_valid_def iban_valid_code date_valid_code validate_concept_iff validate_amount_iff
    concept_valid_def amount_valid_def
  by (simp add: validate_transfer_type_def raise_ame_def)

text \<open>
  C16: \<open>AccountManager.transfer_request\<close> of the current snapshot implements
  the transfer contract: it returns a code exactly when both IBANs, the
  concept, the type, the date and the amount meet the conditions above, the
  store can be read and written, and no stored record equals the request on
  its six fields; it then returns the request's transfer code and the store
  with the request's record appended.
\<close>

theorem transfer_request_contract:
  "AccountManager.transfer_request md5 clk p fi ti c ty d a f = Inr (code, f') \<longleftrightarrow>
     iban_valid fi \<and> iban_valid ti \<and> concept_valid c \<and> ty \<in> set transfer_types \<and>
     date_valid (clock_today clk) d \<and> amount_valid a \<and> f \<noteq> Malformed \<and> f \<noteq> Missing False \<and>
     \<not> list_ex (\<lambda>r. same_transfer r (to_json md5 (new_request clk fi ty ti c d a p))) (stored f) \<and>
     code = transfer_code md5 (new_request clk fi ty ti c d a p) \<and>
     f' = JsonList (stored f @ [to_json md5 (new_request clk fi ty ti c d a p)])"
  by (auto simp: transfer_request_Inr TransferRequest_init_Inr fields_valid_spec duplicate_of_fun [of _ md5])

section \<open>Witnesses\<close>

theorem transfer_request_contract_witness:
  "AccountManager.transfer_request (\<lambda>x. x) ex_clock ''transfers.json'' ex_iban ex_iban ''Pago alquiler''
      ''URGENT'' ''09/11/2026'' (PyFinite False 1 2) (Missing True) =
     Inr (transfer_code (\<lambda>x. x) (ex_request ex_clock (PyFinite False 1 2)),
          JsonList [to_json (\<lambda>x. x) (ex_request ex_clock (PyFinite False 1 2))]) \<and>
   iban_valid ex_iban \<and> concept_valid ''Pago alquiler'' \<and> date_valid (2026, 11, 9) ''09/11/2026'' \<and>
   amount_valid (PyFinite False 1 2) \<and>
   AccountManager.transfer_request (\<lambda>x. x) ex_clock ''transfers.json'' ex_iban ex_iban ''Pago alquiler''
      ''IMMEDIATE'' ''09/11/2026'' (PyFinite False 1 2) (Missing True) \<noteq>
     Inr (transfer_code (\<lambda>x. x) (ex_request ex_clock (PyFinite False 1 2)),
          JsonList [to_json (\<lambda>x. x) (ex_request ex_clock (PyFinite False 1 2))])"
proof -
  have init: "TransferRequest_init (\<lambda>x. x) ex_clock ex_iban ''URGENT'' ex_iban ''Pago alquiler''
     ''09/11/2026'' (PyFinite False 1 2) ''transfers.json'' (Missing True) =
     Inr (ex_request ex_clock (PyFinite False 1 2),
          JsonList [to_json (\<lambda>x. x) (ex_request ex_clock (PyFinite False 1 2))])"
    using example_init [of ex_clock "PyFinite False 1 2" "Missing True"] example_amounts by simp
  have tr: "AccountManager.transfer_request (\<lambda>x. x) ex_clock ''transfers.json'' ex_iban ex_iban
      ''Pago alquiler'' ''URGENT'' ''09/11/2026'' (PyFinite False 1 2) (Missing True) =
    Inr (transfer_code (\<lambda>x. x) (ex_request ex_clock (PyFinite False 1 2)),
        JsonList [to_json (\<lambda>x. x) (ex_request ex_clock (PyFinite False 1 2))])"
    unfolding AccountManager.transfer_request_def init by simp
  note ok = transfer_request_contract [of "\<lambda>x. x" ex_clock "''transfers.json''" ex_iban ex_iban
      "''Pago alquiler''" "''URGENT''" "''09/11/2026''" "PyFinite False 1 2" "Missing True"
      "transfer_code (\<lambda>x. x) (ex_request ex_clock (PyFinite False 1 2))"
      "JsonList [to_json (\<lambda>x. x) (ex_request ex_clock (PyFinite False 1 2))]"]
  note bad = transfer_request_contract [of "\<lambda>x. x" ex_clock "''transfers.json''" ex_iban ex_iban
      "''Pago alquiler''" "''IMMEDIATE''" "''09/11/2026''" "PyFinite False 1 2" "Missing True"
      "transfer_code (\<lambda>x. x) (ex_request ex_clock (PyFinite False 1 2))"
      "JsonList [to_json (\<lambda>x. x) (ex_request ex_clock (PyFinite False 1 2))]"]
  show ?thesis
    using tr ok bad by (simp add: transfer_types_def)
qed

end
